theory Spec2Isabelle
  imports Complex_Main "HOL-Library.Word" "HOL-Library.AList"
begin

unbundle bit_operations_syntax

section \<open>JavaScript values\<close>

text \<open>
  The engine exists in two variants in the repository: a compact one (\<open>seededRandom\<close>,
  \<open>_lookupPrice\<close>, \<open>_buildBaselines\<close>, \<open>_convertCurrency\<close>, \<open>_findCurrencyOffer\<close>,
  \<open>_randomizePrice\<close>, \<open>_updateOffer\<close>, \<open>_processTrader\<close>, \<open>_runCycle\<close>) and a verbose one
  (\<open>createDeterministicRandomGenerator\<close>, \<open>_lookupTemplatePriceFromDatabase\<close>,
  \<open>_buildBaselinePricesFromTraders\<close>, \<open>_convertRublesToTargetCurrency\<close>,
  \<open>_findCurrencyOfferInTradeList\<close>, \<open>_calculateRandomizedPrice\<close>,
  \<open>_updateTradeOfferPrice\<close>, \<open>_randomizeTraderPrices\<close>, \<open>_executeOneRandomizationCycle\<close>).
  Both are embedded, each function under its own name.

  A JavaScript number is \<open>NaN\<close>, \<open>-Infinity\<close>, \<open>Infinity\<close> or a finite double. A finite
  double is modelled as the real it denotes. The result of \<open>+\<close>, \<open>-\<close>, \<open>*\<close> or \<open>/\<close> on
  finite operands is the exact result while that is smaller in absolute value than
  \<open>2^1024 - 2^970\<close>, the least real that rounding to nearest takes to an infinity, and
  the infinity of its sign from there on. Special values follow IEEE 754
  (\<open>Infinity - Infinity\<close> and \<open>0 * Infinity\<close> are \<open>NaN\<close>). The rounding of a result within
  the range to 53 significant bits and the sign of zero are not modelled: where the
  code rounds, a price computed here can differ from the code's in its last unit
  (\<open>100 * 1.1\<close> rounded up is \<open>111\<close> in the code, the double nearest \<open>1.1\<close> lying
  above it, and \<open>110\<close> here). The concrete computations below are exact in doubles.
\<close>

datatype jsnum = NaN | NInf | Fin real | PInf

definition overflow_threshold :: real where
  "overflow_threshold = 2 ^ 1024 - 2 ^ 970"

text \<open>\<open>Number.MAX_VALUE\<close>, the largest finite double\<close>

definition MAX_VALUE :: real where
  "MAX_VALUE = 2 ^ 1024 - 2 ^ 971"

text \<open>The double for the exact result \<open>x\<close> of an operation on finite operands.\<close>

definition fl :: "real \<Rightarrow> jsnum" where
  "fl x = (if overflow_threshold \<le> x then PInf
           else if x \<le> - overflow_threshold then NInf
           else Fin x)"

text \<open>
  The values found in the reference tables: a missing property is \<open>Undefined\<close>.
  Identifiers (\<open>_tpl\<close>, \<open>_id\<close>, \<open>Id\<close>, \<open>id\<close>) are strings or missing: \<open>None\<close> is
  \<open>undefined\<close>.
\<close>

datatype jsval = Undefined | Null | Num jsnum | Str string

type_synonym ident = "string option"

datatype exn = TypeError

fun truthy :: "jsval \<Rightarrow> bool" where
  "truthy Undefined = False"
| "truthy Null = False"
| "truthy (Num NaN) = False"
| "truthy (Num NInf) = True"
| "truthy (Num (Fin r)) = (r \<noteq> 0)"
| "truthy (Num PInf) = True"
| "truthy (Str s) = (s \<noteq> [])"

text \<open>\<open>a || b\<close>\<close>

definition js_or :: "jsval \<Rightarrow> jsval \<Rightarrow> jsval" where
  "js_or a b = (if truthy a then a else b)"

text \<open>
  Numeric coercion. On strings it is the builtin \<open>Number\<close>, which every function below
  takes as the parameter \<open>N\<close>.
\<close>

fun ToNumber :: "(string \<Rightarrow> jsnum) \<Rightarrow> jsval \<Rightarrow> jsnum" where
  "ToNumber N Undefined = NaN"
| "ToNumber N Null = Fin 0"
| "ToNumber N (Num n) = n"
| "ToNumber N (Str s) = N s"

text \<open>\<open>a < b\<close> on numbers: false when either is \<open>NaN\<close>\<close>

fun num_lt :: "jsnum \<Rightarrow> jsnum \<Rightarrow> bool" where
  "num_lt NaN b = False"
| "num_lt a NaN = False"
| "num_lt (Fin x) (Fin y) = (x < y)"
| "num_lt PInf b = False"
| "num_lt a NInf = False"
| "num_lt NInf b = True"
| "num_lt a PInf = True"

text \<open>\<open>a <= b\<close>\<close>

fun num_le :: "jsnum \<Rightarrow> jsnum \<Rightarrow> bool" where
  "num_le NaN b = False"
| "num_le a NaN = False"
| "num_le (Fin x) (Fin y) = (x \<le> y)"
| "num_le NInf b = True"
| "num_le a PInf = True"
| "num_le PInf b = False"
| "num_le a NInf = False"

text \<open>The comparisons with \<open>0\<close>: \<open>a > 0\<close>, \<open>a <= 0\<close>, \<open>a < 0\<close>\<close>

fun num_gt0 :: "jsnum \<Rightarrow> bool" where
  "num_gt0 NaN = False"
| "num_gt0 NInf = False"
| "num_gt0 (Fin r) = (0 < r)"
| "num_gt0 PInf = True"

fun num_le0 :: "jsnum \<Rightarrow> bool" where
  "num_le0 NaN = False"
| "num_le0 NInf = True"
| "num_le0 (Fin r) = (r \<le> 0)"
| "num_le0 PInf = False"

fun num_lt0 :: "jsnum \<Rightarrow> bool" where
  "num_lt0 NaN = False"
| "num_lt0 NInf = True"
| "num_lt0 (Fin r) = (r < 0)"
| "num_lt0 PInf = False"

text \<open>\<open>v > 0\<close> and \<open>v <= 0\<close> on any value\<close>

definition gt0 :: "(string \<Rightarrow> jsnum) \<Rightarrow> jsval \<Rightarrow> bool" where
  "gt0 N v = num_gt0 (ToNumber N v)"

definition le0 :: "(string \<Rightarrow> jsnum) \<Rightarrow> jsval \<Rightarrow> bool" where
  "le0 N v = num_le0 (ToNumber N v)"

fun num_neg :: "jsnum \<Rightarrow> jsnum" where
  "num_neg NaN = NaN"
| "num_neg NInf = PInf"
| "num_neg (Fin a) = Fin (- a)"
| "num_neg PInf = NInf"

fun num_add :: "jsnum \<Rightarrow> jsnum \<Rightarrow> jsnum" where
  "num_add NaN b = NaN"
| "num_add a NaN = NaN"
| "num_add (Fin a) (Fin b) = fl (a + b)"
| "num_add PInf NInf = NaN"
| "num_add NInf PInf = NaN"
| "num_add PInf b = PInf"
| "num_add a PInf = PInf"
| "num_add NInf b = NInf"
| "num_add a NInf = NInf"

definition num_sub :: "jsnum \<Rightarrow> jsnum \<Rightarrow> jsnum" where
  "num_sub a b = num_add a (num_neg b)"

fun num_mul :: "jsnum \<Rightarrow> jsnum \<Rightarrow> jsnum" where
  "num_mul NaN b = NaN"
| "num_mul a NaN = NaN"
| "num_mul (Fin a) (Fin b) = fl (a * b)"
| "num_mul (Fin a) PInf = (if a = 0 then NaN else if 0 < a then PInf else NInf)"
| "num_mul (Fin a) NInf = (if a = 0 then NaN else if 0 < a then NInf else PInf)"
| "num_mul PInf (Fin b) = (if b = 0 then NaN else if 0 < b then PInf else NInf)"
| "num_mul NInf (Fin b) = (if b = 0 then NaN else if 0 < b then NInf else PInf)"
| "num_mul PInf PInf = PInf"
| "num_mul NInf NInf = PInf"
| "num_mul PInf NInf = NInf"
| "num_mul NInf PInf = NInf"

text \<open>A zero divisor counts as \<open>+0\<close>.\<close>

fun num_div :: "jsnum \<Rightarrow> jsnum \<Rightarrow> jsnum" where
  "num_div NaN b = NaN"
| "num_div a NaN = NaN"
| "num_div (Fin a) (Fin b) =
     (if b = 0 then (if a = 0 then NaN else if 0 < a then PInf else NInf)
      else fl (a / b))"
| "num_div (Fin a) PInf = Fin 0"
| "num_div (Fin a) NInf = Fin 0"
| "num_div PInf (Fin b) = (if 0 \<le> b then PInf else NInf)"
| "num_div NInf (Fin b) = (if 0 \<le> b then NInf else PInf)"
| "num_div PInf b = NaN"
| "num_div NInf b = NaN"

definition Math_max :: "jsnum \<Rightarrow> jsnum \<Rightarrow> jsnum" where
  "Math_max a b = (if a = NaN \<or> b = NaN then NaN else if num_lt a b then b else a)"

definition Math_min :: "jsnum \<Rightarrow> jsnum \<Rightarrow> jsnum" where
  "Math_min a b = (if a = NaN \<or> b = NaN then NaN else if num_lt b a then b else a)"

fun Math_floor :: "jsnum \<Rightarrow> jsnum" where
  "Math_floor (Fin a) = Fin (of_int \<lfloor>a\<rfloor>)"
| "Math_floor v = v"

fun Math_ceil :: "jsnum \<Rightarrow> jsnum" where
  "Math_ceil (Fin a) = Fin (of_int \<lceil>a\<rceil>)"
| "Math_ceil v = v"

text \<open>\<open>Math.round\<close> rounds a tie towards plus infinity.\<close>

fun Math_round :: "jsnum \<Rightarrow> jsnum" where
  "Math_round (Fin a) = Fin (of_int \<lfloor>a + 1 / 2\<rfloor>)"
| "Math_round v = v"

fun isFinite :: "jsnum \<Rightarrow> bool" where
  "isFinite (Fin a) = True"
| "isFinite v = False"

text \<open>\<open>round\<close> and \<open>roundValueByMode\<close>: the same function under two names.\<close>

definition round_mode :: "jsnum \<Rightarrow> string \<Rightarrow> jsnum" where
  "round_mode v mode =
     (if mode = ''floor'' then Math_floor v
      else if mode = ''ceil'' then Math_ceil v
      else Math_round v)"

definition roundValueByMode :: "jsnum \<Rightarrow> string \<Rightarrow> jsnum" where
  "roundValueByMode valueToRound roundingMode =
     (if roundingMode = ''floor'' then Math_floor valueToRound
      else if roundingMode = ''ceil'' then Math_ceil valueToRound
      else Math_round valueToRound)"

text \<open>
  \<open>object[key]\<close> on an object that came from \<open>JSON.parse\<close> or from a literal: an own
  property, else one inherited from \<open>Object.prototype\<close>, else \<open>undefined\<close>. The own
  properties are listed with their keys; one whose value is falsy is left out, as every
  such read below is only tested for truth. What is inherited is a function, or
  \<open>Object.prototype\<close> itself for \<open>__proto__\<close>: a truthy value with none of the properties
  the engine reads.
\<close>

definition Object_prototype :: "string list" where
  "Object_prototype =
     [''constructor'', ''__defineGetter__'', ''__defineSetter__'', ''hasOwnProperty'',
      ''__lookupGetter__'', ''__lookupSetter__'', ''isPrototypeOf'',
      ''propertyIsEnumerable'', ''toString'', ''valueOf'', ''__proto__'',
      ''toLocaleString'']"

datatype 'a property = Own 'a | Inherited | Absent

definition get_prop :: "(string \<times> 'a) list \<Rightarrow> string \<Rightarrow> 'a property" where
  "get_prop obj key =
     (case map_of obj key of
        Some v \<Rightarrow> Own v
      | None \<Rightarrow> if key \<in> set Object_prototype then Inherited else Absent)"

section \<open>Deterministic generator\<close>

text \<open>
  The closure's \<open>state\<close> is read only through \<open>^\<close>, \<open>|\<close>, \<open>>>>\<close> and \<open>Math.imul\<close>,
  which all reduce their operands modulo \<open>2^32\<close>; the sums in between are exact in a
  double. So the state is a 32-bit word and \<open>+\<close>, \<open>*\<close> wrap.
\<close>

type_synonym u32 = "32 word"

definition seededRandom :: "nat \<Rightarrow> u32" where
  "seededRandom seed = of_nat seed"

definition createDeterministicRandomGenerator :: "nat \<Rightarrow> u32" where
  "createDeterministicRandomGenerator seedValue = of_nat seedValue"

text \<open>
  One call of the returned closure: the new state and the float produced, a multiple
  of \<open>2^-32\<close> and so an exact double.
\<close>

definition rng_state :: "u32 \<Rightarrow> u32" where
  "rng_state state =
     (let s1 = state + 0x6D2B79F5;
          s2 = (s1 XOR drop_bit 15 s1) * (s1 OR 1)
      in s2 XOR (s2 + (s2 XOR drop_bit 7 s2) * (s2 OR 61)))"

definition rng_output :: "u32 \<Rightarrow> real" where
  "rng_output state = real (unat (state XOR drop_bit 14 state)) / 4294967296"

definition rng_call :: "u32 \<Rightarrow> real \<times> u32" where
  "rng_call state = (let s = rng_state state in (rng_output s, s))"

text \<open>The first \<open>n\<close> values a generator produces.\<close>

fun rng_stream :: "nat \<Rightarrow> u32 \<Rightarrow> real list" where
  "rng_stream 0 state = []"
| "rng_stream (Suc n) state = fst (rng_call state) # rng_stream n (snd (rng_call state))"

section \<open>Configuration\<close>

text \<open>
  The validated configuration object. The four numeric fields hold what the loaders
  leave there: any number but \<open>NaN\<close>. \<open>currencyTpls\<close> lists the object's properties in
  order; \<open>seed\<close> is the non-negative integer the loader resolved.
\<close>

record config =
  enabled :: bool
  autoDiscoverTraderIds :: bool
  traderIds :: "string list"
  minMultiplier :: jsnum
  maxMultiplier :: jsnum
  rounding :: string
  onlyCashTrades :: bool
  currencyTpls :: "(string \<times> string) list"
  cc_rounding :: string
  stickToBaseline :: bool
  minAbsolute :: jsnum
  maxAbsolute :: jsnum
  seed :: nat
  debug :: bool

text \<open>\<open>config.currencyTpls.ruble\<close> and \<open>Object.values(config.currencyTpls)\<close>\<close>

definition ruble :: "config \<Rightarrow> ident" where
  "ruble cfg = map_of (currencyTpls cfg) ''ruble''"

definition currencies :: "config \<Rightarrow> string list" where
  "currencies cfg = map snd (currencyTpls cfg)"

text \<open>
  The local \<open>multiplier\<close> of \<open>_randomizePrice\<close> (\<open>randomMultiplier\<close> in
  \<open>_calculateRandomizedPrice\<close>), for the generator output \<open>r\<close>:
  \<open>this.rng() * (max - min) + min\<close>.
\<close>

definition multiplier :: "config \<Rightarrow> real \<Rightarrow> jsnum" where
  "multiplier cfg r =
     num_add (num_mul (Fin r) (num_sub (maxMultiplier cfg) (minMultiplier cfg)))
       (minMultiplier cfg)"

definition randomMultiplier :: "config \<Rightarrow> real \<Rightarrow> jsnum" where
  "randomMultiplier cfg r =
     num_add (num_mul (Fin r) (num_sub (maxMultiplier cfg) (minMultiplier cfg)))
       (minMultiplier cfg)"

text \<open>
  \<open>BUILTIN_DEFAULT_CONFIGURATION\<close> (\<open>DEFAULT_CONFIG\<close> in the compact loader), with the
  seed the loader resolves for it taken as a parameter.
\<close>

definition DEFAULT_CONFIG :: "nat \<Rightarrow> config" where
  "DEFAULT_CONFIG resolved_seed =
     \<lparr> enabled = True, autoDiscoverTraderIds = True, traderIds = [],
       minMultiplier = Fin 0.85, maxMultiplier = Fin 1.35, rounding = ''nearest'',
       onlyCashTrades = True,
       currencyTpls = [(''ruble'', ''5449016a4bdc2d6f028b456f''),
                       (''dollar'', ''5696686a4bdc2da3298b456a''),
                       (''eur'', ''569668774bdc2da2298b4568'')],
       cc_rounding = ''nearest'', stickToBaseline = True,
       minAbsolute = Fin 0, maxAbsolute = Fin 0, seed = resolved_seed, debug = False \<rparr>"

section \<open>Data store\<close>

text \<open>
  A record of a price or handbook table, with the properties the engine reads.
\<close>

record entry =
  e_Id :: ident
  e_id :: ident
  e_Price :: jsval
  e_price :: jsval
  e_DefaultPrice :: jsval
  e_basePrice :: jsval

text \<open>
  A table is missing, an array of records (an element that is \<open>null\<close> or \<open>undefined\<close> is
  \<open>None\<close>), or an object keyed by identifier, read with \<open>table[key]\<close>. A truthy
  primitive or an inherited value found there is a record with every property
  \<open>Undefined\<close>.
\<close>

datatype tbl = NoTable | ArrayTable "entry option list" | ObjectTable "(string \<times> entry) list"

definition no_properties :: entry where
  "no_properties =
     \<lparr> e_Id = None, e_id = None, e_Price = Undefined, e_price = Undefined,
       e_DefaultPrice = Undefined, e_basePrice = Undefined \<rparr>"

definition table_get :: "(string \<times> entry) list \<Rightarrow> string \<Rightarrow> entry option" where
  "table_get table key =
     (case get_prop table key of
        Own en \<Rightarrow> Some en
      | Inherited \<Rightarrow> Some no_properties
      | Absent \<Rightarrow> None)"

text \<open>The property key an identifier denotes in \<open>table[templateId]\<close>.\<close>

fun key_of :: "ident \<Rightarrow> string" where
  "key_of None = ''undefined''"
| "key_of (Some s) = s"

record offer =
  o_tpl :: ident
  o_count :: jsnum

text \<open>
  \<open>barter_scheme[id]\<close>, when truthy: a value whose property \<open>0\<close> is an array of
  offers (with the further elements, when it is an array itself), an array of offers, or
  any other value, taken to be no array and to have no property \<open>0\<close>.
\<close>

datatype scheme =
    Nested "offer option list" "offer option list list"
  | Flat "offer option list"
  | NonArrayScheme

record item =
  i_tpl :: ident
  i_id :: ident

text \<open>\<open>assort.items\<close>: falsy, a truthy value that is no array (and not iterable), or an array.\<close>

datatype items = NoItems | NonIterable | Items "item option list"

record assort =
  a_items :: items
  a_barter_scheme :: "(string \<times> scheme) list"

text \<open>
  A vendor: \<open>base?.nickname\<close>, which can be any value of the store, and \<open>assort\<close>.
\<close>

record trader =
  t_nickname :: jsval
  t_assort :: "assort option"

text \<open>What \<open>traders[id]\<close> is when it is inherited: no \<open>base\<close> and no \<open>assort\<close>.\<close>

definition inherited_trader :: trader where
  "inherited_trader = \<lparr> t_nickname = Undefined, t_assort = None \<rparr>"

text \<open>
  \<open>db.templates.prices\<close>, \<open>db.templates.handbook.Items\<close> and \<open>db.traders\<close>, the latter
  an object, listed in the order of \<open>Object.entries\<close>.
\<close>

record db =
  prices :: tbl
  handbook :: tbl
  traders :: "(string \<times> trader) list"

section \<open>Engine state\<close>

datatype level = Info | Warn | Error | Debug

datatype event =
    Disabled
  | BuiltBaselines nat
  | BaselinePresent
  | Discovered nat
  | Updated jsval nat
  | TraderNotFound string
  | ProcessFailed string exn
  | LookupFailed ident exn

text \<open>
  The instance fields: the generator's state, the three maps (\<open>baselinePriceMap\<close>,
  \<open>templatePriceCache\<close> and \<open>currencyConversionRateCache\<close> in the verbose variant), each
  in insertion order, and what was sent to the logger. The logger is taken to have the
  four methods \<open>info\<close>, \<open>warn\<close>, \<open>error\<close> and \<open>debug\<close>, and a call of one to return.
\<close>

record engine =
  rng :: u32
  baselinePrices :: "(string \<times> jsval) list"
  priceCache :: "(ident \<times> jsval) list"
  currencyCache :: "(ident \<times> jsval) list"
  logs :: "(level \<times> event) list"

definition log :: "level \<Rightarrow> event \<Rightarrow> engine \<Rightarrow> engine" where
  "log l ev e = e\<lparr>logs := logs e @ [(l, ev)]\<rparr>"

section \<open>Reference Price Resolver\<close>

text \<open>
  \<open>array.find(p => p.Id === templateId || p.id === templateId)\<close>: reading a property of a
  \<open>null\<close> element raises.
\<close>

fun find_entry :: "ident \<Rightarrow> entry option list \<Rightarrow> exn + entry option" where
  "find_entry templateId [] = Inr None"
| "find_entry templateId (None # xs) = Inl TypeError"
| "find_entry templateId (Some p # xs) =
     (if e_Id p = templateId \<or> e_id p = templateId then Inr (Some p)
      else find_entry templateId xs)"

text \<open>\<open>if (typeof price === "string") price = Number(price)\<close>\<close>

fun number_if_string :: "(string \<Rightarrow> jsnum) \<Rightarrow> jsval \<Rightarrow> jsval" where
  "number_if_string N (Str s) = Num (N s)"
| "number_if_string N v = v"

text \<open>\<open>entry?.Price || entry?.price\<close>\<close>

fun Price_or_price :: "entry option \<Rightarrow> jsval" where
  "Price_or_price None = js_or Undefined Undefined"
| "Price_or_price (Some en) = js_or (e_Price en) (e_price en)"

text \<open>The compact variant, \<open>_lookupPrice\<close>: the block "Try prices table first".\<close>

definition lookupPrice_prices :: "(string \<Rightarrow> jsnum) \<Rightarrow> tbl \<Rightarrow> ident \<Rightarrow> exn + jsval" where
  "lookupPrice_prices N pricesTable templateId =
     (case pricesTable of
        NoTable \<Rightarrow> Inr Null
      | ArrayTable xs \<Rightarrow>
          (case find_entry templateId xs of
             Inl x \<Rightarrow> Inl x
           | Inr en \<Rightarrow> Inr (Price_or_price en))
      | ObjectTable m \<Rightarrow>
          (case table_get m (key_of templateId) of
             None \<Rightarrow> Inr Null
           | Some en \<Rightarrow>
               Inr (number_if_string N
                 (js_or (js_or (js_or (e_Price en) (e_price en)) (e_DefaultPrice en))
                    (e_basePrice en)))))"

text \<open>The block "Fallback to handbook", entered when \<open>handbook.Items\<close> is truthy.\<close>

definition lookupPrice_handbook :: "(string \<Rightarrow> jsnum) \<Rightarrow> tbl \<Rightarrow> ident \<Rightarrow> exn + jsval" where
  "lookupPrice_handbook N handbookItems templateId =
     (case (case handbookItems of
              ArrayTable xs \<Rightarrow> find_entry templateId xs
            | ObjectTable m \<Rightarrow> Inr (table_get m (key_of templateId))
            | NoTable \<Rightarrow> Inr None) of
        Inl x \<Rightarrow> Inl x
      | Inr en \<Rightarrow> Inr (number_if_string N (Price_or_price en)))"

text \<open>
  \<open>_lookupPrice\<close>. An exception leaves the instance as it was: the cache is written
  last.
\<close>

definition lookupPrice ::
  "(string \<Rightarrow> jsnum) \<Rightarrow> db \<Rightarrow> ident \<Rightarrow> engine \<Rightarrow> (exn + jsval) \<times> engine" where
  "lookupPrice N d templateId e =
     (case map_of (priceCache e) templateId of
        Some cached \<Rightarrow> (Inr cached, e)
      | None \<Rightarrow>
          (case lookupPrice_prices N (prices d) templateId of
             Inl x \<Rightarrow> (Inl x, e)
           | Inr price \<Rightarrow>
               (case (if \<not> truthy price \<and> handbook d \<noteq> NoTable
                      then lookupPrice_handbook N (handbook d) templateId
                      else Inr price) of
                  Inl x \<Rightarrow> (Inl x, e)
                | Inr price' \<Rightarrow>
                    (let finalPrice = (if truthy price' \<and> gt0 N price' then price' else Null)
                     in (Inr finalPrice,
                         e\<lparr>priceCache := AList.update templateId finalPrice (priceCache e)\<rparr>)))))"

text \<open>
  The verbose variant, \<open>_lookupTemplatePriceFromDatabase\<close>.
  \<open>typeof v === "number" && v > 0\<close>:
\<close>

fun positive_number :: "jsval \<Rightarrow> bool" where
  "positive_number (Num n) = num_gt0 n"
| "positive_number v = False"

text \<open>The two tests on a record found in an array.\<close>

fun array_entry_price :: "entry option \<Rightarrow> jsval" where
  "array_entry_price None = Null"
| "array_entry_price (Some en) =
     (if positive_number (e_Price en) then e_Price en
      else if positive_number (e_price en) then e_price en
      else Null)"

text \<open>
  The two tests on the value extracted from a record of an object table: a positive
  number, else a string that \<open>Number\<close> does not map to \<open>NaN\<close>.
\<close>

fun extracted_price :: "(string \<Rightarrow> jsnum) \<Rightarrow> jsval \<Rightarrow> jsval" where
  "extracted_price N (Str s) = (if N s \<noteq> NaN then Num (N s) else Null)"
| "extracted_price N v = (if positive_number v then v else Null)"

definition lookupTemplate_prices :: "(string \<Rightarrow> jsnum) \<Rightarrow> tbl \<Rightarrow> ident \<Rightarrow> exn + jsval" where
  "lookupTemplate_prices N priceData templateId =
     (case priceData of
        NoTable \<Rightarrow> Inr Null
      | ArrayTable xs \<Rightarrow>
          (case find_entry templateId xs of
             Inl x \<Rightarrow> Inl x
           | Inr foundPriceEntry \<Rightarrow> Inr (array_entry_price foundPriceEntry))
      | ObjectTable m \<Rightarrow>
          (case table_get m (key_of templateId) of
             None \<Rightarrow> Inr Null
           | Some priceEntry \<Rightarrow>
               Inr (extracted_price N
                 (js_or (js_or (js_or (e_Price priceEntry) (e_price priceEntry))
                    (e_DefaultPrice priceEntry)) (e_basePrice priceEntry)))))"

text \<open>The handbook part, entered when \<open>resolvedPrice\<close> is falsy.\<close>

definition lookupTemplate_handbook ::
  "(string \<Rightarrow> jsnum) \<Rightarrow> tbl \<Rightarrow> ident \<Rightarrow> jsval \<Rightarrow> exn + jsval" where
  "lookupTemplate_handbook N handbookItems templateId resolvedPrice =
     (case handbookItems of
        NoTable \<Rightarrow> Inr resolvedPrice
      | ArrayTable xs \<Rightarrow>
          (case find_entry templateId xs of
             Inl x \<Rightarrow> Inl x
           | Inr None \<Rightarrow> Inr resolvedPrice
           | Inr (Some en) \<Rightarrow>
               Inr (if positive_number (e_Price en) then e_Price en
                    else if positive_number (e_price en) then e_price en
                    else resolvedPrice))
      | ObjectTable m \<Rightarrow>
          (case table_get m (key_of templateId) of
             None \<Rightarrow> Inr resolvedPrice
           | Some handbookEntry \<Rightarrow>
               (case js_or (e_Price handbookEntry) (e_price handbookEntry) of
                  Str s \<Rightarrow> Inr (if N s \<noteq> NaN then Num (N s) else resolvedPrice)
                | v \<Rightarrow> Inr (if positive_number v then v else resolvedPrice))))"

text \<open>
  The body of the \<open>try\<close>, up to the value to cache, then the function: the \<open>catch\<close> logs,
  caches \<open>null\<close> and returns \<open>null\<close>.
\<close>

definition lookupTemplate_try :: "(string \<Rightarrow> jsnum) \<Rightarrow> db \<Rightarrow> ident \<Rightarrow> exn + jsval" where
  "lookupTemplate_try N databaseTables templateId =
     (case lookupTemplate_prices N (prices databaseTables) templateId of
        Inl x \<Rightarrow> Inl x
      | Inr resolvedPrice \<Rightarrow>
          (if \<not> truthy resolvedPrice
           then lookupTemplate_handbook N (handbook databaseTables) templateId resolvedPrice
           else Inr resolvedPrice))"

definition lookupTemplatePriceFromDatabase ::
  "(string \<Rightarrow> jsnum) \<Rightarrow> db \<Rightarrow> ident \<Rightarrow> engine \<Rightarrow> jsval \<times> engine" where
  "lookupTemplatePriceFromDatabase N databaseTables templateId e =
     (case map_of (priceCache e) templateId of
        Some cached \<Rightarrow> (cached, e)
      | None \<Rightarrow>
          (case lookupTemplate_try N databaseTables templateId of
             Inr resolvedPrice \<Rightarrow>
               (resolvedPrice,
                e\<lparr>priceCache := AList.update templateId resolvedPrice (priceCache e)\<rparr>)
           | Inl lookupError \<Rightarrow>
               (Null,
                (log Error (LookupFailed templateId lookupError) e)
                  \<lparr>priceCache := AList.update templateId Null (priceCache e)\<rparr>)))"

section \<open>Baseline Builder\<close>

text \<open>\<open>Set.add\<close>, on a set kept in insertion order\<close>

definition set_add :: "'a \<Rightarrow> 'a list \<Rightarrow> 'a list" where
  "set_add x xs = (if x \<in> set xs then xs else xs @ [x])"

text \<open>An identifier is truthy when it is a non-empty string.\<close>

fun truthy_id :: "ident \<Rightarrow> bool" where
  "truthy_id None = False"
| "truthy_id (Some s) = (s \<noteq> [])"

text \<open>The inner loop: \<open>if (item?._tpl) allTemplates.add(item._tpl)\<close>\<close>

fun collect_items :: "item option list \<Rightarrow> string list \<Rightarrow> string list" where
  "collect_items [] allTemplates = allTemplates"
| "collect_items (None # xs) allTemplates = collect_items xs allTemplates"
| "collect_items (Some it # xs) allTemplates =
     (case i_tpl it of
        None \<Rightarrow> collect_items xs allTemplates
      | Some t \<Rightarrow>
          if t \<noteq> [] then collect_items xs (set_add t allTemplates)
          else collect_items xs allTemplates)"

text \<open>
  The outer loop of \<open>_buildBaselines\<close>: \<open>for ... of\<close> over items that are not iterable
  raises. An inherited \<open>traders[traderId]\<close> has no \<open>assort\<close> and is skipped like a missing
  one.
\<close>

fun collect_templates :: "db \<Rightarrow> string list \<Rightarrow> string list \<Rightarrow> exn + string list" where
  "collect_templates d [] allTemplates = Inr allTemplates"
| "collect_templates d (traderId # rest) allTemplates =
     (case get_prop (traders d) traderId of
        Own tr \<Rightarrow>
          (case t_assort tr of
             None \<Rightarrow> collect_templates d rest allTemplates
           | Some a \<Rightarrow>
               (case a_items a of
                  NoItems \<Rightarrow> collect_templates d rest allTemplates
                | NonIterable \<Rightarrow> Inl TypeError
                | Items xs \<Rightarrow> collect_templates d rest (collect_items xs allTemplates)))
      | _ \<Rightarrow> collect_templates d rest allTemplates)"

text \<open>The second loop: an exception of the lookup leaves the loop with the map as it is.\<close>

fun lookup_templates ::
  "(string \<Rightarrow> jsnum) \<Rightarrow> db \<Rightarrow> string list \<Rightarrow> engine \<Rightarrow> (exn + unit) \<times> engine" where
  "lookup_templates N d [] e = (Inr (), e)"
| "lookup_templates N d (templateId # rest) e =
     (case lookupPrice N d (Some templateId) e of
        (Inl x, e') \<Rightarrow> (Inl x, e')
      | (Inr price, e') \<Rightarrow>
          lookup_templates N d rest
            (if truthy price \<and> gt0 N price
             then e'\<lparr>baselinePrices := AList.update templateId price (baselinePrices e')\<rparr>
             else e'))"

definition buildBaselines ::
  "config \<Rightarrow> (string \<Rightarrow> jsnum) \<Rightarrow> db \<Rightarrow> string list \<Rightarrow> engine \<Rightarrow> (exn + unit) \<times> engine" where
  "buildBaselines cfg N d ids e =
     (if stickToBaseline cfg \<and> baselinePrices e \<noteq> [] then (Inr (), e)
      else
        (let e0 = e\<lparr>baselinePrices := []\<rparr>
         in case collect_templates d ids [] of
              Inl x \<Rightarrow> (Inl x, e0)
            | Inr allTemplates \<Rightarrow>
                (case lookup_templates N d allTemplates e0 of
                   (Inl x, e1) \<Rightarrow> (Inl x, e1)
                 | (Inr u, e1) \<Rightarrow>
                     (Inr (), log Info (BuiltBaselines (length (baselinePrices e1))) e1))))"

text \<open>
  The verbose variant. Its first loop skips a trader whose items are no array; nothing
  in the body of either \<open>try\<close> raises, the lookup having its own \<open>catch\<close>.
\<close>

fun collect_unique_templates :: "db \<Rightarrow> string list \<Rightarrow> string list \<Rightarrow> string list" where
  "collect_unique_templates d [] uniqueTemplateIds = uniqueTemplateIds"
| "collect_unique_templates d (currentTraderId # rest) uniqueTemplateIds =
     (case get_prop (traders d) currentTraderId of
        Own traderData \<Rightarrow>
          (case t_assort traderData of
             None \<Rightarrow> collect_unique_templates d rest uniqueTemplateIds
           | Some a \<Rightarrow>
               (case a_items a of
                  Items xs \<Rightarrow> collect_unique_templates d rest (collect_items xs uniqueTemplateIds)
                | _ \<Rightarrow> collect_unique_templates d rest uniqueTemplateIds))
      | _ \<Rightarrow> collect_unique_templates d rest uniqueTemplateIds)"

fun establish_baselines ::
  "(string \<Rightarrow> jsnum) \<Rightarrow> db \<Rightarrow> string list \<Rightarrow> engine \<Rightarrow> engine" where
  "establish_baselines N d [] e = e"
| "establish_baselines N d (templateId # rest) e =
     (case lookupTemplatePriceFromDatabase N d (Some templateId) e of
        (templatePrice, e') \<Rightarrow>
          establish_baselines N d rest
            (if truthy templatePrice \<and> gt0 N templatePrice
             then e'\<lparr>baselinePrices :=
                       AList.update templateId templatePrice (baselinePrices e')\<rparr>
             else e'))"

definition buildBaselinePricesFromTraders ::
  "config \<Rightarrow> (string \<Rightarrow> jsnum) \<Rightarrow> db \<Rightarrow> string list \<Rightarrow> bool \<Rightarrow> engine \<Rightarrow> engine" where
  "buildBaselinePricesFromTraders cfg N databaseTables targetTraderIds forceRebuild e =
     (if \<not> forceRebuild \<and> stickToBaseline cfg \<and> baselinePrices e \<noteq> []
      then (if debug cfg then log Debug BaselinePresent e else e)
      else
        (let e1 = establish_baselines N databaseTables
                    (collect_unique_templates databaseTables targetTraderIds [])
                    (e\<lparr>baselinePrices := []\<rparr>)
         in log Info (BuiltBaselines (length (baselinePrices e1))) e1))"

section \<open>Currency Converter\<close>

text \<open>\<open>Map.get\<close>\<close>

definition Map_get :: "('k \<times> jsval) list \<Rightarrow> 'k \<Rightarrow> jsval" where
  "Map_get m k = (case map_of m k of None \<Rightarrow> Undefined | Some v \<Rightarrow> v)"

text \<open>From the cached rate on: both variants have the same four statements.\<close>

definition convert_at_rate :: "(string \<Rightarrow> jsnum) \<Rightarrow> string \<Rightarrow> jsnum \<Rightarrow> jsval \<Rightarrow> jsval" where
  "convert_at_rate N mode rubles rate =
     (if \<not> truthy rate \<or> le0 N rate then Null
      else (let converted = num_div rubles (ToNumber N rate)
            in if \<not> isFinite converted then Null
               else Num (round_mode converted mode)))"

definition convertCurrency ::
  "config \<Rightarrow> (string \<Rightarrow> jsnum) \<Rightarrow> db \<Rightarrow> jsnum \<Rightarrow> ident \<Rightarrow> engine
     \<Rightarrow> (exn + jsval) \<times> engine" where
  "convertCurrency cfg N d rubles currencyTpl e =
     (case (if map_of (currencyCache e) currencyTpl = None
            then (case lookupPrice N d currencyTpl e of
                    (Inl x, e') \<Rightarrow> (Inl x, e')
                  | (Inr rate, e') \<Rightarrow>
                      (Inr (),
                       e'\<lparr>currencyCache :=
                            AList.update currencyTpl (js_or rate Null) (currencyCache e')\<rparr>))
            else (Inr (), e)) of
        (Inl x, e') \<Rightarrow> (Inl x, e')
      | (Inr u, e') \<Rightarrow>
          (Inr (convert_at_rate N (cc_rounding cfg) rubles
                  (Map_get (currencyCache e') currencyTpl)), e'))"

text \<open>The verbose variant: nothing inside its \<open>try\<close> raises.\<close>

definition convertRublesToTargetCurrency ::
  "config \<Rightarrow> (string \<Rightarrow> jsnum) \<Rightarrow> db \<Rightarrow> jsnum \<Rightarrow> ident \<Rightarrow> engine \<Rightarrow> jsval \<times> engine" where
  "convertRublesToTargetCurrency cfg N databaseTables rubleAmount targetCurrencyTemplateId e =
     (let e' =
        (if map_of (currencyCache e) targetCurrencyTemplateId = None
         then (case lookupTemplatePriceFromDatabase N databaseTables
                      targetCurrencyTemplateId e of
                 (currencyPrice, e1) \<Rightarrow>
                   e1\<lparr>currencyCache :=
                        AList.update targetCurrencyTemplateId (js_or currencyPrice Null)
                          (currencyCache e1)\<rparr>)
         else e)
      in (convert_at_rate N (cc_rounding cfg) rubleAmount
            (Map_get (currencyCache e') targetCurrencyTemplateId), e'))"

section \<open>Price Randomizer\<close>

text \<open>
  The price computed from the generator's output \<open>r\<close>; \<open>_randomizePrice\<close> draws \<open>r\<close>
  and advances the generator.
\<close>

definition randomized :: "config \<Rightarrow> (string \<Rightarrow> jsnum) \<Rightarrow> jsval \<Rightarrow> real \<Rightarrow> jsnum" where
  "randomized cfg N baseline r =
     (let price = num_mul (ToNumber N baseline) (multiplier cfg r);
          price = (if num_gt0 (minAbsolute cfg)
                   then Math_max price (minAbsolute cfg) else price);
          price = (if num_gt0 (maxAbsolute cfg)
                   then Math_min price (maxAbsolute cfg) else price)
      in round_mode price (rounding cfg))"

definition randomizePrice ::
  "config \<Rightarrow> (string \<Rightarrow> jsnum) \<Rightarrow> jsval \<Rightarrow> engine \<Rightarrow> jsnum \<times> engine" where
  "randomizePrice cfg N baseline e =
     (case rng_call (rng e) of
        (r, state) \<Rightarrow> (randomized cfg N baseline r, e\<lparr>rng := state\<rparr>))"

text \<open>
  The verbose variant tests \<open>minAbsolute && minAbsolute > 0\<close>, and \<open>maxAbsolute\<close>
  likewise.
\<close>

definition calculated :: "config \<Rightarrow> (string \<Rightarrow> jsnum) \<Rightarrow> jsval \<Rightarrow> real \<Rightarrow> jsnum" where
  "calculated cfg N baselinePrice r =
     (let calculatedRublePrice =
            num_mul (ToNumber N baselinePrice) (randomMultiplier cfg r);
          calculatedRublePrice =
            (if truthy (Num (minAbsolute cfg)) \<and> num_gt0 (minAbsolute cfg)
             then Math_max calculatedRublePrice (minAbsolute cfg)
             else calculatedRublePrice);
          calculatedRublePrice =
            (if truthy (Num (maxAbsolute cfg)) \<and> num_gt0 (maxAbsolute cfg)
             then Math_min calculatedRublePrice (maxAbsolute cfg)
             else calculatedRublePrice)
      in roundValueByMode calculatedRublePrice (rounding cfg))"

definition calculateRandomizedPrice ::
  "config \<Rightarrow> (string \<Rightarrow> jsnum) \<Rightarrow> jsval \<Rightarrow> engine \<Rightarrow> jsnum \<times> engine" where
  "calculateRandomizedPrice cfg N baselinePrice e =
     (case rng_call (rng e) of
        (r, state) \<Rightarrow> (calculated cfg N baselinePrice r, e\<lparr>rng := state\<rparr>))"

section \<open>Offer Updater\<close>

text \<open>
  A trade-offer list is an array of offers (a \<open>null\<close> element is \<open>None\<close>), or \<open>None\<close>
  when the value handed over is no array (and has no property \<open>0\<close>). An offer of the
  list is referred to by its index.

  \<open>offer?._tpl && currencies.includes(offer._tpl)\<close>:
\<close>

fun is_currency_offer :: "config \<Rightarrow> offer option \<Rightarrow> bool" where
  "is_currency_offer cfg None = False"
| "is_currency_offer cfg (Some off) =
     (case o_tpl off of
        None \<Rightarrow> False
      | Some t \<Rightarrow> t \<noteq> [] \<and> t \<in> set (currencies cfg))"

fun first_currency_offer :: "config \<Rightarrow> offer option list \<Rightarrow> nat option" where
  "first_currency_offer cfg [] = None"
| "first_currency_offer cfg (x # xs) =
     (if is_currency_offer cfg x then Some 0
      else map_option Suc (first_currency_offer cfg xs))"

fun findCurrencyOffer :: "config \<Rightarrow> offer option list option \<Rightarrow> nat option" where
  "findCurrencyOffer cfg None = None"
| "findCurrencyOffer cfg (Some offers) = first_currency_offer cfg offers"

text \<open>
  The verbose variant skips an offer whose \<open>_tpl\<close> is no string, and tests the others
  with \<open>includes\<close>.
\<close>

fun is_currency_trade_offer :: "config \<Rightarrow> offer option \<Rightarrow> bool" where
  "is_currency_trade_offer cfg None = False"
| "is_currency_trade_offer cfg (Some currentOffer) =
     (case o_tpl currentOffer of
        None \<Rightarrow> False
      | Some t \<Rightarrow> t \<in> set (currencies cfg))"

fun first_currency_trade_offer :: "config \<Rightarrow> offer option list \<Rightarrow> nat option" where
  "first_currency_trade_offer cfg [] = None"
| "first_currency_trade_offer cfg (x # xs) =
     (if is_currency_trade_offer cfg x then Some 0
      else map_option Suc (first_currency_trade_offer cfg xs))"

fun findCurrencyOfferInTradeList :: "config \<Rightarrow> offer option list option \<Rightarrow> nat option" where
  "findCurrencyOfferInTradeList cfg None = None"
| "findCurrencyOfferInTradeList cfg (Some tradeOffers) =
     first_currency_trade_offer cfg tradeOffers"

text \<open>\<open>offers[0]\<close>, when truthy\<close>

fun first_offer :: "offer option list option \<Rightarrow> nat option" where
  "first_offer (Some (Some off # xs)) = Some 0"
| "first_offer _ = None"

text \<open>The offer at an index, and \<open>target.count = c\<close> for the offer at that index.\<close>

fun offer_at :: "offer option list option \<Rightarrow> nat \<Rightarrow> offer option" where
  "offer_at None i = None"
| "offer_at (Some offers) i = (if i < length offers then offers ! i else None)"

fun set_count :: "offer option list option \<Rightarrow> nat \<Rightarrow> jsnum \<Rightarrow> offer option list option" where
  "set_count None i c = None"
| "set_count (Some offers) i c =
     Some (offers[i := map_option (\<lambda>off. off\<lparr>o_count := c\<rparr>) (offers ! i)])"

text \<open>
  \<open>_updateOffer\<close>: the result, the list after the call, the instance after the call.
\<close>

definition updateOffer ::
  "config \<Rightarrow> (string \<Rightarrow> jsnum) \<Rightarrow> offer option list option \<Rightarrow> jsnum \<Rightarrow> db \<Rightarrow> engine
     \<Rightarrow> (exn + bool) \<times> offer option list option \<times> engine" where
  "updateOffer cfg N offers rubles d e =
     (case (if onlyCashTrades cfg then findCurrencyOffer cfg offers else first_offer offers) of
        None \<Rightarrow> (Inr False, offers, e)
      | Some i \<Rightarrow>
          (case offer_at offers i of
             None \<Rightarrow> (Inr False, offers, e)
           | Some target \<Rightarrow>
               if o_tpl target = ruble cfg
               then (Inr True, set_count offers i (Math_max (Fin 1) rubles), e)
               else
                 (case convertCurrency cfg N d rubles (o_tpl target) e of
                    (Inl x, e') \<Rightarrow> (Inl x, offers, e')
                  | (Inr converted, e') \<Rightarrow>
                      (Inr True,
                       set_count offers i
                         (Math_max (Fin 1)
                            (ToNumber N (js_or converted (Num (Math_floor rubles))))),
                       e'))))"

definition updateTradeOfferPrice ::
  "config \<Rightarrow> (string \<Rightarrow> jsnum) \<Rightarrow> offer option list option \<Rightarrow> jsnum \<Rightarrow> db \<Rightarrow> engine
     \<Rightarrow> bool \<times> offer option list option \<times> engine" where
  "updateTradeOfferPrice cfg N tradeOffersList finalRublePrice databaseTables e =
     (if onlyCashTrades cfg
      then
        (case findCurrencyOfferInTradeList cfg tradeOffersList of
           None \<Rightarrow> (False, tradeOffersList, e)
         | Some i \<Rightarrow>
             (case offer_at tradeOffersList i of
                None \<Rightarrow> (False, tradeOffersList, e)
              | Some currencyOffer \<Rightarrow>
                  if o_tpl currencyOffer = ruble cfg
                  then (True,
                        set_count tradeOffersList i (Math_max (Fin 1) finalRublePrice), e)
                  else
                    (case convertRublesToTargetCurrency cfg N databaseTables finalRublePrice
                            (o_tpl currencyOffer) e of
                       (convertedCurrencyAmount, e') \<Rightarrow>
                         (True,
                          set_count tradeOffersList i
                            (Math_max (Fin 1)
                               (ToNumber N (js_or convertedCurrencyAmount
                                  (Num (Math_floor finalRublePrice))))),
                          e'))))
      else
        (case first_offer tradeOffersList of
           None \<Rightarrow> (False, tradeOffersList, e)
         | Some i \<Rightarrow>
             (case offer_at tradeOffersList i of
                None \<Rightarrow> (False, tradeOffersList, e)
              | Some firstTradeOffer \<Rightarrow>
                  if o_tpl firstTradeOffer = ruble cfg
                  then (True,
                        set_count tradeOffersList i (Math_max (Fin 1) finalRublePrice), e)
                  else
                    (case convertRublesToTargetCurrency cfg N databaseTables finalRublePrice
                            (o_tpl firstTradeOffer) e of
                       (convertedCurrencyAmount, e') \<Rightarrow>
                         (True,
                          set_count tradeOffersList i
                            (Math_max (Fin 1)
                               (ToNumber N (js_or convertedCurrencyAmount
                                  (Num (Math_floor finalRublePrice))))),
                          e')))))"

section \<open>Vendor Discovery\<close>

text \<open>\<open>toLowerCase\<close> on ASCII letters, and \<open>String.includes\<close>\<close>

definition toLowerCase_char :: "char \<Rightarrow> char" where
  "toLowerCase_char c =
     (let n = (of_char c :: nat) in if 65 \<le> n \<and> n \<le> 90 then char_of (n + 32) else c)"

definition toLowerCase :: "string \<Rightarrow> string" where
  "toLowerCase s = map toLowerCase_char s"

fun str_includes :: "string \<Rightarrow> string \<Rightarrow> bool" where
  "str_includes [] sub = (sub = [])"
| "str_includes (c # cs) sub = (take (length sub) (c # cs) = sub \<or> str_includes cs sub)"

text \<open>The test on the lower-cased nickname, the same in both variants.\<close>

definition aio_nickname :: "string \<Rightarrow> bool" where
  "aio_nickname nickname =
     (str_includes nickname ''aio'' \<or> str_includes nickname ''bluehead''
      \<or> str_includes nickname ''aiotrader'')"

text \<open>
  \<open>_discoverTraders\<close>. \<open>(trader?.base?.nickname || "").toLowerCase()\<close>: a truthy nickname
  that is no string, here a number, has no method \<open>toLowerCase\<close>, and the call raises.
\<close>

definition lower_nickname :: "jsval \<Rightarrow> exn + string" where
  "lower_nickname v =
     (case js_or v (Str []) of
        Str s \<Rightarrow> Inr (toLowerCase s)
      | _ \<Rightarrow> Inl TypeError)"

fun discover :: "(string \<times> trader) list \<Rightarrow> string list \<Rightarrow> exn + string list" where
  "discover [] found = Inr found"
| "discover ((traderId, tr) # rest) found =
     (case lower_nickname (t_nickname tr) of
        Inl x \<Rightarrow> Inl x
      | Inr nickname \<Rightarrow>
          discover rest (if aio_nickname nickname then found @ [traderId] else found))"

definition discoverTraders ::
  "config \<Rightarrow> db \<Rightarrow> engine \<Rightarrow> (exn + string list) \<times> engine" where
  "discoverTraders cfg d e =
     (case discover (traders d) [] of
        Inl x \<Rightarrow> (Inl x, e)
      | Inr found \<Rightarrow>
          (Inr found, if debug cfg then log Debug (Discovered (length found)) e else e))"

text \<open>
  \<open>_autoDiscoverRelevantTraders\<close> applies \<open>String\<close> first. The text of a number is made
  of digits, a sign, a point and \<open>e\<close>, or is \<open>Infinity\<close>: it includes none of the three
  patterns.
\<close>

definition lower_nickname_text :: "jsval \<Rightarrow> string option" where
  "lower_nickname_text v =
     (case js_or v (Str []) of
        Str s \<Rightarrow> Some (toLowerCase s)
      | _ \<Rightarrow> None)"

definition aio_trader :: "trader \<Rightarrow> bool" where
  "aio_trader traderData =
     (case lower_nickname_text (t_nickname traderData) of
        Some traderNicknameLower \<Rightarrow> aio_nickname traderNicknameLower
      | None \<Rightarrow> False)"

definition autoDiscoverRelevantTraders :: "config \<Rightarrow> db \<Rightarrow> engine \<Rightarrow> string list \<times> engine" where
  "autoDiscoverRelevantTraders cfg databaseTables e =
     (let discoveredTraderIds =
            map fst (filter (\<lambda>(traderId, traderData). aio_trader traderData)
                       (traders databaseTables))
      in (discoveredTraderIds,
          if debug cfg then log Debug (Discovered (length discoveredTraderIds)) e else e))"

section \<open>Processing one vendor\<close>

text \<open>\<open>Array.isArray(scheme[0]) ? scheme[0] : scheme\<close>, and the scheme with that list replaced\<close>

fun offers_of :: "scheme \<Rightarrow> offer option list option" where
  "offers_of (Nested first others) = Some first"
| "offers_of (Flat xs) = Some xs"
| "offers_of NonArrayScheme = None"

fun with_offers :: "scheme \<Rightarrow> offer option list option \<Rightarrow> scheme" where
  "with_offers (Nested first others) (Some xs) = Nested xs others"
| "with_offers (Flat ys) (Some xs) = Flat xs"
| "with_offers sch _ = sch"

text \<open>
  \<open>barters[item._id]\<close>, when truthy: the scheme and whether it is the vendor's own. An
  inherited one is no array, and nothing is written to it.
\<close>

definition scheme_of :: "(string \<times> scheme) list \<Rightarrow> string \<Rightarrow> (scheme \<times> bool) option" where
  "scheme_of barters key =
     (case get_prop barters key of
        Own sch \<Rightarrow> Some (sch, True)
      | Inherited \<Rightarrow> Some (NonArrayScheme, False)
      | Absent \<Rightarrow> None)"

definition put_offers ::
  "string \<Rightarrow> scheme \<times> bool \<Rightarrow> offer option list option \<Rightarrow> (string \<times> scheme) list
     \<Rightarrow> (string \<times> scheme) list" where
  "put_offers key found offers barters =
     (if snd found then AList.update key (with_offers (fst found) offers) barters
      else barters)"

text \<open>
  The loop of \<open>_processTrader\<close> over the items left, with the barter schemes, the count
  and the instance so far. An exception ends it with everything written so far in place.
\<close>

fun process_items ::
  "config \<Rightarrow> (string \<Rightarrow> jsnum) \<Rightarrow> db \<Rightarrow> item option list \<Rightarrow> (string \<times> scheme) list \<Rightarrow> nat
     \<Rightarrow> engine \<Rightarrow> (exn + nat) \<times> (string \<times> scheme) list \<times> engine" where
  "process_items cfg N d [] barters updatedCount e = (Inr updatedCount, barters, e)"
| "process_items cfg N d (None # xs) barters updatedCount e =
     process_items cfg N d xs barters updatedCount e"
| "process_items cfg N d (Some it # xs) barters updatedCount e =
     (if \<not> truthy_id (i_tpl it) \<or> \<not> truthy_id (i_id it)
      then process_items cfg N d xs barters updatedCount e
      else
        (let baseline = Map_get (baselinePrices e) (key_of (i_tpl it))
         in if \<not> truthy baseline \<or> le0 N baseline
            then process_items cfg N d xs barters updatedCount e
            else
              (case randomizePrice cfg N baseline e of
                 (newPrice, e1) \<Rightarrow>
                   (case scheme_of barters (key_of (i_id it)) of
                      None \<Rightarrow> process_items cfg N d xs barters updatedCount e1
                    | Some found \<Rightarrow>
                        (case updateOffer cfg N (offers_of (fst found)) newPrice d e1 of
                           (Inl x, offers', e2) \<Rightarrow> (Inl x, barters, e2)
                         | (Inr wrote, offers', e2) \<Rightarrow>
                             process_items cfg N d xs
                               (put_offers (key_of (i_id it)) found offers' barters)
                               (if wrote then updatedCount + 1 else updatedCount) e2)))))"

definition processTrader ::
  "config \<Rightarrow> (string \<Rightarrow> jsnum) \<Rightarrow> trader \<Rightarrow> db \<Rightarrow> engine
     \<Rightarrow> (exn + nat) \<times> trader \<times> engine" where
  "processTrader cfg N tr d e =
     (case t_assort tr of
        None \<Rightarrow> (Inr 0, tr, e)
      | Some a \<Rightarrow>
          (case a_items a of
             NoItems \<Rightarrow> (Inr 0, tr, e)
           | NonIterable \<Rightarrow> (Inl TypeError, tr, e)
           | Items xs \<Rightarrow>
               (case process_items cfg N d xs (a_barter_scheme a) 0 e of
                  (Inl x, barters, e') \<Rightarrow>
                    (Inl x, tr\<lparr>t_assort := Some (a\<lparr>a_barter_scheme := barters\<rparr>)\<rparr>, e')
                | (Inr updatedCount, barters, e') \<Rightarrow>
                    (Inr updatedCount,
                     tr\<lparr>t_assort := Some (a\<lparr>a_barter_scheme := barters\<rparr>)\<rparr>,
                     if updatedCount > 0 \<and> debug cfg
                     then log Info
                            (Updated (js_or (t_nickname tr) (Str ''Unknown'')) updatedCount) e'
                     else e'))))"

text \<open>The verbose variant: items that are no array count as none, and nothing raises.\<close>

fun randomize_items ::
  "config \<Rightarrow> (string \<Rightarrow> jsnum) \<Rightarrow> db \<Rightarrow> item option list \<Rightarrow> (string \<times> scheme) list \<Rightarrow> nat
     \<Rightarrow> engine \<Rightarrow> nat \<times> (string \<times> scheme) list \<times> engine" where
  "randomize_items cfg N d [] barterSchemeData modifiedItemsCount e =
     (modifiedItemsCount, barterSchemeData, e)"
| "randomize_items cfg N d (None # xs) barterSchemeData modifiedItemsCount e =
     randomize_items cfg N d xs barterSchemeData modifiedItemsCount e"
| "randomize_items cfg N d (Some currentItem # xs) barterSchemeData modifiedItemsCount e =
     (if \<not> truthy_id (i_tpl currentItem) \<or> \<not> truthy_id (i_id currentItem)
      then randomize_items cfg N d xs barterSchemeData modifiedItemsCount e
      else
        (let baselinePrice = Map_get (baselinePrices e) (key_of (i_tpl currentItem))
         in if \<not> truthy baselinePrice \<or> le0 N baselinePrice
            then randomize_items cfg N d xs barterSchemeData modifiedItemsCount e
            else
              (case calculateRandomizedPrice cfg N baselinePrice e of
                 (finalRublePrice, e1) \<Rightarrow>
                   (case scheme_of barterSchemeData (key_of (i_id currentItem)) of
                      None \<Rightarrow> randomize_items cfg N d xs barterSchemeData modifiedItemsCount e1
                    | Some barterOptions \<Rightarrow>
                        (case updateTradeOfferPrice cfg N (offers_of (fst barterOptions))
                                finalRublePrice d e1 of
                           (wasUpdated, tradeOffersList, e2) \<Rightarrow>
                             randomize_items cfg N d xs
                               (put_offers (key_of (i_id currentItem)) barterOptions
                                  tradeOffersList barterSchemeData)
                               (if wasUpdated then modifiedItemsCount + 1
                                else modifiedItemsCount) e2)))))"

definition randomizeTraderPrices ::
  "config \<Rightarrow> (string \<Rightarrow> jsnum) \<Rightarrow> trader \<Rightarrow> db \<Rightarrow> engine \<Rightarrow> nat \<times> trader \<times> engine" where
  "randomizeTraderPrices cfg N targetTrader databaseTables e =
     (case t_assort targetTrader of
        None \<Rightarrow> (0, targetTrader, e)
      | Some a \<Rightarrow>
          (case randomize_items cfg N databaseTables
                  (case a_items a of Items xs \<Rightarrow> xs | _ \<Rightarrow> [])
                  (a_barter_scheme a) 0 e of
             (modifiedItemsCount, barters, e') \<Rightarrow>
               (modifiedItemsCount,
                targetTrader\<lparr>t_assort := Some (a\<lparr>a_barter_scheme := barters\<rparr>)\<rparr>,
                if modifiedItemsCount > 0 \<and> debug cfg
                then log Info
                       (Updated (js_or (t_nickname targetTrader) (Str ''unknown''))
                          modifiedItemsCount) e'
                else e')))"

section \<open>Cycle Scheduler\<close>

text \<open>
  One iteration of the loop "Process each trader" of \<open>_runCycle\<close>, on the store and the
  instance, and the loop. An inherited \<open>traders[traderId]\<close> is truthy: no warning, and
  \<open>_processTrader\<close> is called on it.
\<close>

definition runCycle_trader ::
  "config \<Rightarrow> (string \<Rightarrow> jsnum) \<Rightarrow> string \<Rightarrow> db \<times> engine \<Rightarrow> db \<times> engine" where
  "runCycle_trader cfg N traderId w =
     (case w of (d, e) \<Rightarrow>
        (case get_prop (traders d) traderId of
           Absent \<Rightarrow> (d, log Warn (TraderNotFound traderId) e)
         | Inherited \<Rightarrow>
             (case processTrader cfg N inherited_trader d e of
                (Inl err, tr', e') \<Rightarrow> (d, log Error (ProcessFailed traderId err) e')
              | (Inr n, tr', e') \<Rightarrow> (d, e'))
         | Own tr \<Rightarrow>
             (case processTrader cfg N tr d e of
                (Inl err, tr', e') \<Rightarrow>
                  (d\<lparr>traders := AList.update traderId tr' (traders d)\<rparr>,
                   log Error (ProcessFailed traderId err) e')
              | (Inr n, tr', e') \<Rightarrow>
                  (d\<lparr>traders := AList.update traderId tr' (traders d)\<rparr>, e'))))"

fun runCycle_traders ::
  "config \<Rightarrow> (string \<Rightarrow> jsnum) \<Rightarrow> string list \<Rightarrow> db \<times> engine \<Rightarrow> db \<times> engine" where
  "runCycle_traders cfg N [] w = w"
| "runCycle_traders cfg N (traderId # rest) w =
     runCycle_traders cfg N rest (runCycle_trader cfg N traderId w)"

text \<open>"Determine which traders to process": an exception of the discovery is not caught.\<close>

definition cycle_traderIds ::
  "config \<Rightarrow> db \<Rightarrow> engine \<Rightarrow> (exn + string list) \<times> engine" where
  "cycle_traderIds cfg d e =
     (if autoDiscoverTraderIds cfg
      then (case discoverTraders cfg d e of
              (Inl x, e') \<Rightarrow> (Inl x, e')
            | (Inr discovered, e') \<Rightarrow>
                (Inr (if length discovered > 0 then discovered else traderIds cfg), e'))
      else (Inr (traderIds cfg), e))"

text \<open>\<open>_runCycle\<close>: an exception of \<open>_buildBaselines\<close> is not caught either.\<close>

definition runCycle ::
  "config \<Rightarrow> (string \<Rightarrow> jsnum) \<Rightarrow> db \<Rightarrow> engine \<Rightarrow> (exn + unit) \<times> db \<times> engine" where
  "runCycle cfg N d e =
     (if \<not> enabled cfg then (Inr (), d, log Info Disabled e)
      else
        (case cycle_traderIds cfg d e of
           (Inl x, e0) \<Rightarrow> (Inl x, d, e0)
         | (Inr ids, e0) \<Rightarrow>
             (case buildBaselines cfg N d ids e0 of
                (Inl x, e1) \<Rightarrow> (Inl x, d, e1)
              | (Inr u, e1) \<Rightarrow>
                  (case runCycle_traders cfg N ids (d, e1) of
                     (d', e2) \<Rightarrow> (Inr (), d', e2)))))"

text \<open>The verbose variant, \<open>_executeOneRandomizationCycle\<close>.\<close>

definition executeCycle_trader ::
  "config \<Rightarrow> (string \<Rightarrow> jsnum) \<Rightarrow> string \<Rightarrow> db \<times> engine \<Rightarrow> db \<times> engine" where
  "executeCycle_trader cfg N currentTraderId w =
     (case w of (d, e) \<Rightarrow>
        (case get_prop (traders d) currentTraderId of
           Absent \<Rightarrow> (d, log Warn (TraderNotFound currentTraderId) e)
         | Inherited \<Rightarrow>
             (case randomizeTraderPrices cfg N inherited_trader d e of
                (n, traderData', e') \<Rightarrow> (d, e'))
         | Own traderData \<Rightarrow>
             (case randomizeTraderPrices cfg N traderData d e of
                (n, traderData', e') \<Rightarrow>
                  (d\<lparr>traders := AList.update currentTraderId traderData' (traders d)\<rparr>, e'))))"

fun executeCycle_traders ::
  "config \<Rightarrow> (string \<Rightarrow> jsnum) \<Rightarrow> string list \<Rightarrow> db \<times> engine \<Rightarrow> db \<times> engine" where
  "executeCycle_traders cfg N [] w = w"
| "executeCycle_traders cfg N (currentTraderId # rest) w =
     executeCycle_traders cfg N rest (executeCycle_trader cfg N currentTraderId w)"

definition activeTraderIds :: "config \<Rightarrow> db \<Rightarrow> engine \<Rightarrow> string list \<times> engine" where
  "activeTraderIds cfg databaseTables e =
     (if autoDiscoverTraderIds cfg
      then (case autoDiscoverRelevantTraders cfg databaseTables e of
              (discoveredTraderIds, e') \<Rightarrow>
                (if length discoveredTraderIds > 0 then discoveredTraderIds
                 else traderIds cfg, e'))
      else (traderIds cfg, e))"

definition executeOneRandomizationCycle ::
  "config \<Rightarrow> (string \<Rightarrow> jsnum) \<Rightarrow> db \<Rightarrow> engine \<Rightarrow> db \<times> engine" where
  "executeOneRandomizationCycle cfg N databaseTables e =
     (if \<not> enabled cfg then (databaseTables, log Info Disabled e)
      else
        (case activeTraderIds cfg databaseTables e of
           (ids, e0) \<Rightarrow>
             executeCycle_traders cfg N ids
               (databaseTables,
                buildBaselinePricesFromTraders cfg N databaseTables ids False e0)))"

section \<open>Configuration loader\<close>

text \<open>
  \<open>loadAndValidateConfig\<close> of \<open>aio-price-randomizer-loader.js\<close>, the statements that
  validate the multipliers and the absolute bounds, applied to what \<open>Number\<close> gives for
  the four merged properties. A multiplier that is not finite becomes the built-in
  default; an absolute bound is \<open>Number(x) || 0\<close>, and \<open>0\<close> when negative, so that
  \<open>Infinity\<close> stays.
\<close>

definition loadAndValidateConfig ::
  "jsnum \<Rightarrow> jsnum \<Rightarrow> jsnum \<Rightarrow> jsnum \<Rightarrow> config \<Rightarrow> config" where
  "loadAndValidateConfig nMin nMax nMinAbs nMaxAbs mergedConfiguration =
     (let lo = (if \<not> isFinite nMin then Fin 0.85 else nMin);
          hi = (if \<not> isFinite nMax then Fin 1.35 else nMax);
          lo' = (if num_lt hi lo then hi else lo);
          hi' = (if num_lt hi lo then lo else hi);
          a = (if truthy (Num nMinAbs) then nMinAbs else Fin 0);
          b = (if truthy (Num nMaxAbs) then nMaxAbs else Fin 0);
          a = (if num_lt0 a then Fin 0 else a);
          b = (if num_lt0 b then Fin 0 else b);
          a' = (if num_gt0 b \<and> num_lt b a then b else a);
          b' = (if num_gt0 b \<and> num_lt b a then a else b)
      in mergedConfiguration\<lparr>minMultiplier := lo', maxMultiplier := hi',
                              minAbsolute := a', maxAbsolute := b'\<rparr>)"

text \<open>
  The compact loader: a multiplier is \<open>Number(x) || default\<close>, which keeps an infinity,
  an absolute bound \<open>Math.max(0, Number(x) || 0)\<close>.
\<close>

definition loadAndValidateConfig_compact ::
  "jsnum \<Rightarrow> jsnum \<Rightarrow> jsnum \<Rightarrow> jsnum \<Rightarrow> config \<Rightarrow> config" where
  "loadAndValidateConfig_compact nMin nMax nMinAbs nMaxAbs cfg =
     (let lo = (if truthy (Num nMin) then nMin else Fin 0.85);
          hi = (if truthy (Num nMax) then nMax else Fin 1.35);
          lo' = (if num_lt hi lo then hi else lo);
          hi' = (if num_lt hi lo then lo else hi);
          a = Math_max (Fin 0) (if truthy (Num nMinAbs) then nMinAbs else Fin 0);
          b = Math_max (Fin 0) (if truthy (Num nMaxAbs) then nMaxAbs else Fin 0);
          a' = (if num_gt0 b \<and> num_lt b a then b else a);
          b' = (if num_gt0 b \<and> num_lt b a then a else b)
      in cfg\<lparr>minMultiplier := lo', maxMultiplier := hi',
               minAbsolute := a', maxAbsolute := b'\<rparr>)"

section \<open>Construction\<close>

text \<open>
  The instance after the constructor and the assignment of the generator in
  \<open>postDBLoad\<close> (\<open>_initializeModConfiguration\<close> in the verbose variant).
\<close>

definition new_engine :: "config \<Rightarrow> engine" where
  "new_engine cfg =
     \<lparr> rng = seededRandom (seed cfg), baselinePrices = [], priceCache = [],
       currencyCache = [], logs = [] \<rparr>"

definition new_randomizer :: "config \<Rightarrow> engine" where
  "new_randomizer cfg =
     \<lparr> rng = createDeterministicRandomGenerator (seed cfg), baselinePrices = [],
       priceCache = [], currencyCache = [], logs = [] \<rparr>"

text \<open>
  \<open>Number\<close> on the strings used for concrete inputs: the empty string is \<open>0\<close>, an
  optional minus sign before decimal digits is that integer, \<open>Infinity\<close> with an
  optional minus sign is that infinity, and any other string is \<open>NaN\<close> here.
\<close>

fun position :: "char \<Rightarrow> string \<Rightarrow> nat \<Rightarrow> nat option" where
  "position c [] k = None"
| "position c (x # xs) k = (if c = x then Some k else position c xs (Suc k))"

definition digit :: "char \<Rightarrow> nat option" where
  "digit c = position c ''0123456789'' 0"

fun digits :: "nat \<Rightarrow> string \<Rightarrow> nat option" where
  "digits acc [] = Some acc"
| "digits acc (c # cs) =
     (case digit c of None \<Rightarrow> None | Some k \<Rightarrow> digits (10 * acc + k) cs)"

definition unsigned_literal :: "string \<Rightarrow> jsnum" where
  "unsigned_literal s =
     (if s = ''Infinity'' then PInf
      else if s = [] then NaN
      else (case digits 0 s of None \<Rightarrow> NaN | Some n \<Rightarrow> fl (real n)))"

fun Number_literal :: "string \<Rightarrow> jsnum" where
  "Number_literal [] = Fin 0"
| "Number_literal (c # cs) =
     (if c = CHR ''-'' then num_neg (unsigned_literal cs) else unsigned_literal (c # cs))"

section \<open>Notions used in the statements\<close>

text \<open>
  The items of a vendor's assortment that the loop of \<open>_processTrader\<close> (and of
  \<open>_randomizeTraderPrices\<close>) does not skip: both identifiers truthy, and a baseline that
  is truthy and not \<open><= 0\<close>.
\<close>

definition priced_item :: "(string \<Rightarrow> jsnum) \<Rightarrow> (string \<times> jsval) list \<Rightarrow> item option \<Rightarrow> bool" where
  "priced_item N baselines x =
     (case x of
        None \<Rightarrow> False
      | Some it \<Rightarrow>
          truthy_id (i_tpl it) \<and> truthy_id (i_id it)
          \<and> truthy (Map_get baselines (key_of (i_tpl it)))
          \<and> \<not> le0 N (Map_get baselines (key_of (i_tpl it))))"

definition trader_items :: "trader \<Rightarrow> item option list" where
  "trader_items tr =
     (case t_assort tr of
        None \<Rightarrow> []
      | Some a \<Rightarrow> (case a_items a of Items xs \<Rightarrow> xs | _ \<Rightarrow> []))"

text \<open>
  The memoized prices of one instance are still those of a later one: every identifier
  in the price cache of \<open>e\<close> has the same entry in that of \<open>e'\<close>.
\<close>

definition cache_kept :: "engine \<Rightarrow> engine \<Rightarrow> bool" where
  "cache_kept e e' =
     (\<forall>t \<in> fst ` set (priceCache e). map_of (priceCache e') t = map_of (priceCache e) t)"

text \<open>A number that is not \<open>< 0\<close>: \<open>NaN\<close>, \<open>Infinity\<close>, or a finite number \<open>\<ge> 0\<close>.\<close>

fun not_negative :: "jsnum \<Rightarrow> bool" where
  "not_negative NaN = True"
| "not_negative NInf = False"
| "not_negative (Fin q) = (0 \<le> q)"
| "not_negative PInf = True"

text \<open>\<open>q >= 1\<close> on numbers\<close>

fun at_least_1 :: "jsnum \<Rightarrow> bool" where
  "at_least_1 NaN = False"
| "at_least_1 NInf = False"
| "at_least_1 (Fin q) = (1 \<le> q)"
| "at_least_1 PInf = True"

section \<open>Concrete inputs\<close>

definition rub :: string where
  "rub = ''5449016a4bdc2d6f028b456f''"

definition usd :: string where
  "usd = ''5696686a4bdc2da3298b456a''"

definition ruble_offer :: offer where
  "ruble_offer = \<lparr> o_tpl = Some rub, o_count = Fin 5 \<rparr>"

definition dollar_offer :: offer where
  "dollar_offer = \<lparr> o_tpl = Some usd, o_count = Fin 7 \<rparr>"

definition no_tables :: db where
  "no_tables = \<lparr> prices = NoTable, handbook = NoTable, traders = [] \<rparr>"

definition barter_offer :: offer where
  "barter_offer = \<lparr> o_tpl = Some ''5c0e530286f7747fa1419862'', o_count = Fin 3 \<rparr>"

definition engine_with_baseline :: engine where
  "engine_with_baseline =
     (new_engine (DEFAULT_CONFIG 0))\<lparr>baselinePrices := [(''item'', Num (Fin 100))]\<rparr>"

definition priced :: "jsval \<Rightarrow> entry" where
  "priced v = \<lparr> e_Id = Some ''item'', e_id = None, e_Price = v, e_price = Undefined,
                e_DefaultPrice = Undefined, e_basePrice = Undefined \<rparr>"

definition prices_object :: "jsval \<Rightarrow> db" where
  "prices_object v =
     \<lparr> prices = ObjectTable [(''item'', priced v)], handbook = NoTable, traders = [] \<rparr>"

definition prices_array :: "jsval \<Rightarrow> db" where
  "prices_array v =
     \<lparr> prices = ArrayTable [Some (priced v)], handbook = NoTable, traders = [] \<rparr>"

text \<open>A price table whose array has a \<open>null\<close> element before the record of the item.\<close>

definition prices_array_with_null :: "jsval \<Rightarrow> db" where
  "prices_array_with_null v =
     \<lparr> prices = ArrayTable [None, Some (priced v)], handbook = NoTable, traders = [] \<rparr>"

text \<open>Both multipliers \<open>-1\<close>, no absolute bounds, through either loader.\<close>

definition negative_config :: config where
  "negative_config =
     loadAndValidateConfig (Fin (- 1)) (Fin (- 1)) (Fin 0) (Fin 0) (DEFAULT_CONFIG 0)"

definition negative_config_compact :: config where
  "negative_config_compact =
     loadAndValidateConfig_compact (Fin (- 1)) (Fin (- 1)) (Fin 0) (Fin 0) (DEFAULT_CONFIG 0)"

text \<open>
  The multipliers \<open>-2^1023\<close> and \<open>2^1023\<close> (\<open>8.98846567431158e307\<close>, a finite double),
  no absolute bounds and the seed \<open>2463401483\<close>, through either loader.
\<close>

definition wide_config :: config where
  "wide_config =
     loadAndValidateConfig (Fin (- (2 ^ 1023))) (Fin (2 ^ 1023)) (Fin 0) (Fin 0)
       (DEFAULT_CONFIG 2463401483)"

definition wide_config_compact :: config where
  "wide_config_compact =
     loadAndValidateConfig_compact (Fin (- (2 ^ 1023))) (Fin (2 ^ 1023)) (Fin 0) (Fin 0)
       (DEFAULT_CONFIG 2463401483)"

definition trader_without_offer_id :: trader where
  "trader_without_offer_id =
     \<lparr> t_nickname = Str ''AIO'',
       t_assort = Some \<lparr> a_items = Items [Some \<lparr> i_tpl = Some ''item'', i_id = None \<rparr>],
                         a_barter_scheme = [] \<rparr> \<rparr>"

definition trader_with_offer :: trader where
  "trader_with_offer =
     \<lparr> t_nickname = Str ''AIO'',
       t_assort = Some \<lparr> a_items = Items [Some \<lparr> i_tpl = Some ''item'', i_id = Some ''offer'' \<rparr>],
                         a_barter_scheme = [(''offer'', Nested [Some ruble_offer] [])] \<rparr> \<rparr>"

definition trader_with_count :: "jsnum \<Rightarrow> trader" where
  "trader_with_count c =
     \<lparr> t_nickname = Str ''AIO'',
       t_assort = Some \<lparr> a_items = Items [Some \<lparr> i_tpl = Some ''item'', i_id = Some ''offer'' \<rparr>],
                         a_barter_scheme =
                           [(''offer'', Nested [Some (ruble_offer\<lparr>o_count := c\<rparr>)] [])] \<rparr> \<rparr>"

definition trader_repriced :: trader where
  "trader_repriced =
     \<lparr> t_nickname = Str ''AIO'',
       t_assort = Some \<lparr> a_items = Items [Some \<lparr> i_tpl = Some ''item'', i_id = Some ''offer'' \<rparr>],
                         a_barter_scheme =
                           [(''offer'', Nested [Some (ruble_offer\<lparr>o_count := Fin 100\<rparr>)] [])] \<rparr> \<rparr>"

text \<open>A vendor whose \<open>assort.items\<close> is an object, not an array.\<close>

definition broken_trader :: trader where
  "broken_trader =
     \<lparr> t_nickname = Undefined,
       t_assort = Some \<lparr> a_items = NonIterable, a_barter_scheme = [] \<rparr> \<rparr>"

text \<open>Multipliers \<open>1\<close> and \<open>1\<close>, an explicit vendor list, no discovery.\<close>

definition fixed_config :: config where
  "fixed_config =
     (DEFAULT_CONFIG 0)\<lparr>autoDiscoverTraderIds := False,
                        traderIds := [''ghost'', ''broken'', ''aio''],
                        minMultiplier := Fin 1, maxMultiplier := Fin 1\<rparr>"

text \<open>
  A store with the two vendors \<open>broken\<close> and \<open>aio\<close>, and a handbook that prices the
  item at \<open>100\<close>.
\<close>

definition two_traders :: db where
  "two_traders =
     \<lparr> prices = NoTable, handbook = ArrayTable [Some (priced (Num (Fin 100)))],
       traders = [(''broken'', broken_trader), (''aio'', trader_with_offer)] \<rparr>"

definition two_traders_repriced :: db where
  "two_traders_repriced =
     \<lparr> prices = NoTable, handbook = ArrayTable [Some (priced (Num (Fin 100)))],
       traders = [(''broken'', broken_trader), (''aio'', trader_repriced)] \<rparr>"

text \<open>
  A store with the vendor \<open>aio\<close> alone and the same handbook, and that store with the
  count of the vendor's ruble offer replaced.
\<close>

definition one_trader :: db where
  "one_trader =
     \<lparr> prices = NoTable, handbook = ArrayTable [Some (priced (Num (Fin 100)))],
       traders = [(''aio'', trader_with_offer)] \<rparr>"

definition one_trader_with_count :: "jsnum \<Rightarrow> db" where
  "one_trader_with_count c =
     \<lparr> prices = NoTable, handbook = ArrayTable [Some (priced (Num (Fin 100)))],
       traders = [(''aio'', trader_with_count c)] \<rparr>"

text \<open>A store whose only vendor has the number \<open>5\<close> for a nickname.\<close>

definition numeric_nickname :: db where
  "numeric_nickname =
     \<lparr> prices = NoTable, handbook = NoTable,
       traders = [(''five'', \<lparr> t_nickname = Num (Fin 5), t_assort = None \<rparr>)] \<rparr>"

section \<open>Properties\<close>

subsection \<open>Numbers\<close>

lemma overflow_threshold_pos: "0 < overflow_threshold"
  by (simp add: overflow_threshold_def)

lemma MAX_VALUE_below: "MAX_VALUE < overflow_threshold"
  by (simp add: overflow_threshold_def MAX_VALUE_def)

lemma fl_Fin: "\<bar>x\<bar> < overflow_threshold \<Longrightarrow> fl x = Fin x"
  by (auto simp: fl_def)

lemma fl_not_NaN: "fl x \<noteq> NaN"
  by (simp add: fl_def)

lemma fl_not_negative: "0 \<le> x \<Longrightarrow> not_negative (fl x)"
  using overflow_threshold_pos by (simp add: fl_def)

lemma Math_max_Fin: "Math_max (Fin a) (Fin b) = Fin (max a b)"
  by (simp add: Math_max_def max_def)

lemma Math_min_Fin: "Math_min (Fin a) (Fin b) = Fin (min a b)"
  by (simp add: Math_min_def min_def)

lemma not_negative_add: "not_negative a \<Longrightarrow> not_negative b \<Longrightarrow> not_negative (num_add a b)"
  by (cases a; cases b) (simp_all add: fl_not_negative)

lemma not_negative_mul: "not_negative a \<Longrightarrow> not_negative b \<Longrightarrow> not_negative (num_mul a b)"
  by (cases a; cases b) (simp_all add: fl_not_negative)

lemma not_negative_sub: "num_le a b \<Longrightarrow> not_negative (num_sub b a)"
  by (cases a; cases b) (simp_all add: num_sub_def fl_not_negative)

lemma not_negative_max: "num_gt0 m \<Longrightarrow> not_negative (Math_max p m)"
  by (cases p; cases m) (auto simp: Math_max_def)

lemma not_negative_min: "not_negative p \<Longrightarrow> num_gt0 m \<Longrightarrow> not_negative (Math_min p m)"
  by (cases p; cases m) (auto simp: Math_min_def)

lemma not_negative_round: "not_negative p \<Longrightarrow> not_negative (round_mode p m)"
proof (cases p)
  case (Fin x)
  assume "not_negative p"
  with Fin have x: "0 \<le> x" by simp
  then have "0 \<le> \<lfloor>x\<rfloor>" by simp
  moreover have "0 \<le> \<lceil>x\<rceil>"
    using x by (simp add: ceiling_le_iff order_trans [of "- 1" 0] le_ceiling_iff)
  moreover have "0 \<le> \<lfloor>x + 1 / 2\<rfloor>" using x by simp
  ultimately show ?thesis using Fin by (simp add: round_mode_def)
qed (simp_all add: round_mode_def)

lemma not_negative_of_gt0: "num_gt0 a \<Longrightarrow> not_negative a"
  by (cases a) simp_all

lemma not_negative_of_le: "num_le (Fin 0) a \<Longrightarrow> not_negative a"
  by (cases a) simp_all

subsection \<open>The generator and the price computation\<close>

lemma rng_output_range: "0 \<le> rng_output s \<and> rng_output s < 1"
proof -
  have "unat (s XOR drop_bit 14 s) < 2 ^ 32"
    using unsigned_less [of "s XOR drop_bit 14 s", where 'a=nat] by simp
  then have "real (unat (s XOR drop_bit 14 s)) < real (2 ^ 32)"
    by (rule of_nat_less_iff [THEN iffD2])
  then have "real (unat (s XOR drop_bit 14 s)) / 4294967296 < 1"
    by (simp del: of_nat_unat)
  then show ?thesis unfolding rng_output_def by (simp del: of_nat_unat)
qed

lemma randomizePrice_step:
  "randomizePrice cfg N b e
     = (randomized cfg N b (rng_output (rng_state (rng e))), e\<lparr>rng := rng_state (rng e)\<rparr>)"
  by (simp add: randomizePrice_def rng_call_def Let_def)

lemma calculateRandomizedPrice_step:
  "calculateRandomizedPrice cfg N b e
     = (calculated cfg N b (rng_output (rng_state (rng e))), e\<lparr>rng := rng_state (rng e)\<rparr>)"
  by (simp add: calculateRandomizedPrice_def rng_call_def Let_def)

lemma randomMultiplier_eq: "randomMultiplier cfg r = multiplier cfg r"
  by (simp add: randomMultiplier_def multiplier_def)

lemma truthy_of_gt0: "num_gt0 a \<Longrightarrow> truthy (Num a)"
  by (cases a) simp_all

lemma calculated_eq: "calculated cfg N b r = randomized cfg N b r"
  by (auto simp: calculated_def randomized_def randomMultiplier_eq roundValueByMode_def
        round_mode_def Let_def truthy_of_gt0)

lemma multiplier_bounds:
  assumes "0 \<le> r" and "r < 1"
    and "minMultiplier cfg = Fin lo" and "maxMultiplier cfg = Fin hi" and "lo \<le> hi"
    and "\<bar>lo\<bar> \<le> MAX_VALUE" and "\<bar>hi\<bar> \<le> MAX_VALUE"
    and "isFinite (num_sub (Fin hi) (Fin lo))"
  shows "\<exists>m. multiplier cfg r = Fin m \<and> lo \<le> m \<and> m \<le> hi"
proof -
  let ?d = "hi - lo"
  have d0: "0 \<le> ?d" using assms(5) by simp
  have d1: "?d < overflow_threshold"
    using assms(8) d0 overflow_threshold_pos
    by (auto simp: num_sub_def fl_def split: if_splits)
  have sub: "num_sub (Fin hi) (Fin lo) = Fin ?d"
    using d0 d1 by (simp add: num_sub_def fl_Fin)
  have lo: "0 \<le> r * ?d" using assms(1) d0 by simp
  have "r * ?d \<le> 1 * ?d" using assms(2) d0 by (intro mult_right_mono) simp_all
  then have hi: "r * ?d \<le> ?d" by simp
  have mul: "num_mul (Fin r) (Fin ?d) = Fin (r * ?d)"
    using lo hi d1 by (simp add: fl_Fin)
  have "\<bar>r * ?d + lo\<bar> \<le> MAX_VALUE" using lo hi assms(6,7) by (simp add: abs_le_iff)
  then have add: "num_add (Fin (r * ?d)) (Fin lo) = Fin (r * ?d + lo)"
    using MAX_VALUE_below by (simp add: fl_Fin)
  have "multiplier cfg r = Fin (r * ?d + lo)"
    unfolding multiplier_def assms(3,4) sub mul add ..
  with lo hi show ?thesis by simp
qed

text \<open>
  C5, as amended: every output of the generator lies in \<open>[0,1)\<close>, and for every \<open>r\<close> in
  \<open>[0,1)\<close> and every configuration whose multiplier bounds are finite doubles (so at most
  \<open>Number.MAX_VALUE\<close> in absolute value) with \<open>minMultiplier \<le> maxMultiplier\<close> and a
  difference \<open>maxMultiplier - minMultiplier\<close> that is finite, that is, does not overflow,
  the multiplier \<open>r * (max - min) + min\<close> computed by either variant of the Price
  Randomizer is a finite number between \<open>minMultiplier\<close> and \<open>maxMultiplier\<close>.
\<close>

theorem C5_multiplier_in_bounds:
  assumes "0 \<le> r" and "r < 1"
    and "minMultiplier cfg = Fin lo" and "maxMultiplier cfg = Fin hi" and "lo \<le> hi"
    and "\<bar>lo\<bar> \<le> MAX_VALUE" and "\<bar>hi\<bar> \<le> MAX_VALUE"
    and "isFinite (num_sub (maxMultiplier cfg) (minMultiplier cfg))"
  shows "(\<exists>m. multiplier cfg r = Fin m \<and> lo \<le> m \<and> m \<le> hi)
       \<and> (\<exists>m. randomMultiplier cfg r = Fin m \<and> lo \<le> m \<and> m \<le> hi)
       \<and> 0 \<le> fst (rng_call state) \<and> fst (rng_call state) < 1"
proof -
  from assms(8) have "isFinite (num_sub (Fin hi) (Fin lo))" by (simp add: assms(3,4))
  from multiplier_bounds [OF assms(1-7) this] rng_output_range [of "rng_state state"]
  show ?thesis by (simp add: randomMultiplier_eq rng_call_def Let_def)
qed

text \<open>
  C5 at the default bounds \<open>0.85\<close> and \<open>1.35\<close> and the generator output \<open>1/2\<close>: the
  multiplier is \<open>1.1\<close>.
\<close>

theorem C5_witness:
  "(0::real) \<le> 1 / 2 \<and> (1::real) / 2 < 1
   \<and> minMultiplier (DEFAULT_CONFIG 0) = Fin 0.85 \<and> maxMultiplier (DEFAULT_CONFIG 0) = Fin 1.35
   \<and> (0.85::real) \<le> 1.35 \<and> \<bar>0.85::real\<bar> \<le> MAX_VALUE \<and> \<bar>1.35::real\<bar> \<le> MAX_VALUE
   \<and> isFinite (num_sub (maxMultiplier (DEFAULT_CONFIG 0)) (minMultiplier (DEFAULT_CONFIG 0)))
   \<and> (\<exists>m. multiplier (DEFAULT_CONFIG 0) (1 / 2) = Fin m \<and> 0.85 \<le> m \<and> m \<le> 1.35)
   \<and> (\<exists>m. randomMultiplier (DEFAULT_CONFIG 0) (1 / 2) = Fin m \<and> 0.85 \<le> m \<and> m \<le> 1.35)"
proof -
  have h: "minMultiplier (DEFAULT_CONFIG 0) = Fin 0.85"
    "maxMultiplier (DEFAULT_CONFIG 0) = Fin 1.35"
    by (simp_all add: DEFAULT_CONFIG_def)
  have f: "isFinite (num_sub (maxMultiplier (DEFAULT_CONFIG 0))
                       (minMultiplier (DEFAULT_CONFIG 0)))"
    by (simp add: h num_sub_def fl_def overflow_threshold_def)
  have m: "\<bar>0.85::real\<bar> \<le> MAX_VALUE" "\<bar>1.35::real\<bar> \<le> MAX_VALUE"
    by (simp_all add: MAX_VALUE_def)
  from C5_multiplier_in_bounds [of "1 / 2" "DEFAULT_CONFIG 0" "0.85" "1.35", OF _ _ h _ m f]
    h m f
  show ?thesis by simp
qed

text \<open>
  C5 as stated fails: the verbose loader accepts the finite multipliers \<open>-2^1023\<close> and
  \<open>2^1023\<close>, as the compact one does, and their difference overflows to \<open>Infinity\<close>.
  The first output of the generator for the seed \<open>2463401483\<close> is \<open>0\<close>, for which the
  multiplier is \<open>0 * Infinity + min\<close>, that is \<open>NaN\<close>; for the output \<open>1/2\<close> it is
  \<open>Infinity\<close>, above \<open>maxMultiplier\<close>.
\<close>

theorem C5_counterexample:
  "minMultiplier wide_config = Fin (- (2 ^ 1023)) \<and> maxMultiplier wide_config = Fin (2 ^ 1023)
   \<and> num_le (minMultiplier wide_config) (maxMultiplier wide_config)
   \<and> fst (rng_call (rng (new_randomizer wide_config))) = 0
   \<and> randomMultiplier wide_config 0 = NaN
   \<and> randomMultiplier wide_config (1 / 2) = PInf
   \<and> num_lt (maxMultiplier wide_config) (randomMultiplier wide_config (1 / 2))
   \<and> minMultiplier wide_config_compact = Fin (- (2 ^ 1023))
   \<and> maxMultiplier wide_config_compact = Fin (2 ^ 1023)
   \<and> fst (rng_call (rng (new_engine wide_config_compact))) = 0
   \<and> multiplier wide_config_compact 0 = NaN
   \<and> multiplier wide_config_compact (1 / 2) = PInf"
proof -
  have c: "minMultiplier wide_config = Fin (- (2 ^ 1023))"
    "maxMultiplier wide_config = Fin (2 ^ 1023)" "seed wide_config = 2463401483"
    by (simp_all add: wide_config_def loadAndValidateConfig_def Let_def DEFAULT_CONFIG_def)
  have k: "minMultiplier wide_config_compact = Fin (- (2 ^ 1023))"
    "maxMultiplier wide_config_compact = Fin (2 ^ 1023)"
    "seed wide_config_compact = 2463401483"
    by (simp_all add: wide_config_compact_def loadAndValidateConfig_compact_def Let_def
          DEFAULT_CONFIG_def)
  have r: "fst (rng_call (2463401483 :: u32)) = 0"
    by (simp add: rng_call_def rng_state_def rng_output_def Let_def)
  show ?thesis
    by (simp add: c k r multiplier_def randomMultiplier_def new_randomizer_def new_engine_def
          createDeterministicRandomGenerator_def seededRandom_def num_sub_def fl_def
          overflow_threshold_def)
qed

subsection \<open>What the operations leave unchanged\<close>

lemma lookupPrice_frame:
  "rng (snd (lookupPrice N d t e)) = rng e
   \<and> baselinePrices (snd (lookupPrice N d t e)) = baselinePrices e
   \<and> currencyCache (snd (lookupPrice N d t e)) = currencyCache e"
  by (simp add: lookupPrice_def Let_def split: option.splits sum.splits)

lemma lookupTemplate_frame:
  "rng (snd (lookupTemplatePriceFromDatabase N d t e)) = rng e
   \<and> baselinePrices (snd (lookupTemplatePriceFromDatabase N d t e)) = baselinePrices e
   \<and> currencyCache (snd (lookupTemplatePriceFromDatabase N d t e)) = currencyCache e"
  by (simp add: lookupTemplatePriceFromDatabase_def log_def split: option.splits sum.splits)

lemma convertCurrency_frame:
  "rng (snd (convertCurrency cfg N d p t e)) = rng e
   \<and> baselinePrices (snd (convertCurrency cfg N d p t e)) = baselinePrices e"
  using lookupPrice_frame [of N d t e]
  by (auto simp: convertCurrency_def split: prod.splits sum.splits)

lemma convertRubles_frame:
  "rng (snd (convertRublesToTargetCurrency cfg N d p t e)) = rng e
   \<and> baselinePrices (snd (convertRublesToTargetCurrency cfg N d p t e)) = baselinePrices e"
  using lookupTemplate_frame [of N d t e]
  by (auto simp: convertRublesToTargetCurrency_def Let_def split: prod.splits)

lemma updateOffer_frame:
  "rng (snd (snd (updateOffer cfg N offers p d e))) = rng e
   \<and> baselinePrices (snd (snd (updateOffer cfg N offers p d e))) = baselinePrices e"
proof (cases "if onlyCashTrades cfg then findCurrencyOffer cfg offers else first_offer offers")
  case None
  then show ?thesis by (simp add: updateOffer_def)
next
  case (Some i)
  show ?thesis
  proof (cases "offer_at offers i")
    case None
    with Some show ?thesis by (simp add: updateOffer_def)
  next
    case (Some target)
    with \<open>_ = Some i\<close> show ?thesis
      using convertCurrency_frame [of cfg N d p "o_tpl target" e]
      by (auto simp: updateOffer_def split: prod.splits sum.splits)
  qed
qed

lemma updateTradeOfferPrice_frame:
  "rng (snd (snd (updateTradeOfferPrice cfg N offers p d e))) = rng e
   \<and> baselinePrices (snd (snd (updateTradeOfferPrice cfg N offers p d e))) = baselinePrices e"
proof (cases "if onlyCashTrades cfg then findCurrencyOfferInTradeList cfg offers
              else first_offer offers")
  case None
  then show ?thesis by (simp add: updateTradeOfferPrice_def split: if_splits)
next
  case (Some i)
  show ?thesis
  proof (cases "offer_at offers i")
    case None
    with Some show ?thesis by (simp add: updateTradeOfferPrice_def split: if_splits)
  next
    case (Some target)
    with \<open>_ = Some i\<close> show ?thesis
      using convertRubles_frame [of cfg N d p "o_tpl target" e]
      by (auto simp: updateTradeOfferPrice_def split: prod.splits if_splits)
  qed
qed

lemma lookup_templates_rng: "rng (snd (lookup_templates N d ts e)) = rng e"
proof (induction ts arbitrary: e)
  case Nil
  then show ?case by simp
next
  case (Cons t ts)
  show ?case
    using lookupPrice_frame [of N d "Some t" e] Cons.IH
    by (auto split: prod.splits sum.splits)
qed

lemma lookup_templates_rng_eq:
  "lookup_templates N d ts e = (r, e') \<Longrightarrow> rng e' = rng e"
  using lookup_templates_rng [of N d ts e] by simp

lemma establish_baselines_rng: "rng (establish_baselines N d ts e) = rng e"
proof (induction ts arbitrary: e)
  case Nil
  then show ?case by simp
next
  case (Cons t ts)
  show ?case
    using lookupTemplate_frame [of N d "Some t" e] Cons.IH
    by (auto split: prod.splits)
qed

lemma buildBaselines_rng: "rng (snd (buildBaselines cfg N d ids e)) = rng e"
  by (auto simp: buildBaselines_def Let_def log_def split: sum.splits prod.splits
           dest: lookup_templates_rng_eq)

lemma buildBaselinePrices_rng:
  "rng (buildBaselinePricesFromTraders cfg N d ids force e) = rng e"
  by (simp add: buildBaselinePricesFromTraders_def Let_def log_def establish_baselines_rng)

subsection \<open>Offer Updater\<close>

lemma round_mode_Fin: "\<exists>y. round_mode (Fin x) m = Fin y"
  by (simp add: round_mode_def)

text \<open>The Currency Converter returns \<open>null\<close> or a finite number.\<close>

lemma convert_at_rate_finite:
  "convert_at_rate N m p rate = Null \<or> (\<exists>x. convert_at_rate N m p rate = Num (Fin x))"
proof (cases "num_div p (ToNumber N rate)")
  case (Fin y)
  then show ?thesis
    using round_mode_Fin [of y m] by (auto simp: convert_at_rate_def Let_def)
qed (simp_all add: convert_at_rate_def Let_def)

lemma Math_max_1: "x \<noteq> NaN \<Longrightarrow> at_least_1 (Math_max (Fin 1) x)"
  by (cases x) (auto simp: Math_max_def)

lemma Math_floor_NaN: "Math_floor p = NaN \<longleftrightarrow> p = NaN"
  by (cases p) simp_all

lemma written_quantity:
  assumes "c = Null \<or> (\<exists>x. c = Num (Fin x))" and "p \<noteq> NaN"
  shows "at_least_1 (Math_max (Fin 1) (ToNumber N (js_or c (Num (Math_floor p)))))"
  using assms by (auto simp: js_or_def Math_floor_NaN intro!: Math_max_1)

lemma convertCurrency_finite:
  "convertCurrency cfg N d p t e = (Inr c, e') \<Longrightarrow> c = Null \<or> (\<exists>x. c = Num (Fin x))"
  using convert_at_rate_finite [of N "cc_rounding cfg" p]
  by (auto simp: convertCurrency_def split: if_splits prod.splits sum.splits)

lemma convertRubles_finite:
  "convertRublesToTargetCurrency cfg N d p t e = (c, e')
   \<Longrightarrow> c = Null \<or> (\<exists>x. c = Num (Fin x))"
  using convert_at_rate_finite [of N "cc_rounding cfg" p]
  by (auto simp: convertRublesToTargetCurrency_def Let_def split: if_splits prod.splits)

lemma updateOffer_target:
  assumes "updateOffer cfg N offers p d e = (Inr True, offers', e')"
  shows "\<exists>i off. (if onlyCashTrades cfg then findCurrencyOffer cfg offers
                   else first_offer offers) = Some i
           \<and> offer_at offers i = Some off
           \<and> ((o_tpl off = ruble cfg \<and> offers' = set_count offers i (Math_max (Fin 1) p))
              \<or> (\<exists>c e1. convertCurrency cfg N d p (o_tpl off) e = (Inr c, e1)
                   \<and> offers' = set_count offers i
                        (Math_max (Fin 1) (ToNumber N (js_or c (Num (Math_floor p)))))))"
  using assms
  by (auto simp: updateOffer_def split: option.splits if_splits prod.splits sum.splits)

lemma updateTradeOfferPrice_target:
  assumes "updateTradeOfferPrice cfg N offers p d e = (True, offers', e')"
  shows "\<exists>i off. (if onlyCashTrades cfg then findCurrencyOfferInTradeList cfg offers
                   else first_offer offers) = Some i
           \<and> offer_at offers i = Some off
           \<and> ((o_tpl off = ruble cfg \<and> offers' = set_count offers i (Math_max (Fin 1) p))
              \<or> (\<exists>c e1. convertRublesToTargetCurrency cfg N d p (o_tpl off) e = (c, e1)
                   \<and> offers' = set_count offers i
                        (Math_max (Fin 1) (ToNumber N (js_or c (Num (Math_floor p)))))))"
  using assms
  by (auto simp: updateTradeOfferPrice_def split: option.splits if_splits prod.splits)

lemma offer_at_set_count:
  "offer_at offers i = Some off
   \<Longrightarrow> offer_at (set_count offers i c) i = Some (off\<lparr>o_count := c\<rparr>)"
  by (cases offers) (auto split: if_splits)

lemma offer_at_set_count_other:
  "j \<noteq> i \<Longrightarrow> offer_at (set_count offers i c) j = offer_at offers j"
  by (cases offers) auto

lemma updateOffer_quantity:
  assumes "updateOffer cfg N offers p d e = (Inr True, offers', e')" and "p \<noteq> NaN"
  shows "\<exists>i off q. (if onlyCashTrades cfg then findCurrencyOffer cfg offers
                      else first_offer offers) = Some i
            \<and> offer_at offers i = Some off \<and> offers' = set_count offers i q
            \<and> at_least_1 q"
proof -
  from updateOffer_target [OF assms(1)] obtain i off where
    tg: "(if onlyCashTrades cfg then findCurrencyOffer cfg offers else first_offer offers)
           = Some i"
    and at: "offer_at offers i = Some off"
    and w: "(o_tpl off = ruble cfg \<and> offers' = set_count offers i (Math_max (Fin 1) p))
          \<or> (\<exists>c e1. convertCurrency cfg N d p (o_tpl off) e = (Inr c, e1)
               \<and> offers' = set_count offers i
                     (Math_max (Fin 1) (ToNumber N (js_or c (Num (Math_floor p))))))"
    by blast
  from w show ?thesis
  proof
    assume "o_tpl off = ruble cfg \<and> offers' = set_count offers i (Math_max (Fin 1) p)"
    with tg at Math_max_1 [OF assms(2)] show ?thesis by blast
  next
    assume "\<exists>c e1. convertCurrency cfg N d p (o_tpl off) e = (Inr c, e1)
               \<and> offers' = set_count offers i
                     (Math_max (Fin 1) (ToNumber N (js_or c (Num (Math_floor p)))))"
    then obtain c e1 where c: "convertCurrency cfg N d p (o_tpl off) e = (Inr c, e1)"
      and o: "offers' = set_count offers i
                     (Math_max (Fin 1) (ToNumber N (js_or c (Num (Math_floor p)))))"
      by blast
    from written_quantity [OF convertCurrency_finite [OF c] assms(2), of N] tg at o
    show ?thesis by blast
  qed
qed

lemma updateTradeOfferPrice_quantity:
  assumes "updateTradeOfferPrice cfg N offers p d e = (True, offers', e')" and "p \<noteq> NaN"
  shows "\<exists>i off q. (if onlyCashTrades cfg then findCurrencyOfferInTradeList cfg offers
                      else first_offer offers) = Some i
            \<and> offer_at offers i = Some off \<and> offers' = set_count offers i q
            \<and> at_least_1 q"
proof -
  from updateTradeOfferPrice_target [OF assms(1)] obtain i off where
    tg: "(if onlyCashTrades cfg then findCurrencyOfferInTradeList cfg offers
          else first_offer offers) = Some i"
    and at: "offer_at offers i = Some off"
    and w: "(o_tpl off = ruble cfg \<and> offers' = set_count offers i (Math_max (Fin 1) p))
          \<or> (\<exists>c e1. convertRublesToTargetCurrency cfg N d p (o_tpl off) e = (c, e1)
               \<and> offers' = set_count offers i
                     (Math_max (Fin 1) (ToNumber N (js_or c (Num (Math_floor p))))))"
    by blast
  from w show ?thesis
  proof
    assume "o_tpl off = ruble cfg \<and> offers' = set_count offers i (Math_max (Fin 1) p)"
    with tg at Math_max_1 [OF assms(2)] show ?thesis by blast
  next
    assume "\<exists>c e1. convertRublesToTargetCurrency cfg N d p (o_tpl off) e = (c, e1)
               \<and> offers' = set_count offers i
                     (Math_max (Fin 1) (ToNumber N (js_or c (Num (Math_floor p)))))"
    then obtain c e1 where
      c: "convertRublesToTargetCurrency cfg N d p (o_tpl off) e = (c, e1)"
      and o: "offers' = set_count offers i
                     (Math_max (Fin 1) (ToNumber N (js_or c (Num (Math_floor p)))))"
      by blast
    from written_quantity [OF convertRubles_finite [OF c] assms(2), of N] tg at o
    show ?thesis by blast
  qed
qed

text \<open>
  Whenever the Offer Updater reports a write and the price is not \<open>NaN\<close>, the quantity
  written into the target offer's count is at least 1: the list after the call is the
  list before it with the count of the target (the first currency offer in cash-only
  mode, the first offer otherwise) replaced by a number \<open>q\<close> with \<open>q >= 1\<close>. The price
  is any number but \<open>NaN\<close>, so also one that is \<open>0\<close>, negative or infinite, and the
  conversion may be unavailable. Both variants of the updater.
\<close>

lemma written_quantity_at_least_1:
  "(p \<noteq> NaN \<and> updateOffer cfg N offers p d e = (Inr True, offers', e')
      \<longrightarrow> (\<exists>i off q. (if onlyCashTrades cfg then findCurrencyOffer cfg offers
                         else first_offer offers) = Some i
             \<and> offer_at offers i = Some off \<and> offers' = set_count offers i q
             \<and> offer_at offers' i = Some (off\<lparr>o_count := q\<rparr>) \<and> at_least_1 q))
   \<and> (p \<noteq> NaN \<and> updateTradeOfferPrice cfg N offers p d e = (True, offers'', e'')
      \<longrightarrow> (\<exists>i off q. (if onlyCashTrades cfg then findCurrencyOfferInTradeList cfg offers
                         else first_offer offers) = Some i
             \<and> offer_at offers i = Some off \<and> offers'' = set_count offers i q
             \<and> offer_at offers'' i = Some (off\<lparr>o_count := q\<rparr>) \<and> at_least_1 q))"
proof (intro conjI impI)
  assume "p \<noteq> NaN \<and> updateOffer cfg N offers p d e = (Inr True, offers', e')"
  then have "updateOffer cfg N offers p d e = (Inr True, offers', e')" "p \<noteq> NaN"
    by simp_all
  from updateOffer_quantity [OF this] obtain i off q where
    "(if onlyCashTrades cfg then findCurrencyOffer cfg offers else first_offer offers) = Some i"
    "offer_at offers i = Some off" "offers' = set_count offers i q" "at_least_1 q"
    by blast
  then show "\<exists>i off q. (if onlyCashTrades cfg then findCurrencyOffer cfg offers
                         else first_offer offers) = Some i
             \<and> offer_at offers i = Some off \<and> offers' = set_count offers i q
             \<and> offer_at offers' i = Some (off\<lparr>o_count := q\<rparr>) \<and> at_least_1 q"
    using offer_at_set_count by blast
next
  assume "p \<noteq> NaN \<and> updateTradeOfferPrice cfg N offers p d e = (True, offers'', e'')"
  then have "updateTradeOfferPrice cfg N offers p d e = (True, offers'', e'')" "p \<noteq> NaN"
    by simp_all
  from updateTradeOfferPrice_quantity [OF this] obtain i off q where
    "(if onlyCashTrades cfg then findCurrencyOfferInTradeList cfg offers
      else first_offer offers) = Some i"
    "offer_at offers i = Some off" "offers'' = set_count offers i q" "at_least_1 q"
    by blast
  then show "\<exists>i off q. (if onlyCashTrades cfg then findCurrencyOfferInTradeList cfg offers
                         else first_offer offers) = Some i
             \<and> offer_at offers i = Some off \<and> offers'' = set_count offers i q
             \<and> offer_at offers'' i = Some (off\<lparr>o_count := q\<rparr>) \<and> at_least_1 q"
    using offer_at_set_count by blast
qed

text \<open>At a price that rounds to \<open>0\<close>, for a ruble offer, the count written is \<open>1\<close>.\<close>

lemma quantity_for_price_zero:
  "updateOffer (DEFAULT_CONFIG 0) Number_literal (Some [Some ruble_offer]) (Fin 0) no_tables
       (new_engine (DEFAULT_CONFIG 0))
     = (Inr True, Some [Some (ruble_offer\<lparr>o_count := Fin 1\<rparr>)], new_engine (DEFAULT_CONFIG 0))"
  "updateTradeOfferPrice (DEFAULT_CONFIG 0) Number_literal (Some [Some ruble_offer]) (Fin 0)
       no_tables (new_randomizer (DEFAULT_CONFIG 0))
     = (True, Some [Some (ruble_offer\<lparr>o_count := Fin 1\<rparr>)],
        new_randomizer (DEFAULT_CONFIG 0))"
  by (simp_all add: updateOffer_def updateTradeOfferPrice_def DEFAULT_CONFIG_def
        ruble_offer_def rub_def ruble_def currencies_def Math_max_def)

subsection \<open>Target selection\<close>

lemma first_currency_offer_index:
  "i < length xs \<Longrightarrow> \<forall>j<i. \<not> is_currency_offer cfg (xs ! j) \<Longrightarrow> is_currency_offer cfg (xs ! i)
   \<Longrightarrow> first_currency_offer cfg xs = Some i"
proof (induction xs arbitrary: i)
  case Nil
  then show ?case by simp
next
  case (Cons x xs)
  show ?case
  proof (cases i)
    case 0
    with Cons.prems show ?thesis by simp
  next
    case (Suc k)
    with Cons.prems have "\<not> is_currency_offer cfg x" by auto
    moreover from Suc Cons.prems have "first_currency_offer cfg xs = Some k"
      by (intro Cons.IH) auto
    ultimately show ?thesis using Suc by simp
  qed
qed

lemma first_currency_trade_offer_index:
  "i < length xs \<Longrightarrow> \<forall>j<i. \<not> is_currency_trade_offer cfg (xs ! j)
   \<Longrightarrow> is_currency_trade_offer cfg (xs ! i)
   \<Longrightarrow> first_currency_trade_offer cfg xs = Some i"
proof (induction xs arbitrary: i)
  case Nil
  then show ?case by simp
next
  case (Cons x xs)
  show ?case
  proof (cases i)
    case 0
    with Cons.prems show ?thesis by simp
  next
    case (Suc k)
    with Cons.prems have "\<not> is_currency_trade_offer cfg x" by auto
    moreover from Suc Cons.prems have "first_currency_trade_offer cfg xs = Some k"
      by (intro Cons.IH) auto
    ultimately show ?thesis using Suc by simp
  qed
qed

lemma updateOffer_cash_target:
  assumes "onlyCashTrades cfg" and "findCurrencyOffer cfg offers = Some i"
    and "updateOffer cfg N offers p d e = (Inr True, offers', e')"
  shows "\<exists>c. offers' = set_count offers i c"
  using updateOffer_target [OF assms(3)] assms(1,2) by auto

lemma updateTradeOfferPrice_cash_target:
  assumes "onlyCashTrades cfg" and "findCurrencyOfferInTradeList cfg offers = Some i"
    and "updateTradeOfferPrice cfg N offers p d e = (True, offers', e')"
  shows "\<exists>c. offers' = set_count offers i c"
  using updateTradeOfferPrice_target [OF assms(3)] assms(1,2) by auto

lemma set_count_at:
  "i < length xs \<Longrightarrow>
   offer_at (set_count (Some xs) i c) i = map_option (\<lambda>off. off\<lparr>o_count := c\<rparr>) (xs ! i)"
  by simp

text \<open>
  C2, as amended: in cash-only mode the target of the write is the first offer, in list
  order, whose counterpart identifier is one of the configured currency identifiers
  (in the compact variant a non-empty one); the count of that offer is the one replaced
  and every other offer of the list is left as it was. So a base-currency offer is the
  target when no offer in a configured currency precedes it.
\<close>

theorem C2_first_currency_offer_is_target:
  "(onlyCashTrades cfg \<and> i < length xs \<and> (\<forall>j<i. \<not> is_currency_offer cfg (xs ! j))
      \<and> is_currency_offer cfg (xs ! i)
    \<longrightarrow> findCurrencyOffer cfg (Some xs) = Some i
        \<and> (updateOffer cfg N (Some xs) p d e = (Inr True, offers', e')
           \<longrightarrow> (\<exists>c. offer_at offers' i = map_option (\<lambda>off. off\<lparr>o_count := c\<rparr>) (xs ! i))
               \<and> (\<forall>j. j \<noteq> i \<longrightarrow> offer_at offers' j = offer_at (Some xs) j)))
   \<and> (onlyCashTrades cfg \<and> i < length xs
      \<and> (\<forall>j<i. \<not> is_currency_trade_offer cfg (xs ! j))
      \<and> is_currency_trade_offer cfg (xs ! i)
    \<longrightarrow> findCurrencyOfferInTradeList cfg (Some xs) = Some i
        \<and> (updateTradeOfferPrice cfg N (Some xs) p d e = (True, offers'', e'')
           \<longrightarrow> (\<exists>c. offer_at offers'' i = map_option (\<lambda>off. off\<lparr>o_count := c\<rparr>) (xs ! i))
               \<and> (\<forall>j. j \<noteq> i \<longrightarrow> offer_at offers'' j = offer_at (Some xs) j)))"
proof (intro conjI impI)
  assume h: "onlyCashTrades cfg \<and> i < length xs \<and> (\<forall>j<i. \<not> is_currency_offer cfg (xs ! j))
      \<and> is_currency_offer cfg (xs ! i)"
  then show f: "findCurrencyOffer cfg (Some xs) = Some i"
    by (simp add: first_currency_offer_index)
  assume "updateOffer cfg N (Some xs) p d e = (Inr True, offers', e')"
  from updateOffer_cash_target [OF _ f this] h
  obtain c where c: "offers' = set_count (Some xs) i c" by blast
  from c h show "\<exists>c. offer_at offers' i = map_option (\<lambda>off. off\<lparr>o_count := c\<rparr>) (xs ! i)"
    by auto
  from c show "\<forall>j. j \<noteq> i \<longrightarrow> offer_at offers' j = offer_at (Some xs) j"
    by simp
next
  assume h: "onlyCashTrades cfg \<and> i < length xs
      \<and> (\<forall>j<i. \<not> is_currency_trade_offer cfg (xs ! j))
      \<and> is_currency_trade_offer cfg (xs ! i)"
  then show f: "findCurrencyOfferInTradeList cfg (Some xs) = Some i"
    by (simp add: first_currency_trade_offer_index)
  assume "updateTradeOfferPrice cfg N (Some xs) p d e = (True, offers'', e'')"
  from updateTradeOfferPrice_cash_target [OF _ f this] h
  obtain c where c: "offers'' = set_count (Some xs) i c" by blast
  from c h show "\<exists>c. offer_at offers'' i = map_option (\<lambda>off. off\<lparr>o_count := c\<rparr>) (xs ! i)"
    by auto
  from c show "\<forall>j. j \<noteq> i \<longrightarrow> offer_at offers'' j = offer_at (Some xs) j"
    by simp
qed

theorem C2_witness:
  "onlyCashTrades (DEFAULT_CONFIG 0)
   \<and> findCurrencyOffer (DEFAULT_CONFIG 0) (Some [Some barter_offer, Some ruble_offer]) = Some 1
   \<and> findCurrencyOfferInTradeList (DEFAULT_CONFIG 0)
        (Some [Some barter_offer, Some ruble_offer]) = Some 1
   \<and> updateOffer (DEFAULT_CONFIG 0) Number_literal (Some [Some barter_offer, Some ruble_offer])
        (Fin 100) no_tables (new_engine (DEFAULT_CONFIG 0))
      = (Inr True, Some [Some barter_offer, Some (ruble_offer\<lparr>o_count := Fin 100\<rparr>)],
         new_engine (DEFAULT_CONFIG 0))
   \<and> updateTradeOfferPrice (DEFAULT_CONFIG 0) Number_literal
        (Some [Some barter_offer, Some ruble_offer]) (Fin 100) no_tables
        (new_randomizer (DEFAULT_CONFIG 0))
      = (True, Some [Some barter_offer, Some (ruble_offer\<lparr>o_count := Fin 100\<rparr>)],
         new_randomizer (DEFAULT_CONFIG 0))
   \<and> offer_at (Some [Some barter_offer, Some (ruble_offer\<lparr>o_count := Fin 100\<rparr>)]) 0
     = offer_at (Some [Some barter_offer, Some ruble_offer]) 0"
proof -
  have c: "onlyCashTrades (DEFAULT_CONFIG 0)" by (simp add: DEFAULT_CONFIG_def)
  have n: "\<not> is_currency_offer (DEFAULT_CONFIG 0) (Some barter_offer)"
    "\<not> is_currency_trade_offer (DEFAULT_CONFIG 0) (Some barter_offer)"
    by (simp_all add: DEFAULT_CONFIG_def currencies_def barter_offer_def)
  have y: "is_currency_offer (DEFAULT_CONFIG 0) (Some ruble_offer)"
    "is_currency_trade_offer (DEFAULT_CONFIG 0) (Some ruble_offer)"
    by (simp_all add: DEFAULT_CONFIG_def currencies_def ruble_offer_def rub_def)
  have b: "\<forall>j<Suc 0. \<not> is_currency_offer (DEFAULT_CONFIG 0)
                        ([Some barter_offer, Some ruble_offer] ! j)"
     "\<forall>j<Suc 0. \<not> is_currency_trade_offer (DEFAULT_CONFIG 0)
                   ([Some barter_offer, Some ruble_offer] ! j)"
    using n by simp_all
  have u1: "updateOffer (DEFAULT_CONFIG 0) Number_literal
        (Some [Some barter_offer, Some ruble_offer])
        (Fin 100) no_tables (new_engine (DEFAULT_CONFIG 0))
      = (Inr True, Some [Some barter_offer, Some (ruble_offer\<lparr>o_count := Fin 100\<rparr>)],
         new_engine (DEFAULT_CONFIG 0))"
    by (simp add: updateOffer_def DEFAULT_CONFIG_def currencies_def barter_offer_def
          ruble_offer_def rub_def ruble_def Math_max_def)
  have u2: "updateTradeOfferPrice (DEFAULT_CONFIG 0) Number_literal
        (Some [Some barter_offer, Some ruble_offer]) (Fin 100) no_tables
        (new_randomizer (DEFAULT_CONFIG 0))
      = (True, Some [Some barter_offer, Some (ruble_offer\<lparr>o_count := Fin 100\<rparr>)],
         new_randomizer (DEFAULT_CONFIG 0))"
    by (simp add: updateTradeOfferPrice_def DEFAULT_CONFIG_def currencies_def barter_offer_def
          ruble_offer_def rub_def ruble_def Math_max_def)
  from C2_first_currency_offer_is_target
    [of "DEFAULT_CONFIG 0" "Suc 0" "[Some barter_offer, Some ruble_offer]" Number_literal
        "Fin 100" no_tables "new_engine (DEFAULT_CONFIG 0)"
        "Some [Some barter_offer, Some (ruble_offer\<lparr>o_count := Fin 100\<rparr>)]"
        "new_engine (DEFAULT_CONFIG 0)"] c b y u1
  have "findCurrencyOffer (DEFAULT_CONFIG 0) (Some [Some barter_offer, Some ruble_offer])
          = Some 1
     \<and> findCurrencyOfferInTradeList (DEFAULT_CONFIG 0)
          (Some [Some barter_offer, Some ruble_offer]) = Some 1
     \<and> (\<forall>j. j \<noteq> 1 \<longrightarrow>
         offer_at (Some [Some barter_offer, Some (ruble_offer\<lparr>o_count := Fin 100\<rparr>)]) j
         = offer_at (Some [Some barter_offer, Some ruble_offer]) j)"
    by simp
  with c u1 u2 show ?thesis by simp
qed

text \<open>
  C2 as stated fails: with a dollar offer before the ruble offer, cash-only mode
  selects and rewrites the dollar offer and leaves the ruble offer untouched.
\<close>

theorem C2_counterexample:
  "onlyCashTrades (DEFAULT_CONFIG 0)
   \<and> o_tpl ruble_offer = ruble (DEFAULT_CONFIG 0)
   \<and> o_tpl dollar_offer \<noteq> ruble (DEFAULT_CONFIG 0)
   \<and> findCurrencyOffer (DEFAULT_CONFIG 0) (Some [Some dollar_offer, Some ruble_offer]) = Some 0
   \<and> findCurrencyOfferInTradeList (DEFAULT_CONFIG 0)
        (Some [Some dollar_offer, Some ruble_offer]) = Some 0
   \<and> fst (snd (updateOffer (DEFAULT_CONFIG 0) Number_literal
        (Some [Some dollar_offer, Some ruble_offer]) (Fin 100) no_tables
        (new_engine (DEFAULT_CONFIG 0))))
      = Some [Some (dollar_offer\<lparr>o_count := Fin 100\<rparr>), Some ruble_offer]
   \<and> fst (snd (updateTradeOfferPrice (DEFAULT_CONFIG 0) Number_literal
        (Some [Some dollar_offer, Some ruble_offer]) (Fin 100) no_tables
        (new_randomizer (DEFAULT_CONFIG 0))))
      = Some [Some (dollar_offer\<lparr>o_count := Fin 100\<rparr>), Some ruble_offer]"
  by (simp add: updateOffer_def updateTradeOfferPrice_def DEFAULT_CONFIG_def currencies_def
        dollar_offer_def ruble_offer_def usd_def rub_def ruble_def
        convertCurrency_def convertRublesToTargetCurrency_def new_engine_def new_randomizer_def
        lookupPrice_def lookupTemplatePriceFromDatabase_def lookupTemplate_try_def
        lookupTemplate_prices_def lookupTemplate_handbook_def
        no_tables_def lookupPrice_prices_def Map_get_def js_or_def convert_at_rate_def
        Math_max_def)

subsection \<open>Baseline retention, generator, resolver\<close>

text \<open>
  C3: with retention mode (\<open>stickToBaseline\<close>) on and a non-empty baseline map, a call of
  the Baseline Builder, whatever the store and the vendor set, leaves the baseline map
  as it is: the compact builder returns with the instance unchanged, and the verbose
  one, called as the cycle calls it, changes nothing but the log (one debug line when
  \<open>debug\<close> is set).
\<close>

theorem C3_baseline_retained:
  assumes "stickToBaseline cfg" and "baselinePrices e \<noteq> []"
  shows "buildBaselines cfg N d ids e = (Inr (), e)
       \<and> buildBaselinePricesFromTraders cfg N d ids False e
           = (if debug cfg then log Debug BaselinePresent e else e)
       \<and> baselinePrices (buildBaselinePricesFromTraders cfg N d ids False e)
           = baselinePrices e"
  using assms by (simp add: buildBaselines_def buildBaselinePricesFromTraders_def log_def)

theorem C3_witness:
  "stickToBaseline (DEFAULT_CONFIG 0) \<and> baselinePrices engine_with_baseline \<noteq> []
   \<and> buildBaselines (DEFAULT_CONFIG 0) Number_literal (prices_object (Num (Fin 250))) [''t'']
        engine_with_baseline = (Inr (), engine_with_baseline)
   \<and> baselinePrices (buildBaselinePricesFromTraders (DEFAULT_CONFIG 0) Number_literal
        (prices_object (Num (Fin 250))) [''t''] False engine_with_baseline)
      = [(''item'', Num (Fin 100))]"
proof -
  have s: "stickToBaseline (DEFAULT_CONFIG 0)" by (simp add: DEFAULT_CONFIG_def)
  have b: "baselinePrices engine_with_baseline = [(''item'', Num (Fin 100))]"
    by (simp add: engine_with_baseline_def)
  then have n: "baselinePrices engine_with_baseline \<noteq> []" by simp
  from C3_baseline_retained [OF s n, of Number_literal "prices_object (Num (Fin 250))" "[''t'']"]
    s n b show ?thesis by (simp add: log_def)
qed

lemma rng_stream_positions:
  "rng_stream n s = map (\<lambda>k. rng_output ((rng_state ^^ Suc k) s)) [0..<n]"
proof (induction n arbitrary: s)
  case 0
  then show ?case by simp
next
  case (Suc n)
  have "map (\<lambda>k. rng_output ((rng_state ^^ Suc k) s)) [0..<Suc n]
      = rng_output (rng_state s) # map (\<lambda>k. rng_output ((rng_state ^^ Suc (Suc k)) s)) [0..<n]"
    by (simp only: map_upt_Suc) simp
  moreover have "rng_stream (Suc n) s = rng_output (rng_state s) # rng_stream n (rng_state s)"
    by (simp add: rng_call_def Let_def)
  moreover have "rng_stream n (rng_state s)
      = map (\<lambda>k. rng_output ((rng_state ^^ Suc (Suc k)) s)) [0..<n]"
    by (simp add: Suc.IH funpow_swap1)
  ultimately show ?case by simp
qed

text \<open>
  C4: two generators freshly constructed from the same seed, one in each variant and
  whatever the rest of the two configurations, produce the same values at every position
  up to \<open>n\<close>; the value at position \<open>k\<close> is a function of the state after \<open>k + 1\<close> steps;
  a price computation advances the state by exactly one step, and no other operation of
  the engine (lookup, baseline build, conversion, offer update, discovery) changes it.
\<close>

theorem C4_generator_deterministic:
  "(seed cfg1 = seed cfg2
      \<longrightarrow> rng_stream n (rng (new_engine cfg1)) = rng_stream n (rng (new_randomizer cfg2)))
   \<and> rng_stream n s = map (\<lambda>k. rng_output ((rng_state ^^ Suc k) s)) [0..<n]
   \<and> rng (snd (randomizePrice cfg N b e)) = rng_state (rng e)
   \<and> rng (snd (calculateRandomizedPrice cfg N b e)) = rng_state (rng e)
   \<and> rng (snd (lookupPrice N d t e)) = rng e
   \<and> rng (snd (lookupTemplatePriceFromDatabase N d t e)) = rng e
   \<and> rng (snd (buildBaselines cfg N d ids e)) = rng e
   \<and> rng (buildBaselinePricesFromTraders cfg N d ids force e) = rng e
   \<and> rng (snd (convertCurrency cfg N d p t e)) = rng e
   \<and> rng (snd (convertRublesToTargetCurrency cfg N d p t e)) = rng e
   \<and> rng (snd (snd (updateOffer cfg N offers p d e))) = rng e
   \<and> rng (snd (snd (updateTradeOfferPrice cfg N offers p d e))) = rng e
   \<and> rng (snd (discoverTraders cfg d e)) = rng e
   \<and> rng (snd (autoDiscoverRelevantTraders cfg d e)) = rng e"
proof -
  have "seed cfg1 = seed cfg2
      \<longrightarrow> rng_stream n (rng (new_engine cfg1)) = rng_stream n (rng (new_randomizer cfg2))"
    by (simp add: new_engine_def new_randomizer_def seededRandom_def
          createDeterministicRandomGenerator_def)
  moreover have "rng (snd (discoverTraders cfg d e)) = rng e"
    "rng (snd (autoDiscoverRelevantTraders cfg d e)) = rng e"
    by (simp_all add: discoverTraders_def autoDiscoverRelevantTraders_def Let_def log_def
          split: sum.splits)
  ultimately show ?thesis
    using rng_stream_positions [of n s] lookupPrice_frame [of N d t e]
      lookupTemplate_frame [of N d t e] buildBaselines_rng [of cfg N d ids e]
      buildBaselinePrices_rng [of cfg N d ids force e] convertCurrency_frame [of cfg N d p t e]
      convertRubles_frame [of cfg N d p t e] updateOffer_frame [of cfg N offers p d e]
      updateTradeOfferPrice_frame [of cfg N offers p d e]
    by (simp add: randomizePrice_step calculateRandomizedPrice_step)
qed

theorem C4_witness:
  "seed (DEFAULT_CONFIG 42) = seed ((DEFAULT_CONFIG 42)\<lparr>debug := True, minMultiplier := Fin 1\<rparr>)
   \<and> rng_stream 3 (rng (new_engine (DEFAULT_CONFIG 42)))
     = rng_stream 3
         (rng (new_randomizer ((DEFAULT_CONFIG 42)\<lparr>debug := True, minMultiplier := Fin 1\<rparr>)))"
proof -
  have h: "seed (DEFAULT_CONFIG 42)
           = seed ((DEFAULT_CONFIG 42)\<lparr>debug := True, minMultiplier := Fin 1\<rparr>)"
    by (simp add: DEFAULT_CONFIG_def)
  from C4_generator_deterministic
    [of "DEFAULT_CONFIG 42" "(DEFAULT_CONFIG 42)\<lparr>debug := True, minMultiplier := Fin 1\<rparr>" 3] h
  show ?thesis by blast
qed

text \<open>
  C7: the Reference Price Resolver is to return a strictly positive number or absent,
  a non-positive value in the tables yielding absent. The verbose variant does not: a
  record of an object-shaped price table whose price is the numeric string \<open>"-5"\<close>
  resolves to the number \<open>-5\<close>, and one whose price is \<open>"0"\<close> to \<open>0\<close>, where the
  compact variant answers \<open>null\<close> for both.
\<close>

theorem C7_non_positive_string_price:
  "fst (lookupTemplatePriceFromDatabase Number_literal (prices_object (Str ''-5''))
          (Some ''item'') (new_randomizer (DEFAULT_CONFIG 0))) = Num (Fin (- 5))
   \<and> fst (lookupTemplatePriceFromDatabase Number_literal (prices_object (Str ''0''))
          (Some ''item'') (new_randomizer (DEFAULT_CONFIG 0))) = Num (Fin 0)
   \<and> fst (lookupPrice Number_literal (prices_object (Str ''-5'')) (Some ''item'')
          (new_engine (DEFAULT_CONFIG 0))) = Inr Null
   \<and> fst (lookupPrice Number_literal (prices_object (Str ''0'')) (Some ''item'')
          (new_engine (DEFAULT_CONFIG 0))) = Inr Null"
  by (simp add: lookupTemplatePriceFromDatabase_def lookupTemplate_try_def
        lookupTemplate_prices_def lookupTemplate_handbook_def new_randomizer_def
        lookupPrice_def new_engine_def lookupPrice_prices_def gt0_def
        prices_object_def priced_def js_or_def digit_def table_get_def get_prop_def
        unsigned_literal_def fl_def overflow_threshold_def)

lemma lookupPrice_positive_or_null:
  assumes "map_of (priceCache e) t = None" and "lookupPrice N d t e = (Inr v, e')"
  shows "v = Null \<or> (truthy v \<and> gt0 N v)"
  using assms
  by (auto simp: lookupPrice_def Let_def split: sum.splits if_splits)

text \<open>
  In an array-shaped price table the compact variant does not convert a numeric string:
  the value it returns for the price \<open>"100"\<close> is that string.
\<close>

lemma lookupPrice_array_string:
  "fst (lookupPrice Number_literal (prices_array (Str ''100'')) (Some ''item'')
          (new_engine (DEFAULT_CONFIG 0))) = Inr (Str ''100'')"
  by (simp add: lookupPrice_def new_engine_def prices_array_def priced_def
        lookupPrice_prices_def js_or_def gt0_def digit_def Let_def
        unsigned_literal_def fl_def overflow_threshold_def)

subsection \<open>Price Randomizer\<close>

lemma multiplier_not_negative:
  assumes "0 \<le> r" and "num_le (minMultiplier cfg) (maxMultiplier cfg)"
    and "num_le (Fin 0) (minMultiplier cfg)"
  shows "not_negative (multiplier cfg r)"
  unfolding multiplier_def
  using assms
  by (intro not_negative_add not_negative_mul not_negative_sub not_negative_of_le) simp_all

lemma randomized_not_negative:
  assumes "gt0 N baseline" and "0 \<le> r"
    and "num_le (minMultiplier cfg) (maxMultiplier cfg)"
    and "num_le (Fin 0) (minMultiplier cfg) \<or> num_gt0 (minAbsolute cfg)"
  shows "not_negative (randomized cfg N baseline r)"
proof -
  let ?p0 = "num_mul (ToNumber N baseline) (multiplier cfg r)"
  let ?p1 = "if num_gt0 (minAbsolute cfg) then Math_max ?p0 (minAbsolute cfg) else ?p0"
  let ?p2 = "if num_gt0 (maxAbsolute cfg) then Math_min ?p1 (maxAbsolute cfg) else ?p1"
  have eq: "randomized cfg N baseline r = round_mode ?p2 (rounding cfg)"
    by (simp add: randomized_def Let_def)
  have b: "not_negative (ToNumber N baseline)"
    using assms(1) by (simp add: gt0_def not_negative_of_gt0)
  have p1: "not_negative ?p1"
  proof (cases "num_gt0 (minAbsolute cfg)")
    case True
    then show ?thesis by (simp add: not_negative_max)
  next
    case False
    with assms(4) have "num_le (Fin 0) (minMultiplier cfg)" by simp
    from multiplier_not_negative [OF assms(2,3) this] b False
    show ?thesis by (simp add: not_negative_mul)
  qed
  then have "not_negative ?p2" by (simp add: not_negative_min)
  then show ?thesis unfolding eq by (rule not_negative_round)
qed

text \<open>
  With a finite baseline and finite bounds of moderate size, at most \<open>2^500\<close> in absolute
  value, nothing overflows and the price is a finite number.
\<close>

lemma moderate: "\<bar>x\<bar> \<le> 2 ^ 1001 \<Longrightarrow> fl x = Fin x"
  by (rule fl_Fin) (simp add: overflow_threshold_def)

lemma randomized_finite:
  assumes "0 \<le> r" and "r < 1"
    and "ToNumber N baseline = Fin b" and "\<bar>b\<bar> \<le> 2 ^ 500"
    and "minMultiplier cfg = Fin lo" and "maxMultiplier cfg = Fin hi" and "lo \<le> hi"
    and "\<bar>lo\<bar> \<le> 2 ^ 500" and "\<bar>hi\<bar> \<le> 2 ^ 500"
    and "isFinite (minAbsolute cfg)" and "isFinite (maxAbsolute cfg)"
  shows "\<exists>p. randomized cfg N baseline r = Fin p"
proof -
  have big: "(2::real) ^ 500 \<le> MAX_VALUE" by (simp add: MAX_VALUE_def)
  have "\<bar>hi - lo\<bar> \<le> 2 ^ 1001" using assms(8,9) by (simp add: abs_le_iff)
  then have "isFinite (num_sub (Fin hi) (Fin lo))" by (simp add: num_sub_def moderate)
  from multiplier_bounds [OF assms(1,2,5,6,7) _ _ this] assms(8,9) big
  obtain m where m: "multiplier cfg r = Fin m" "lo \<le> m" "m \<le> hi" by auto
  then have "\<bar>m\<bar> \<le> 2 ^ 500" using assms(8,9) by (simp add: abs_le_iff)
  with assms(4) have "\<bar>b\<bar> * \<bar>m\<bar> \<le> 2 ^ 500 * 2 ^ 500" by (intro mult_mono) simp_all
  then have "\<bar>b * m\<bar> \<le> 2 ^ 1001" by (simp add: abs_mult)
  then have p0: "fl (b * m) = Fin (b * m)" by (rule moderate)
  from assms(10,11) obtain a c where ac: "minAbsolute cfg = Fin a" "maxAbsolute cfg = Fin c"
    by (cases "minAbsolute cfg"; cases "maxAbsolute cfg") simp_all
  show ?thesis
    by (simp add: randomized_def assms(3) m(1) p0 ac Math_max_Fin Math_min_Fin Let_def
        round_mode_Fin)
qed

lemma price_finite:
  assumes "ToNumber N baseline = Fin b" and "\<bar>b\<bar> \<le> 2 ^ 500"
    and "minMultiplier cfg = Fin lo" and "maxMultiplier cfg = Fin hi" and "lo \<le> hi"
    and "\<bar>lo\<bar> \<le> 2 ^ 500" and "\<bar>hi\<bar> \<le> 2 ^ 500"
    and "isFinite (minAbsolute cfg)" and "isFinite (maxAbsolute cfg)"
  shows "(\<exists>p. fst (randomizePrice cfg N baseline e) = Fin p)
    \<and> (\<exists>p. fst (calculateRandomizedPrice cfg N baseline e) = Fin p)"
  using randomized_finite [OF _ _ assms, of "rng_output (rng_state (rng e))"] rng_output_range
  by (simp add: randomizePrice_step calculateRandomizedPrice_step calculated_eq)

lemma loaders_validate:
  "num_le (minMultiplier (loadAndValidateConfig a b c d cfg))
     (maxMultiplier (loadAndValidateConfig a b c d cfg))
   \<and> isFinite (minMultiplier (loadAndValidateConfig a b c d cfg))
   \<and> isFinite (maxMultiplier (loadAndValidateConfig a b c d cfg))
   \<and> num_le (Fin 0) (minAbsolute (loadAndValidateConfig a b c d cfg))
   \<and> num_le (Fin 0) (maxAbsolute (loadAndValidateConfig a b c d cfg))
   \<and> num_le (minMultiplier (loadAndValidateConfig_compact a b c d cfg))
       (maxMultiplier (loadAndValidateConfig_compact a b c d cfg))
   \<and> num_le (Fin 0) (minAbsolute (loadAndValidateConfig_compact a b c d cfg))
   \<and> num_le (Fin 0) (maxAbsolute (loadAndValidateConfig_compact a b c d cfg))"
  by (cases a; cases b; cases c; cases d)
     (simp_all add: loadAndValidateConfig_def loadAndValidateConfig_compact_def Let_def
        Math_max_def)

text \<open>
  C6, as amended: for every strictly positive baseline and every configuration with
  \<open>minMultiplier <= maxMultiplier\<close> and absolute bounds \<open>>= 0\<close>, as the loaders leave it,
  whose \<open>minMultiplier\<close> is \<open>>= 0\<close> or whose \<open>minAbsolute\<close> is \<open>> 0\<close>, the price either
  variant of the Price Randomizer returns is never negative: it is a finite number
  \<open>\<ge> 0\<close>, or \<open>Infinity\<close> or \<open>NaN\<close> where the arithmetic overflows.
\<close>

theorem C6_price_not_negative:
  assumes "gt0 N baseline"
    and "num_le (minMultiplier cfg) (maxMultiplier cfg)"
    and "num_le (Fin 0) (minAbsolute cfg)" and "num_le (Fin 0) (maxAbsolute cfg)"
    and "num_le (Fin 0) (minMultiplier cfg) \<or> num_gt0 (minAbsolute cfg)"
  shows "not_negative (fst (randomizePrice cfg N baseline e))
       \<and> \<not> num_lt0 (fst (randomizePrice cfg N baseline e))
       \<and> not_negative (fst (calculateRandomizedPrice cfg N baseline e))
       \<and> \<not> num_lt0 (fst (calculateRandomizedPrice cfg N baseline e))"
proof -
  have r: "0 \<le> rng_output (rng_state (rng e))"
    using rng_output_range [of "rng_state (rng e)"] by simp
  have n: "not_negative x \<Longrightarrow> \<not> num_lt0 x" for x by (cases x) simp_all
  from randomized_not_negative [OF assms(1) r assms(2,5)]
  show ?thesis
    by (simp add: randomizePrice_step calculateRandomizedPrice_step calculated_eq n)
qed

theorem C6_witness:
  "gt0 Number_literal (Num (Fin 100))
   \<and> num_le (minMultiplier (DEFAULT_CONFIG 0)) (maxMultiplier (DEFAULT_CONFIG 0))
   \<and> num_le (Fin 0) (minAbsolute (DEFAULT_CONFIG 0))
   \<and> num_le (Fin 0) (maxAbsolute (DEFAULT_CONFIG 0))
   \<and> num_le (Fin 0) (minMultiplier (DEFAULT_CONFIG 0))
   \<and> not_negative (fst (randomizePrice (DEFAULT_CONFIG 0) Number_literal (Num (Fin 100))
                          (new_engine (DEFAULT_CONFIG 0))))
   \<and> not_negative (fst (calculateRandomizedPrice (DEFAULT_CONFIG 0) Number_literal
                          (Num (Fin 100)) (new_randomizer (DEFAULT_CONFIG 0))))"
proof -
  have h: "gt0 Number_literal (Num (Fin 100))"
    "num_le (minMultiplier (DEFAULT_CONFIG 0)) (maxMultiplier (DEFAULT_CONFIG 0))"
    "num_le (Fin 0) (minAbsolute (DEFAULT_CONFIG 0))"
    "num_le (Fin 0) (maxAbsolute (DEFAULT_CONFIG 0))"
    "num_le (Fin 0) (minMultiplier (DEFAULT_CONFIG 0))"
    by (simp_all add: gt0_def DEFAULT_CONFIG_def)
  from h(5) have d: "num_le (Fin 0) (minMultiplier (DEFAULT_CONFIG 0))
                     \<or> num_gt0 (minAbsolute (DEFAULT_CONFIG 0))"
    by simp
  from C6_price_not_negative [OF h(1-4) d, of "new_engine (DEFAULT_CONFIG 0)"]
    C6_price_not_negative [OF h(1-4) d, of "new_randomizer (DEFAULT_CONFIG 0)"] h
  show ?thesis by blast
qed

text \<open>
  C6 as stated fails: both loaders accept the multipliers \<open>-1\<close> and \<open>-1\<close>, and with no
  absolute bounds the baseline \<open>100\<close> is priced at \<open>-100\<close>.
\<close>

theorem C6_counterexample:
  "gt0 Number_literal (Num (Fin 100))
   \<and> num_le (minMultiplier negative_config) (maxMultiplier negative_config)
   \<and> isFinite (minMultiplier negative_config) \<and> isFinite (maxMultiplier negative_config)
   \<and> num_le (Fin 0) (minAbsolute negative_config)
   \<and> num_le (Fin 0) (maxAbsolute negative_config)
   \<and> fst (calculateRandomizedPrice negative_config Number_literal (Num (Fin 100))
            (new_randomizer negative_config)) = Fin (- 100)
   \<and> num_le (minMultiplier negative_config_compact) (maxMultiplier negative_config_compact)
   \<and> isFinite (minMultiplier negative_config_compact)
   \<and> isFinite (maxMultiplier negative_config_compact)
   \<and> num_le (Fin 0) (minAbsolute negative_config_compact)
   \<and> num_le (Fin 0) (maxAbsolute negative_config_compact)
   \<and> fst (randomizePrice negative_config_compact Number_literal (Num (Fin 100))
            (new_engine negative_config_compact)) = Fin (- 100)
   \<and> num_lt0 (Fin (- 100))"
proof -
  have c: "minMultiplier negative_config = Fin (- 1)" "maxMultiplier negative_config = Fin (- 1)"
    "minAbsolute negative_config = Fin 0" "maxAbsolute negative_config = Fin 0"
    "rounding negative_config = ''nearest''"
    by (simp_all add: negative_config_def loadAndValidateConfig_def Let_def DEFAULT_CONFIG_def)
  have k: "minMultiplier negative_config_compact = Fin (- 1)"
    "maxMultiplier negative_config_compact = Fin (- 1)"
    "minAbsolute negative_config_compact = Fin 0" "maxAbsolute negative_config_compact = Fin 0"
    "rounding negative_config_compact = ''nearest''"
    by (simp_all add: negative_config_compact_def loadAndValidateConfig_compact_def Let_def
          DEFAULT_CONFIG_def Math_max_def)
  have f: "\<bar>x\<bar> \<le> 100 \<Longrightarrow> fl x = Fin x" for x
    by (rule fl_Fin) (simp add: overflow_threshold_def)
  have "calculated negative_config Number_literal (Num (Fin 100)) r = Fin (- 100)" for r
    by (simp add: calculated_def randomMultiplier_def c roundValueByMode_def Let_def
          num_sub_def f)
  moreover
  have "randomized negative_config_compact Number_literal (Num (Fin 100)) r = Fin (- 100)" for r
    by (simp add: randomized_def multiplier_def k round_mode_def Let_def num_sub_def f)
  ultimately show ?thesis
    by (simp add: c k gt0_def randomizePrice_def calculateRandomizedPrice_def
          split: prod.splits)
qed

subsection \<open>Memoization of the resolver\<close>

lemma cache_kept_iff:
  "cache_kept e e'
   \<longleftrightarrow> (\<forall>t v. map_of (priceCache e) t = Some v \<longrightarrow> map_of (priceCache e') t = Some v)"
proof
  assume k: "cache_kept e e'"
  show "\<forall>t v. map_of (priceCache e) t = Some v \<longrightarrow> map_of (priceCache e') t = Some v"
  proof (intro allI impI)
    fix t v assume a: "map_of (priceCache e) t = Some v"
    then have "(t, v) \<in> set (priceCache e)" by (rule map_of_SomeD)
    then have "t \<in> fst ` set (priceCache e)" by force
    from k [unfolded cache_kept_def, rule_format, OF this] a
    show "map_of (priceCache e') t = Some v" by simp
  qed
next
  assume a: "\<forall>t v. map_of (priceCache e) t = Some v \<longrightarrow> map_of (priceCache e') t = Some v"
  show "cache_kept e e'"
    unfolding cache_kept_def
  proof
    fix t assume "t \<in> fst ` set (priceCache e)"
    then obtain v where "map_of (priceCache e) t = Some v"
      by (metis map_of_eq_None_iff not_Some_eq)
    with a show "map_of (priceCache e') t = map_of (priceCache e) t" by simp
  qed
qed

lemma cache_kept_refl: "cache_kept e e"
  by (simp add: cache_kept_def)

lemma cache_kept_same: "priceCache e' = priceCache e \<Longrightarrow> cache_kept e e'"
  by (simp add: cache_kept_def)

lemma cache_kept_trans: "cache_kept a b \<Longrightarrow> cache_kept b c \<Longrightarrow> cache_kept a c"
  by (simp add: cache_kept_iff)

lemma cache_kept_update:
  "map_of (priceCache e) t = None
   \<Longrightarrow> cache_kept e (e\<lparr>priceCache := AList.update t v (priceCache e)\<rparr>)"
  by (auto simp: cache_kept_iff update_conv')

text \<open>An identifier that is in the cache is answered from it, whatever the tables.\<close>

lemma cached_price_returned:
  assumes "map_of (priceCache e) t = Some v"
  shows "lookupPrice N d t e = (Inr v, e)"
    and "lookupTemplatePriceFromDatabase N d t e = (v, e)"
  using assms by (simp_all add: lookupPrice_def lookupTemplatePriceFromDatabase_def)

text \<open>A call that returns leaves its result in the cache.\<close>

lemma map_of_update_same: "map_of (AList.update k v al) k = Some v"
  by (simp add: update_conv')

lemma returned_price_cached:
  "lookupPrice N d t e = (Inr v, e1) \<Longrightarrow> map_of (priceCache e1) t = Some v"
  "lookupTemplatePriceFromDatabase N d t e = (v2, e2) \<Longrightarrow> map_of (priceCache e2) t = Some v2"
  by (auto simp: lookupPrice_def lookupTemplatePriceFromDatabase_def log_def Let_def
        map_of_update_same split: option.splits sum.splits if_splits)

text \<open>
  A call of the resolver, for any identifier and whether it returns or raises, keeps
  every entry of the cache; so does every other operation of the engine.
\<close>

lemma lookupPrice_keeps: "cache_kept e (snd (lookupPrice N d t e))"
  by (auto simp: lookupPrice_def Let_def cache_kept_refl cache_kept_update
           split: option.splits sum.splits)

lemma lookupTemplate_keeps: "cache_kept e (snd (lookupTemplatePriceFromDatabase N d t e))"
  by (auto simp: cache_kept_iff lookupTemplatePriceFromDatabase_def log_def update_conv'
           split: option.splits sum.splits)

lemma convertCurrency_keeps: "cache_kept e (snd (convertCurrency cfg N d p t e))"
proof -
  have "cache_kept e (snd (lookupPrice N d t e))" by (rule lookupPrice_keeps)
  moreover have "cache_kept e' (e'\<lparr>currencyCache := c\<rparr>)" for e' c
    by (simp add: cache_kept_def)
  ultimately show ?thesis
    by (auto simp: convertCurrency_def cache_kept_refl split: prod.splits sum.splits
             intro: cache_kept_trans)
qed

lemma convertRubles_keeps:
  "cache_kept e (snd (convertRublesToTargetCurrency cfg N d p t e))"
proof -
  have "cache_kept e (snd (lookupTemplatePriceFromDatabase N d t e))"
    by (rule lookupTemplate_keeps)
  moreover have "cache_kept e' (e'\<lparr>currencyCache := c\<rparr>)" for e' c
    by (simp add: cache_kept_def)
  ultimately show ?thesis
    by (auto simp: convertRublesToTargetCurrency_def Let_def cache_kept_refl
             split: prod.splits intro: cache_kept_trans)
qed

lemma updateOffer_keeps: "cache_kept e (snd (snd (updateOffer cfg N offers p d e)))"
proof (cases "if onlyCashTrades cfg then findCurrencyOffer cfg offers else first_offer offers")
  case None
  then show ?thesis by (simp add: updateOffer_def cache_kept_refl)
next
  case (Some i)
  show ?thesis
  proof (cases "offer_at offers i")
    case None
    with Some show ?thesis by (simp add: updateOffer_def cache_kept_refl)
  next
    case (Some target)
    with \<open>_ = Some i\<close> show ?thesis
      using convertCurrency_keeps [of e cfg N d p "o_tpl target"]
      by (auto simp: updateOffer_def cache_kept_refl split: prod.splits sum.splits)
  qed
qed

lemma updateTradeOfferPrice_keeps:
  "cache_kept e (snd (snd (updateTradeOfferPrice cfg N offers p d e)))"
proof (cases "if onlyCashTrades cfg then findCurrencyOfferInTradeList cfg offers
              else first_offer offers")
  case None
  then show ?thesis by (simp add: updateTradeOfferPrice_def cache_kept_refl split: if_splits)
next
  case (Some i)
  show ?thesis
  proof (cases "offer_at offers i")
    case None
    with Some show ?thesis
      by (simp add: updateTradeOfferPrice_def cache_kept_refl split: if_splits)
  next
    case (Some target)
    with \<open>_ = Some i\<close> show ?thesis
      using convertRubles_keeps [of e cfg N d p "o_tpl target"]
      by (auto simp: updateTradeOfferPrice_def cache_kept_refl split: prod.splits if_splits)
  qed
qed

lemma lookup_templates_keeps: "cache_kept e (snd (lookup_templates N d ts e))"
proof (induction ts arbitrary: e)
  case Nil
  then show ?case by (simp add: cache_kept_refl)
next
  case (Cons t ts)
  obtain r e1 where l: "lookupPrice N d (Some t) e = (r, e1)"
    by (cases "lookupPrice N d (Some t) e") auto
  with lookupPrice_keeps [of e N d "Some t"] have k: "cache_kept e e1" by simp
  show ?case
  proof (cases r)
    case (Inl x)
    with l k show ?thesis by simp
  next
    case (Inr price)
    let ?e2 = "if truthy price \<and> gt0 N price
               then e1\<lparr>baselinePrices := AList.update t price (baselinePrices e1)\<rparr> else e1"
    have "cache_kept e1 ?e2" by (simp add: cache_kept_def)
    with k have "cache_kept e ?e2" by (rule cache_kept_trans)
    from cache_kept_trans [OF this Cons.IH [of ?e2]] l Inr show ?thesis by simp
  qed
qed

lemma establish_baselines_keeps: "cache_kept e (establish_baselines N d ts e)"
proof (induction ts arbitrary: e)
  case Nil
  then show ?case by (simp add: cache_kept_refl)
next
  case (Cons t ts)
  obtain price e1 where l: "lookupTemplatePriceFromDatabase N d (Some t) e = (price, e1)"
    by (cases "lookupTemplatePriceFromDatabase N d (Some t) e") auto
  with lookupTemplate_keeps [of e N d "Some t"] have k: "cache_kept e e1" by simp
  let ?e2 = "if truthy price \<and> gt0 N price
             then e1\<lparr>baselinePrices := AList.update t price (baselinePrices e1)\<rparr> else e1"
  have "cache_kept e1 ?e2" by (simp add: cache_kept_def)
  with k have "cache_kept e ?e2" by (rule cache_kept_trans)
  from cache_kept_trans [OF this Cons.IH [of ?e2]] l show ?case by simp
qed

lemma buildBaselines_keeps: "cache_kept e (snd (buildBaselines cfg N d ids e))"
proof -
  let ?e0 = "e\<lparr>baselinePrices := []\<rparr>"
  have 0: "cache_kept e ?e0" by (simp add: cache_kept_def)
  have 1: "cache_kept e (snd (lookup_templates N d ts ?e0))" for ts
    using cache_kept_trans [OF 0 lookup_templates_keeps] .
  have 2: "cache_kept e e1 \<Longrightarrow> cache_kept e (log l ev e1)" for e1 l ev
    by (simp add: cache_kept_def log_def)
  show ?thesis
  proof (cases "stickToBaseline cfg \<and> baselinePrices e \<noteq> []")
    case True
    then show ?thesis by (simp add: buildBaselines_def cache_kept_refl)
  next
    case False
    show ?thesis
    proof (cases "collect_templates d ids []")
      case (Inl x)
      with False 0 show ?thesis by (simp add: buildBaselines_def Let_def cache_kept_refl)
    next
      case (Inr ts)
      obtain r e1 where l: "lookup_templates N d ts ?e0 = (r, e1)"
        by (cases "lookup_templates N d ts ?e0") auto
      with 1 [of ts] have "cache_kept e e1" by simp
      with False Inr l 2 show ?thesis
        by (cases r) (simp_all add: buildBaselines_def Let_def cache_kept_refl)
    qed
  qed
qed

lemma buildBaselinePrices_keeps:
  "cache_kept e (buildBaselinePricesFromTraders cfg N d ids force e)"
proof -
  let ?e0 = "e\<lparr>baselinePrices := []\<rparr>"
  have 0: "cache_kept e ?e0" by (simp add: cache_kept_def)
  have 1: "cache_kept e (establish_baselines N d ts ?e0)" for ts
    using cache_kept_trans [OF 0 establish_baselines_keeps] .
  have 2: "cache_kept e e1 \<Longrightarrow> cache_kept e (log l ev e1)" for e1 l ev
    by (simp add: cache_kept_def log_def)
  show ?thesis
    using 1 2 by (simp add: buildBaselinePricesFromTraders_def Let_def cache_kept_refl)
qed

text \<open>
  So, in the verbose variant, after one call for an identifier every later call for it,
  on any instance reached through operations that keep the cache and whatever the tables
  then are, returns what the first call returned and changes nothing. In the compact
  variant the same holds after a call that returned.
\<close>

lemma resolver_memoized:
  "lookupTemplatePriceFromDatabase N d t e = (v, e1) \<Longrightarrow> cache_kept e1 e2
   \<Longrightarrow> lookupTemplatePriceFromDatabase N' d' t e2 = (v, e2)"
  "lookupPrice N d t e = (Inr v, e1) \<Longrightarrow> cache_kept e1 e2
   \<Longrightarrow> lookupPrice N' d' t e2 = (Inr v, e2)"
proof -
  assume a: "lookupTemplatePriceFromDatabase N d t e = (v, e1)" and k: "cache_kept e1 e2"
  from returned_price_cached(2) [OF a] k have "map_of (priceCache e2) t = Some v"
    by (simp add: cache_kept_iff)
  then show "lookupTemplatePriceFromDatabase N' d' t e2 = (v, e2)"
    by (rule cached_price_returned)
next
  assume a: "lookupPrice N d t e = (Inr v, e1)" and k: "cache_kept e1 e2"
  from returned_price_cached(1) [OF a] k have "map_of (priceCache e2) t = Some v"
    by (simp add: cache_kept_iff)
  then show "lookupPrice N' d' t e2 = (Inr v, e2)"
    by (rule cached_price_returned)
qed

text \<open>
  C8: after one call of the Reference Price Resolver for an identifier, every later call
  with that identifier is to return what the first call returned without reading the
  tables. The compact variant does not when the first call meets a \<open>null\<close> element in an
  array-shaped table: the call raises and caches nothing, and a later call for the same
  identifier reads the tables again, here returning the price \<open>250\<close> once the \<open>null\<close>
  element is gone. The verbose variant catches the exception, logs it and memoizes
  \<open>null\<close>: its later call returns \<open>null\<close> again whatever the tables.
\<close>

theorem C8_raising_call_not_memoized:
  "lookupPrice Number_literal (prices_array_with_null (Num (Fin 250))) (Some ''item'')
       (new_engine (DEFAULT_CONFIG 0))
     = (Inl TypeError, new_engine (DEFAULT_CONFIG 0))
   \<and> lookupPrice Number_literal (prices_array (Num (Fin 250))) (Some ''item'')
       (new_engine (DEFAULT_CONFIG 0))
     = (Inr (Num (Fin 250)),
        (new_engine (DEFAULT_CONFIG 0))\<lparr>priceCache := [(Some ''item'', Num (Fin 250))]\<rparr>)
   \<and> lookupTemplatePriceFromDatabase Number_literal (prices_array_with_null (Num (Fin 250)))
       (Some ''item'') (new_randomizer (DEFAULT_CONFIG 0))
     = (Null,
        (new_randomizer (DEFAULT_CONFIG 0))
          \<lparr>priceCache := [(Some ''item'', Null)],
            logs := [(Error, LookupFailed (Some ''item'') TypeError)]\<rparr>)
   \<and> lookupTemplatePriceFromDatabase Number_literal (prices_array (Num (Fin 250)))
       (Some ''item'')
       ((new_randomizer (DEFAULT_CONFIG 0))
          \<lparr>priceCache := [(Some ''item'', Null)],
            logs := [(Error, LookupFailed (Some ''item'') TypeError)]\<rparr>)
     = (Null,
        (new_randomizer (DEFAULT_CONFIG 0))
          \<lparr>priceCache := [(Some ''item'', Null)],
            logs := [(Error, LookupFailed (Some ''item'') TypeError)]\<rparr>)"
  by (simp add: lookupPrice_def lookupPrice_prices_def lookupTemplatePriceFromDatabase_def
        lookupTemplate_try_def lookupTemplate_prices_def lookupTemplate_handbook_def
        new_engine_def new_randomizer_def prices_array_with_null_def prices_array_def
        priced_def js_or_def gt0_def log_def Let_def)

subsection \<open>Vendor processing\<close>

lemma priced_item_skip:
  "\<not> priced_item N (baselinePrices e) x
   \<Longrightarrow> process_items cfg N d (x # xs) barters n e = process_items cfg N d xs barters n e"
  "\<not> priced_item N (baselinePrices e) x
   \<Longrightarrow> randomize_items cfg N d (x # xs) barters n e = randomize_items cfg N d xs barters n e"
  by (cases x; auto simp: priced_item_def Let_def)+

lemma process_items_priced:
  assumes "priced_item N (baselinePrices e) (Some it)"
  shows "process_items cfg N d (Some it # xs) barters n e =
     (let newPrice = randomized cfg N (Map_get (baselinePrices e) (key_of (i_tpl it)))
                       (rng_output (rng_state (rng e)));
          e1 = e\<lparr>rng := rng_state (rng e)\<rparr>
      in case scheme_of barters (key_of (i_id it)) of
           None \<Rightarrow> process_items cfg N d xs barters n e1
         | Some found \<Rightarrow>
             (case updateOffer cfg N (offers_of (fst found)) newPrice d e1 of
                (Inl x, offers', e2) \<Rightarrow> (Inl x, barters, e2)
              | (Inr wrote, offers', e2) \<Rightarrow>
                  process_items cfg N d xs
                    (put_offers (key_of (i_id it)) found offers' barters)
                    (if wrote then n + 1 else n) e2))"
  using assms by (simp add: priced_item_def Let_def randomizePrice_step)

lemma randomize_items_priced:
  assumes "priced_item N (baselinePrices e) (Some it)"
  shows "randomize_items cfg N d (Some it # xs) barters n e =
     (let finalRublePrice = calculated cfg N (Map_get (baselinePrices e) (key_of (i_tpl it)))
                              (rng_output (rng_state (rng e)));
          e1 = e\<lparr>rng := rng_state (rng e)\<rparr>
      in case scheme_of barters (key_of (i_id it)) of
           None \<Rightarrow> randomize_items cfg N d xs barters n e1
         | Some found \<Rightarrow>
             (case updateTradeOfferPrice cfg N (offers_of (fst found)) finalRublePrice d e1 of
                (wasUpdated, tradeOffersList, e2) \<Rightarrow>
                  randomize_items cfg N d xs
                    (put_offers (key_of (i_id it)) found tradeOffersList barters)
                    (if wasUpdated then n + 1 else n) e2))"
  using assms by (simp add: priced_item_def Let_def calculateRandomizedPrice_step)

lemma randomize_items_steps:
  "randomize_items cfg N d xs barters n e = (n', barters', e')
   \<Longrightarrow> rng e' = (rng_state ^^ length (filter (priced_item N (baselinePrices e)) xs)) (rng e)
       \<and> baselinePrices e' = baselinePrices e"
proof (induction xs arbitrary: barters n e)
  case Nil
  then show ?case by simp
next
  case (Cons x xs)
  show ?case
  proof (cases "priced_item N (baselinePrices e) x")
    case False
    with Cons.prems have "randomize_items cfg N d xs barters n e = (n', barters', e')"
      by (simp add: priced_item_skip)
    from Cons.IH [OF this] False show ?thesis by simp
  next
    case True
    then obtain it where x: "x = Some it" by (cases x) (auto simp: priced_item_def)
    let ?p = "calculated cfg N (Map_get (baselinePrices e) (key_of (i_tpl it)))
                (rng_output (rng_state (rng e)))"
    let ?e1 = "e\<lparr>rng := rng_state (rng e)\<rparr>"
    note eq = randomize_items_priced [OF True [unfolded x], of cfg d xs barters n]
    show ?thesis
    proof (cases "scheme_of barters (key_of (i_id it))")
      case None
      with Cons.prems x eq
      have "randomize_items cfg N d xs barters n ?e1 = (n', barters', e')"
        by (simp add: Let_def)
      from Cons.IH [OF this] True show ?thesis
        by (simp add: funpow_swap1)
    next
      case (Some found)
      obtain w os e2 where
        u: "updateTradeOfferPrice cfg N (offers_of (fst found)) ?p d ?e1 = (w, os, e2)"
        by (cases "updateTradeOfferPrice cfg N (offers_of (fst found)) ?p d ?e1") auto
      from updateTradeOfferPrice_frame [of cfg N "offers_of (fst found)" ?p d ?e1] u
      have f: "rng e2 = rng_state (rng e)" "baselinePrices e2 = baselinePrices e"
        by simp_all
      from Cons.prems x eq Some u
      have "randomize_items cfg N d xs (put_offers (key_of (i_id it)) found os barters)
              (if w then n + 1 else n) e2 = (n', barters', e')"
        by (simp add: Let_def)
      from Cons.IH [OF this] True f show ?thesis
        by (simp add: funpow_swap1)
    qed
  qed
qed

lemma process_items_steps:
  "process_items cfg N d xs barters n e = (Inr n', barters', e')
   \<Longrightarrow> rng e' = (rng_state ^^ length (filter (priced_item N (baselinePrices e)) xs)) (rng e)
       \<and> baselinePrices e' = baselinePrices e"
proof (induction xs arbitrary: barters n e)
  case Nil
  then show ?case by simp
next
  case (Cons x xs)
  show ?case
  proof (cases "priced_item N (baselinePrices e) x")
    case False
    with Cons.prems have "process_items cfg N d xs barters n e = (Inr n', barters', e')"
      by (simp add: priced_item_skip)
    from Cons.IH [OF this] False show ?thesis by simp
  next
    case True
    then obtain it where x: "x = Some it" by (cases x) (auto simp: priced_item_def)
    let ?p = "randomized cfg N (Map_get (baselinePrices e) (key_of (i_tpl it)))
                (rng_output (rng_state (rng e)))"
    let ?e1 = "e\<lparr>rng := rng_state (rng e)\<rparr>"
    note eq = process_items_priced [OF True [unfolded x], of cfg d xs barters n]
    show ?thesis
    proof (cases "scheme_of barters (key_of (i_id it))")
      case None
      with Cons.prems x eq
      have "process_items cfg N d xs barters n ?e1 = (Inr n', barters', e')"
        by (simp add: Let_def)
      from Cons.IH [OF this] True show ?thesis
        by (simp add: funpow_swap1)
    next
      case (Some found)
      obtain w os e2 where
        u: "updateOffer cfg N (offers_of (fst found)) ?p d ?e1 = (w, os, e2)"
        by (cases "updateOffer cfg N (offers_of (fst found)) ?p d ?e1") auto
      from updateOffer_frame [of cfg N "offers_of (fst found)" ?p d ?e1] u
      have f: "rng e2 = rng_state (rng e)" "baselinePrices e2 = baselinePrices e"
        by simp_all
      from Cons.prems x eq Some u obtain wrote where w: "w = Inr wrote"
        by (cases w) (simp_all add: Let_def)
      from Cons.prems x eq Some u w
      have "process_items cfg N d xs (put_offers (key_of (i_id it)) found os barters)
              (if wrote then n + 1 else n) e2 = (Inr n', barters', e')"
        by (simp add: Let_def)
      from Cons.IH [OF this] True f show ?thesis
        by (simp add: funpow_swap1)
    qed
  qed
qed

text \<open>
  C10, as amended: when a vendor's assortment is processed (in the compact variant, to
  the end, without an exception), the generator is advanced by exactly one step for
  every item of the assortment that has a truthy item identifier, a truthy offer
  identifier and a baseline price that is truthy and not \<open><= 0\<close>, whether or not the
  item has a barter scheme and whether or not its update writes, and by none for any
  other item: the state afterwards is the state before, advanced as many steps as there
  are such items.
\<close>

theorem C10_one_step_per_priced_item:
  "(processTrader cfg N tr d e = (Inr n, tr', e')
      \<longrightarrow> rng e' = (rng_state ^^ length (filter (priced_item N (baselinePrices e))
                                                (trader_items tr))) (rng e))
   \<and> (randomizeTraderPrices cfg N tr d e = (n2, tr2, e2)
      \<longrightarrow> rng e2 = (rng_state ^^ length (filter (priced_item N (baselinePrices e))
                                                (trader_items tr))) (rng e))"
proof (intro conjI impI)
  assume a: "processTrader cfg N tr d e = (Inr n, tr', e')"
  show "rng e' = (rng_state ^^ length (filter (priced_item N (baselinePrices e))
                                          (trader_items tr))) (rng e)"
  proof (cases "t_assort tr")
    case None
    with a show ?thesis by (simp add: processTrader_def trader_items_def)
  next
    case (Some as)
    show ?thesis
    proof (cases "a_items as")
      case NoItems
      with a Some show ?thesis by (simp add: processTrader_def trader_items_def)
    next
      case NonIterable
      with a Some show ?thesis by (simp add: processTrader_def)
    next
      case (Items xs)
      with a Some obtain b e1 where
        p: "process_items cfg N d xs (a_barter_scheme as) 0 e = (Inr n, b, e1)"
        and e: "rng e' = rng e1"
        by (auto simp: processTrader_def log_def split: prod.splits sum.splits if_splits)
      from process_items_steps [OF p] e Some Items show ?thesis
        by (simp add: trader_items_def)
    qed
  qed
next
  assume a: "randomizeTraderPrices cfg N tr d e = (n2, tr2, e2)"
  show "rng e2 = (rng_state ^^ length (filter (priced_item N (baselinePrices e))
                                          (trader_items tr))) (rng e)"
  proof (cases "t_assort tr")
    case None
    with a show ?thesis by (simp add: randomizeTraderPrices_def trader_items_def)
  next
    case (Some as)
    with a obtain b e1 where
      p: "randomize_items cfg N d (trader_items tr) (a_barter_scheme as) 0 e = (n2, b, e1)"
      and e: "rng e2 = rng e1"
      by (auto simp: randomizeTraderPrices_def trader_items_def log_def
               split: prod.splits if_splits)
    from randomize_items_steps [OF p] e show ?thesis by simp
  qed
qed

text \<open>
  C10 as stated fails: an item whose template has the baseline \<open>100\<close> but which has no
  offer identifier is skipped before the price is computed, and the generator is not
  advanced.
\<close>

theorem C10_counterexample:
  "gt0 Number_literal (Map_get (baselinePrices engine_with_baseline) ''item'')
   \<and> trader_items trader_without_offer_id = [Some \<lparr> i_tpl = Some ''item'', i_id = None \<rparr>]
   \<and> processTrader (DEFAULT_CONFIG 0) Number_literal trader_without_offer_id no_tables
        engine_with_baseline = (Inr 0, trader_without_offer_id, engine_with_baseline)
   \<and> randomizeTraderPrices (DEFAULT_CONFIG 0) Number_literal trader_without_offer_id no_tables
        engine_with_baseline = (0, trader_without_offer_id, engine_with_baseline)
   \<and> rng_state (rng engine_with_baseline) \<noteq> rng engine_with_baseline"
  by (simp add: gt0_def Map_get_def engine_with_baseline_def trader_items_def
        trader_without_offer_id_def processTrader_def randomizeTraderPrices_def
        new_engine_def seededRandom_def rng_state_def DEFAULT_CONFIG_def)

lemma fl_small: "\<bar>x\<bar> \<le> 1000 \<Longrightarrow> fl x = Fin x"
  by (rule fl_Fin) (simp add: overflow_threshold_def)

lemma fixed_price:
  "randomized fixed_config Number_literal (Num (Fin 100)) r = Fin 100"
  "calculated fixed_config Number_literal (Num (Fin 100)) r = Fin 100"
  by (simp_all add: randomized_def calculated_def multiplier_def randomMultiplier_def
        fixed_config_def DEFAULT_CONFIG_def round_mode_def roundValueByMode_def Let_def
        num_sub_def fl_small)

lemma fixed_config_fields:
  "onlyCashTrades fixed_config" "\<not> debug fixed_config" "ruble fixed_config = Some rub"
  "currencies fixed_config = [rub, usd, ''569668774bdc2da2298b4568'']" "rub \<noteq> []"
  by (simp_all add: fixed_config_def DEFAULT_CONFIG_def ruble_def rub_def usd_def
        currencies_def)

lemma processTrader_with_offer:
  assumes "baselinePrices e = [(''item'', Num (Fin 100))]"
  shows "processTrader fixed_config Number_literal trader_with_offer d e
     = (Inr 1, trader_repriced, e\<lparr>rng := rng_state (rng e)\<rparr>)"
proof -
  have u: "updateOffer fixed_config Number_literal (Some [Some ruble_offer]) (Fin 100) d e'
           = (Inr True, Some [Some (ruble_offer\<lparr>o_count := Fin 100\<rparr>)], e')" for e'
    by (simp add: updateOffer_def fixed_config_fields ruble_offer_def Math_max_def)
  show ?thesis
    by (simp add: processTrader_def trader_with_offer_def trader_repriced_def assms
          Map_get_def le0_def randomizePrice_step fixed_price u fixed_config_fields
          scheme_of_def get_prop_def put_offers_def)
qed

lemma randomizeTraderPrices_with_offer:
  assumes "baselinePrices e = [(''item'', Num (Fin 100))]"
  shows "randomizeTraderPrices fixed_config Number_literal trader_with_offer d e
     = (1, trader_repriced, e\<lparr>rng := rng_state (rng e)\<rparr>)"
proof -
  have u: "updateTradeOfferPrice fixed_config Number_literal (Some [Some ruble_offer])
             (Fin 100) d e'
           = (True, Some [Some (ruble_offer\<lparr>o_count := Fin 100\<rparr>)], e')" for e'
    by (simp add: updateTradeOfferPrice_def fixed_config_fields ruble_offer_def Math_max_def)
  show ?thesis
    by (simp add: randomizeTraderPrices_def trader_with_offer_def trader_repriced_def assms
          Map_get_def le0_def calculateRandomizedPrice_step fixed_price u
          fixed_config_fields scheme_of_def get_prop_def put_offers_def)
qed

text \<open>
  C10 on a vendor with one priced item, whose offer is rewritten: one step of the
  generator.
\<close>

theorem C10_witness:
  "processTrader fixed_config Number_literal trader_with_offer no_tables engine_with_baseline
     = (Inr 1, trader_repriced,
        engine_with_baseline\<lparr>rng := rng_state (rng engine_with_baseline)\<rparr>)
   \<and> randomizeTraderPrices fixed_config Number_literal trader_with_offer no_tables
       engine_with_baseline
     = (1, trader_repriced,
        engine_with_baseline\<lparr>rng := rng_state (rng engine_with_baseline)\<rparr>)
   \<and> length (filter (priced_item Number_literal (baselinePrices engine_with_baseline))
               (trader_items trader_with_offer)) = 1
   \<and> rng (engine_with_baseline\<lparr>rng := rng_state (rng engine_with_baseline)\<rparr>)
     = (rng_state ^^ length (filter (priced_item Number_literal
                                       (baselinePrices engine_with_baseline))
                               (trader_items trader_with_offer)))
         (rng engine_with_baseline)"
proof -
  have bl: "baselinePrices engine_with_baseline = [(''item'', Num (Fin 100))]"
    by (simp add: engine_with_baseline_def)
  have k: "length (filter (priced_item Number_literal (baselinePrices engine_with_baseline))
               (trader_items trader_with_offer)) = 1"
    by (simp add: bl trader_items_def trader_with_offer_def priced_item_def Map_get_def
          le0_def)
  from C10_one_step_per_priced_item
    [of fixed_config Number_literal trader_with_offer no_tables engine_with_baseline
        1 trader_repriced
        "engine_with_baseline\<lparr>rng := rng_state (rng engine_with_baseline)\<rparr>"
        1 trader_repriced
        "engine_with_baseline\<lparr>rng := rng_state (rng engine_with_baseline)\<rparr>"]
    processTrader_with_offer [OF bl, of no_tables]
    randomizeTraderPrices_with_offer [OF bl, of no_tables] k
  show ?thesis by simp
qed

subsection \<open>The cycle\<close>

lemma process_items_keeps:
  "cache_kept e (snd (snd (process_items cfg N d xs barters n e)))"
proof (induction xs arbitrary: barters n e)
  case Nil
  then show ?case by (simp add: cache_kept_refl)
next
  case (Cons x xs)
  show ?case
  proof (cases "priced_item N (baselinePrices e) x")
    case False
    then show ?thesis using Cons.IH by (simp add: priced_item_skip)
  next
    case True
    then obtain it where x: "x = Some it" by (cases x) (auto simp: priced_item_def)
    let ?p = "randomized cfg N (Map_get (baselinePrices e) (key_of (i_tpl it)))
                (rng_output (rng_state (rng e)))"
    let ?e1 = "e\<lparr>rng := rng_state (rng e)\<rparr>"
    note eq = process_items_priced [OF True [unfolded x], of cfg d xs barters n]
    have k1: "cache_kept e ?e1" by (simp add: cache_kept_def)
    show ?thesis
    proof (cases "scheme_of barters (key_of (i_id it))")
      case None
      with x eq cache_kept_trans [OF k1 Cons.IH [of ?e1]] show ?thesis
        by (simp add: Let_def)
    next
      case (Some found)
      obtain w os e2 where
        u: "updateOffer cfg N (offers_of (fst found)) ?p d ?e1 = (w, os, e2)"
        by (cases "updateOffer cfg N (offers_of (fst found)) ?p d ?e1") auto
      from updateOffer_keeps [of ?e1 cfg N "offers_of (fst found)" ?p d] u
      have "cache_kept ?e1 e2" by simp
      with k1 have k2: "cache_kept e e2" by (rule cache_kept_trans)
      show ?thesis
      proof (cases w)
        case (Inl err)
        with x eq Some u k2 show ?thesis by (simp add: Let_def)
      next
        case (Inr wrote)
        with x eq Some u cache_kept_trans [OF k2 Cons.IH [of e2]] show ?thesis
          by (simp add: Let_def)
      qed
    qed
  qed
qed

lemma randomize_items_keeps:
  "cache_kept e (snd (snd (randomize_items cfg N d xs barters n e)))"
proof (induction xs arbitrary: barters n e)
  case Nil
  then show ?case by (simp add: cache_kept_refl)
next
  case (Cons x xs)
  show ?case
  proof (cases "priced_item N (baselinePrices e) x")
    case False
    then show ?thesis using Cons.IH by (simp add: priced_item_skip)
  next
    case True
    then obtain it where x: "x = Some it" by (cases x) (auto simp: priced_item_def)
    let ?p = "calculated cfg N (Map_get (baselinePrices e) (key_of (i_tpl it)))
                (rng_output (rng_state (rng e)))"
    let ?e1 = "e\<lparr>rng := rng_state (rng e)\<rparr>"
    note eq = randomize_items_priced [OF True [unfolded x], of cfg d xs barters n]
    have k1: "cache_kept e ?e1" by (simp add: cache_kept_def)
    show ?thesis
    proof (cases "scheme_of barters (key_of (i_id it))")
      case None
      with x eq cache_kept_trans [OF k1 Cons.IH [of ?e1]] show ?thesis
        by (simp add: Let_def)
    next
      case (Some found)
      obtain w os e2 where
        u: "updateTradeOfferPrice cfg N (offers_of (fst found)) ?p d ?e1 = (w, os, e2)"
        by (cases "updateTradeOfferPrice cfg N (offers_of (fst found)) ?p d ?e1") auto
      from updateTradeOfferPrice_keeps [of ?e1 cfg N "offers_of (fst found)" ?p d] u
      have "cache_kept ?e1 e2" by simp
      with k1 have k2: "cache_kept e e2" by (rule cache_kept_trans)
      from x eq Some u cache_kept_trans [OF k2 Cons.IH [of e2]] show ?thesis
        by (simp add: Let_def)
    qed
  qed
qed

lemma cache_kept_log: "cache_kept e e1 \<Longrightarrow> cache_kept e (log l ev e1)"
  by (simp add: cache_kept_def log_def)

lemma processTrader_keeps: "cache_kept e (snd (snd (processTrader cfg N tr d e)))"
proof (cases "t_assort tr")
  case None
  then show ?thesis by (simp add: processTrader_def cache_kept_refl)
next
  case (Some a)
  show ?thesis
  proof (cases "a_items a")
    case (Items xs)
    obtain r b e1 where p: "process_items cfg N d xs (a_barter_scheme a) 0 e = (r, b, e1)"
      by (cases "process_items cfg N d xs (a_barter_scheme a) 0 e") auto
    with process_items_keeps [of e cfg N d xs "a_barter_scheme a" 0]
    have "cache_kept e e1" by simp
    with Some Items p show ?thesis
      by (cases r) (simp_all add: processTrader_def cache_kept_log)
  qed (simp_all add: Some processTrader_def cache_kept_refl)
qed

lemma randomizeTraderPrices_keeps:
  "cache_kept e (snd (snd (randomizeTraderPrices cfg N tr d e)))"
proof (cases "t_assort tr")
  case None
  then show ?thesis by (simp add: randomizeTraderPrices_def cache_kept_refl)
next
  case (Some a)
  let ?xs = "case a_items a of Items xs \<Rightarrow> xs | _ \<Rightarrow> []"
  obtain r b e1 where p: "randomize_items cfg N d ?xs (a_barter_scheme a) 0 e = (r, b, e1)"
    by (cases "randomize_items cfg N d ?xs (a_barter_scheme a) 0 e") auto
  with randomize_items_keeps [of e cfg N d ?xs "a_barter_scheme a" 0]
  have "cache_kept e e1" by simp
  with Some p show ?thesis
    by (simp add: randomizeTraderPrices_def cache_kept_log)
qed

lemma runCycle_trader_keeps: "cache_kept (snd w) (snd (runCycle_trader cfg N t w))"
proof (cases w)
  case (Pair d e)
  have "cache_kept e (snd (snd (processTrader cfg N tr d e)))" for tr
    by (rule processTrader_keeps)
  then have "processTrader cfg N tr d e = (r, tr', e') \<Longrightarrow> cache_kept e e'" for tr r tr' e'
    by (metis snd_conv)
  with Pair show ?thesis
    by (auto simp: runCycle_trader_def cache_kept_log cache_kept_refl
             split: property.splits prod.splits sum.splits)
qed

lemma executeCycle_trader_keeps: "cache_kept (snd w) (snd (executeCycle_trader cfg N t w))"
proof (cases w)
  case (Pair d e)
  have "cache_kept e (snd (snd (randomizeTraderPrices cfg N tr d e)))" for tr
    by (rule randomizeTraderPrices_keeps)
  then have "randomizeTraderPrices cfg N tr d e = (r, tr', e') \<Longrightarrow> cache_kept e e'"
    for tr r tr' e'
    by (metis snd_conv)
  with Pair show ?thesis
    by (auto simp: executeCycle_trader_def cache_kept_log cache_kept_refl
             split: property.splits prod.splits)
qed

lemma runCycle_traders_keeps: "cache_kept (snd w) (snd (runCycle_traders cfg N ids w))"
proof (induction ids arbitrary: w)
  case Nil
  then show ?case by (simp add: cache_kept_refl)
next
  case (Cons t ids)
  from cache_kept_trans [OF runCycle_trader_keeps Cons.IH] show ?case by simp
qed

lemma executeCycle_traders_keeps:
  "cache_kept (snd w) (snd (executeCycle_traders cfg N ids w))"
proof (induction ids arbitrary: w)
  case Nil
  then show ?case by (simp add: cache_kept_refl)
next
  case (Cons t ids)
  from cache_kept_trans [OF executeCycle_trader_keeps Cons.IH] show ?case by simp
qed

lemma cycle_traderIds_keeps:
  "cache_kept e (snd (cycle_traderIds cfg d e))"
  "cache_kept e (snd (activeTraderIds cfg d e))"
  by (auto simp: cycle_traderIds_def activeTraderIds_def discoverTraders_def
        autoDiscoverRelevantTraders_def Let_def cache_kept_refl cache_kept_log
        split: sum.splits)

text \<open>A whole cycle keeps every memoized price, also a compact one that raises.\<close>

lemma runCycle_keeps: "cache_kept e (snd (snd (runCycle cfg N d e)))"
proof (cases "enabled cfg")
  case False
  then show ?thesis by (simp add: runCycle_def cache_kept_log cache_kept_refl)
next
  case True
  obtain r e0 where i: "cycle_traderIds cfg d e = (r, e0)"
    by (cases "cycle_traderIds cfg d e") auto
  with cycle_traderIds_keeps(1) [of e cfg d] have k0: "cache_kept e e0" by simp
  show ?thesis
  proof (cases r)
    case (Inl x)
    with True i k0 show ?thesis by (simp add: runCycle_def)
  next
    case (Inr ids)
    obtain b e1 where bb: "buildBaselines cfg N d ids e0 = (b, e1)"
      by (cases "buildBaselines cfg N d ids e0") auto
    with buildBaselines_keeps [of e0 cfg N d ids] have "cache_kept e0 e1" by simp
    with k0 have k1: "cache_kept e e1" by (rule cache_kept_trans)
    show ?thesis
    proof (cases b)
      case (Inl x)
      with True i Inr bb k1 show ?thesis by (simp add: runCycle_def)
    next
      case (Inr u)
      from cache_kept_trans [OF k1] runCycle_traders_keeps [of "(d, e1)" cfg N ids]
      have "cache_kept e (snd (runCycle_traders cfg N ids (d, e1)))" by simp
      with True i \<open>r = Inr ids\<close> bb Inr show ?thesis
        by (simp add: runCycle_def split: prod.splits)
    qed
  qed
qed

lemma executeOneRandomizationCycle_keeps:
  "cache_kept e (snd (executeOneRandomizationCycle cfg N d e))"
proof (cases "enabled cfg")
  case False
  then show ?thesis
    by (simp add: executeOneRandomizationCycle_def cache_kept_log cache_kept_refl)
next
  case True
  obtain ids e0 where i: "activeTraderIds cfg d e = (ids, e0)"
    by (cases "activeTraderIds cfg d e") auto
  with cycle_traderIds_keeps(2) [of e cfg d] have k0: "cache_kept e e0" by simp
  let ?e1 = "buildBaselinePricesFromTraders cfg N d ids False e0"
  from cache_kept_trans [OF k0 buildBaselinePrices_keeps] have k1: "cache_kept e ?e1" .
  from cache_kept_trans [OF k1] executeCycle_traders_keeps [of "(d, ?e1)" cfg N ids]
  have "cache_kept e (snd (executeCycle_traders cfg N ids (d, ?e1)))" by simp
  with True i show ?thesis by (simp add: executeOneRandomizationCycle_def)
qed

text \<open>
  So a price the resolver has returned is returned again after any number of cycles,
  whatever the stores of those cycles and of the later call.
\<close>

lemma resolver_memoized_across_cycles:
  "lookupTemplatePriceFromDatabase N d t e = (v, e1)
   \<Longrightarrow> lookupTemplatePriceFromDatabase N' d' t
         (snd (executeOneRandomizationCycle cfg N1 d1 e1))
       = (v, snd (executeOneRandomizationCycle cfg N1 d1 e1))"
  "lookupPrice N d t e = (Inr v, e1)
   \<Longrightarrow> lookupPrice N' d' t (snd (snd (runCycle cfg N1 d1 e1)))
       = (Inr v, snd (snd (runCycle cfg N1 d1 e1)))"
  by (rule resolver_memoized, assumption, rule executeOneRandomizationCycle_keeps)
     (rule resolver_memoized, assumption, rule runCycle_keeps)

lemma runCycle_traders_append:
  "runCycle_traders cfg N (xs @ ys) w = runCycle_traders cfg N ys (runCycle_traders cfg N xs w)"
  by (induction xs arbitrary: w) simp_all

lemma executeCycle_traders_append:
  "executeCycle_traders cfg N (xs @ ys) w
     = executeCycle_traders cfg N ys (executeCycle_traders cfg N xs w)"
  by (induction xs arbitrary: w) simp_all

text \<open>
  The loop "Process each trader" itself isolates the vendors, in both variants: it takes
  the identifiers of the active set in order, each from the store and the instance the
  earlier ones left. An identifier that \<open>traders[id]\<close> does not find only adds a warning
  to the log; an exception raised by \<open>_processTrader\<close> only adds an error to the log,
  what was written before it staying in place; in both cases the loop goes on with the
  next identifier.
\<close>

lemma cycle_loop_isolates_vendors:
  "runCycle_traders cfg N (pre @ t # post) w
     = runCycle_traders cfg N post (runCycle_trader cfg N t (runCycle_traders cfg N pre w))"
  "get_prop (traders d) t = Absent
   \<Longrightarrow> runCycle_trader cfg N t (d, e) = (d, log Warn (TraderNotFound t) e)"
  "get_prop (traders d) t = Own tr \<Longrightarrow> processTrader cfg N tr d e = (Inl x, tr', e')
   \<Longrightarrow> runCycle_trader cfg N t (d, e)
       = (d\<lparr>traders := AList.update t tr' (traders d)\<rparr>, log Error (ProcessFailed t x) e')"
  "executeCycle_traders cfg N (pre @ t # post) w
     = executeCycle_traders cfg N post
         (executeCycle_trader cfg N t (executeCycle_traders cfg N pre w))"
  "get_prop (traders d) t = Absent
   \<Longrightarrow> executeCycle_trader cfg N t (d, e) = (d, log Warn (TraderNotFound t) e)"
  by (simp_all add: runCycle_traders_append executeCycle_traders_append runCycle_trader_def
        executeCycle_trader_def)

text \<open>
  The compact cycle returns the result of that loop once the discovery and the baseline
  build have returned; the verbose cycle always returns it.
\<close>

lemma cycle_returns:
  "enabled cfg \<Longrightarrow> cycle_traderIds cfg d e = (Inr ids, e0)
   \<Longrightarrow> buildBaselines cfg N d ids e0 = (Inr (), e1)
   \<Longrightarrow> runCycle cfg N d e = (Inr (), runCycle_traders cfg N ids (d, e1))"
  "enabled cfg \<Longrightarrow> activeTraderIds cfg d e = (ids, e0)
   \<Longrightarrow> executeOneRandomizationCycle cfg N d e
       = executeCycle_traders cfg N ids
           (d, buildBaselinePricesFromTraders cfg N d ids False e0)"
  by (simp_all add: runCycle_def executeOneRandomizationCycle_def split: prod.splits)

lemma broken_raises:
  "processTrader cfg N broken_trader d e = (Inl TypeError, broken_trader, e)"
  by (simp add: processTrader_def broken_trader_def)

text \<open>
  With baselines in place the compact loop does isolate the vendor that raises: the
  missing one is warned about, the raising one logged, the third repriced.
\<close>

lemma loop_over_missing_raising_and_good_vendor:
  "runCycle_traders fixed_config Number_literal [''ghost'', ''broken'', ''aio'']
     (two_traders, engine_with_baseline)
   = (two_traders_repriced,
      engine_with_baseline
        \<lparr>rng := rng_state (rng engine_with_baseline),
          logs := [(Warn, TraderNotFound ''ghost''),
                   (Error, ProcessFailed ''broken'' TypeError)]\<rparr>)"
proof -
  have b: "baselinePrices (log l ev e) = baselinePrices e" for l ev e
    by (simp add: log_def)
  have bl: "baselinePrices engine_with_baseline = [(''item'', Num (Fin 100))]"
    by (simp add: engine_with_baseline_def)
  have g: "get_prop (traders two_traders) ''ghost'' = Absent"
    "get_prop (traders two_traders) ''broken'' = Own broken_trader"
    "get_prop (traders two_traders) ''aio'' = Own trader_with_offer"
    by (simp_all add: two_traders_def get_prop_def Object_prototype_def)
  have u: "two_traders\<lparr>traders := AList.update ''broken'' broken_trader (traders two_traders)\<rparr>
           = two_traders"
    "two_traders\<lparr>traders := AList.update ''aio'' trader_repriced (traders two_traders)\<rparr>
           = two_traders_repriced"
    by (simp_all add: two_traders_def two_traders_repriced_def)
  have l: "logs engine_with_baseline = []"
    by (simp add: engine_with_baseline_def new_engine_def)
  show ?thesis
    by (simp add: runCycle_trader_def g broken_raises u b bl processTrader_with_offer)
       (simp add: log_def l)
qed

text \<open>
  C9: one cycle is to process every identifier of the active set, a failure of one
  vendor being logged and never thrown by the cycle. The compact variant does not: its
  call of \<open>_buildBaselines\<close> stands outside the \<open>try\<close> of the loop, and
  \<open>_buildBaselines\<close> iterates \<open>assort.items\<close> of every vendor unguarded. On a fresh
  instance, with the active set \<open>ghost\<close>, \<open>broken\<close>, \<open>aio\<close>, of which the first is missing
  and the second has items that are no array, the compact cycle throws the \<open>TypeError\<close>:
  nothing is logged and no vendor is processed. The verbose variant, whose builder tests
  \<open>Array.isArray\<close> inside a \<open>try\<close>, returns on the same input: the baseline is built,
  the missing vendor is warned about and the third vendor is repriced.
\<close>

theorem C9_cycle_throws_from_baseline_build:
  "runCycle fixed_config Number_literal two_traders (new_engine fixed_config)
     = (Inl TypeError, two_traders, new_engine fixed_config)
   \<and> executeOneRandomizationCycle fixed_config Number_literal two_traders
       (new_randomizer fixed_config)
     = (two_traders_repriced,
        (new_randomizer fixed_config)
          \<lparr>rng := rng_state (rng (new_randomizer fixed_config)),
            baselinePrices := [(''item'', Num (Fin 100))],
            priceCache := [(Some ''item'', Num (Fin 100))],
            logs := [(Info, BuiltBaselines 1), (Warn, TraderNotFound ''ghost'')]\<rparr>)"
proof -
  have g: "get_prop (traders two_traders) ''ghost'' = Absent"
    "get_prop (traders two_traders) ''broken'' = Own broken_trader"
    "get_prop (traders two_traders) ''aio'' = Own trader_with_offer"
    by (simp_all add: two_traders_def get_prop_def Object_prototype_def)
  have f: "enabled fixed_config" "\<not> autoDiscoverTraderIds fixed_config"
    "traderIds fixed_config = [''ghost'', ''broken'', ''aio'']"
    "stickToBaseline fixed_config" "seed fixed_config = 0"
    by (simp_all add: fixed_config_def DEFAULT_CONFIG_def)
  have 1: "runCycle fixed_config Number_literal two_traders (new_engine fixed_config)
     = (Inl TypeError, two_traders, new_engine fixed_config)"
    by (simp add: runCycle_def cycle_traderIds_def f buildBaselines_def g broken_trader_def
          new_engine_def Let_def)
  have k: "collect_unique_templates two_traders [''ghost'', ''broken'', ''aio''] [] = [''item'']"
    by (simp add: g broken_trader_def trader_with_offer_def set_add_def)
  have p: "lookupTemplatePriceFromDatabase Number_literal two_traders (Some ''item'')
             ((new_randomizer fixed_config)\<lparr>baselinePrices := []\<rparr>)
           = (Num (Fin 100),
              (new_randomizer fixed_config)\<lparr>priceCache := [(Some ''item'', Num (Fin 100))]\<rparr>)"
    by (simp add: lookupTemplatePriceFromDatabase_def lookupTemplate_try_def
          lookupTemplate_prices_def lookupTemplate_handbook_def two_traders_def priced_def
          new_randomizer_def)
  have b: "buildBaselinePricesFromTraders fixed_config Number_literal two_traders
             [''ghost'', ''broken'', ''aio''] False (new_randomizer fixed_config)
           = (new_randomizer fixed_config)
               \<lparr>baselinePrices := [(''item'', Num (Fin 100))],
                 priceCache := [(Some ''item'', Num (Fin 100))],
                 logs := [(Info, BuiltBaselines 1)]\<rparr>"
  proof -
    have "establish_baselines Number_literal two_traders [''item'']
            ((new_randomizer fixed_config)\<lparr>baselinePrices := []\<rparr>)
          = (new_randomizer fixed_config)
              \<lparr>priceCache := [(Some ''item'', Num (Fin 100))],
                baselinePrices := [(''item'', Num (Fin 100))]\<rparr>"
      by (simp add: p gt0_def) (simp add: new_randomizer_def)
    then show ?thesis
      unfolding buildBaselinePricesFromTraders_def k
      by (simp add: log_def Let_def new_randomizer_def)
  qed
  have r: "randomizeTraderPrices fixed_config Number_literal broken_trader d e
           = (0, broken_trader, e)" for d e
    by (simp add: randomizeTraderPrices_def broken_trader_def fixed_config_fields)
  have u: "two_traders\<lparr>traders := AList.update ''broken'' broken_trader (traders two_traders)\<rparr>
           = two_traders"
    "two_traders\<lparr>traders := AList.update ''aio'' trader_repriced (traders two_traders)\<rparr>
           = two_traders_repriced"
    by (simp_all add: two_traders_def two_traders_repriced_def)
  have 2: "executeOneRandomizationCycle fixed_config Number_literal two_traders
       (new_randomizer fixed_config)
     = (two_traders_repriced,
        (new_randomizer fixed_config)
          \<lparr>rng := rng_state (rng (new_randomizer fixed_config)),
            baselinePrices := [(''item'', Num (Fin 100))],
            priceCache := [(Some ''item'', Num (Fin 100))],
            logs := [(Info, BuiltBaselines 1), (Warn, TraderNotFound ''ghost'')]\<rparr>)"
    by (simp add: executeOneRandomizationCycle_def activeTraderIds_def f b
          executeCycle_trader_def g r u randomizeTraderPrices_with_offer log_def)
  from 1 2 show ?thesis by simp
qed

text \<open>
  The discovery is outside every \<open>try\<close> of the compact cycle as well: a vendor whose
  nickname is a number makes \<open>_discoverTraders\<close>, and with it the cycle, throw, where
  the verbose variant, which applies \<open>String\<close> to the nickname, returns.
\<close>

lemma cycle_throws_from_discovery:
  "runCycle (DEFAULT_CONFIG 0) Number_literal numeric_nickname (new_engine (DEFAULT_CONFIG 0))
     = (Inl TypeError, numeric_nickname, new_engine (DEFAULT_CONFIG 0))"
  "executeOneRandomizationCycle (DEFAULT_CONFIG 0) Number_literal numeric_nickname
       (new_randomizer (DEFAULT_CONFIG 0))
     = (numeric_nickname,
        (new_randomizer (DEFAULT_CONFIG 0))\<lparr>logs := [(Info, BuiltBaselines 0)]\<rparr>)"
proof -
  have d: "discover (traders numeric_nickname) [] = Inl TypeError"
    by (simp add: numeric_nickname_def lower_nickname_def js_or_def)
  show "runCycle (DEFAULT_CONFIG 0) Number_literal numeric_nickname
          (new_engine (DEFAULT_CONFIG 0))
     = (Inl TypeError, numeric_nickname, new_engine (DEFAULT_CONFIG 0))"
    by (simp add: runCycle_def cycle_traderIds_def discoverTraders_def d DEFAULT_CONFIG_def)
  show "executeOneRandomizationCycle (DEFAULT_CONFIG 0) Number_literal numeric_nickname
       (new_randomizer (DEFAULT_CONFIG 0))
     = (numeric_nickname,
        (new_randomizer (DEFAULT_CONFIG 0))\<lparr>logs := [(Info, BuiltBaselines 0)]\<rparr>)"
    by (simp add: executeOneRandomizationCycle_def activeTraderIds_def
          autoDiscoverRelevantTraders_def aio_trader_def lower_nickname_text_def js_or_def
          numeric_nickname_def DEFAULT_CONFIG_def buildBaselinePricesFromTraders_def
          new_randomizer_def log_def Let_def)
qed

text \<open>
  An identifier that names a property of \<open>Object.prototype\<close> is found by
  \<open>traders[id]\<close> though the store has no such vendor: no warning is logged, and
  processing what is found changes nothing.
\<close>

lemma inherited_vendor_not_warned:
  "runCycle_trader cfg N ''toString'' (no_tables, e) = (no_tables, e)"
  "executeCycle_trader cfg N ''toString'' (no_tables, e) = (no_tables, e)"
  by (simp_all add: runCycle_trader_def executeCycle_trader_def no_tables_def get_prop_def
        Object_prototype_def processTrader_def randomizeTraderPrices_def
        inherited_trader_def)

subsection \<open>A quantity that is no number\<close>

text \<open>
  C1: whenever the Offer Updater reports a write, the quantity written is to be at least
  1. It is not when the price is \<open>NaN\<close>: \<open>Math.max(1, NaN)\<close> is \<open>NaN\<close>, and both
  variants write it into the count and report a write. Such a price is computed from
  the multipliers \<open>-2^1023\<close> and \<open>2^1023\<close> and the seed \<open>2463401483\<close>, which both
  loaders accept: the difference of the multipliers overflows to \<open>Infinity\<close>, the first
  output of the generator is \<open>0\<close>, and \<open>0 * Infinity\<close> is \<open>NaN\<close>. The first cycle of
  either variant over a store whose handbook prices the item at \<open>100\<close> leaves the
  ruble offer of the discovered vendor with the count \<open>NaN\<close>.
\<close>

theorem C1_NaN_quantity_written:
  "fst (randomizePrice wide_config_compact Number_literal (Num (Fin 100))
          (new_engine wide_config_compact)) = NaN
   \<and> updateOffer wide_config_compact Number_literal (Some [Some ruble_offer]) NaN no_tables
       (new_engine wide_config_compact)
     = (Inr True, Some [Some (ruble_offer\<lparr>o_count := NaN\<rparr>)], new_engine wide_config_compact)
   \<and> fst (calculateRandomizedPrice wide_config Number_literal (Num (Fin 100))
            (new_randomizer wide_config)) = NaN
   \<and> updateTradeOfferPrice wide_config Number_literal (Some [Some ruble_offer]) NaN no_tables
       (new_randomizer wide_config)
     = (True, Some [Some (ruble_offer\<lparr>o_count := NaN\<rparr>)], new_randomizer wide_config)
   \<and> \<not> at_least_1 NaN
   \<and> fst (runCycle wide_config_compact Number_literal one_trader
            (new_engine wide_config_compact)) = Inr ()
   \<and> fst (snd (runCycle wide_config_compact Number_literal one_trader
                 (new_engine wide_config_compact))) = one_trader_with_count NaN
   \<and> fst (executeOneRandomizationCycle wide_config Number_literal one_trader
            (new_randomizer wide_config)) = one_trader_with_count NaN"
proof -
  have c: "minMultiplier wide_config = Fin (- (2 ^ 1023))"
    "maxMultiplier wide_config = Fin (2 ^ 1023)" "seed wide_config = 2463401483"
    "minAbsolute wide_config = Fin 0" "maxAbsolute wide_config = Fin 0"
    "rounding wide_config = ''nearest''" "onlyCashTrades wide_config"
    "ruble wide_config = Some rub" "rub \<in> set (currencies wide_config)" "rub \<noteq> []"
    "\<not> debug wide_config" "enabled wide_config" "autoDiscoverTraderIds wide_config"
    "stickToBaseline wide_config"
    by (simp_all add: wide_config_def loadAndValidateConfig_def Let_def DEFAULT_CONFIG_def
          ruble_def rub_def currencies_def)
  have k: "minMultiplier wide_config_compact = Fin (- (2 ^ 1023))"
    "maxMultiplier wide_config_compact = Fin (2 ^ 1023)"
    "seed wide_config_compact = 2463401483"
    "minAbsolute wide_config_compact = Fin 0" "maxAbsolute wide_config_compact = Fin 0"
    "rounding wide_config_compact = ''nearest''" "onlyCashTrades wide_config_compact"
    "ruble wide_config_compact = Some rub" "rub \<in> set (currencies wide_config_compact)"
    "\<not> debug wide_config_compact" "enabled wide_config_compact"
    "autoDiscoverTraderIds wide_config_compact" "stickToBaseline wide_config_compact"
    by (simp_all add: wide_config_compact_def loadAndValidateConfig_compact_def Let_def
          DEFAULT_CONFIG_def ruble_def rub_def currencies_def Math_max_def)
  have r: "rng_call (2463401483 :: u32) = (0, 0)"
    by (simp add: rng_call_def rng_state_def rng_output_def Let_def)
  have m: "multiplier wide_config_compact 0 = NaN" "randomMultiplier wide_config 0 = NaN"
    by (simp_all add: c k multiplier_def randomMultiplier_def num_sub_def fl_def
          overflow_threshold_def)
  have p: "randomized wide_config_compact Number_literal (Num (Fin 100)) 0 = NaN"
    "calculated wide_config Number_literal (Num (Fin 100)) 0 = NaN"
    by (simp_all add: randomized_def calculated_def m c k round_mode_def roundValueByMode_def)
  have p1: "rng e = 2463401483
    \<Longrightarrow> randomizePrice wide_config_compact Number_literal (Num (Fin 100)) e
        = (NaN, e\<lparr>rng := 0\<rparr>)" for e
    by (simp add: randomizePrice_def r p)
  have p2: "rng e = 2463401483
    \<Longrightarrow> calculateRandomizedPrice wide_config Number_literal (Num (Fin 100)) e
        = (NaN, e\<lparr>rng := 0\<rparr>)" for e
    by (simp add: calculateRandomizedPrice_def r p)
  have s1: "rng (new_engine wide_config_compact) = 2463401483"
    "rng (new_randomizer wide_config) = 2463401483"
    by (simp_all add: new_engine_def new_randomizer_def seededRandom_def
          createDeterministicRandomGenerator_def c k)
  have u1: "updateOffer wide_config_compact Number_literal (Some [Some ruble_offer]) NaN d e
     = (Inr True, Some [Some (ruble_offer\<lparr>o_count := NaN\<rparr>)], e)" for d e
    by (simp add: updateOffer_def k c ruble_offer_def Math_max_def)
  have u2: "updateTradeOfferPrice wide_config Number_literal (Some [Some ruble_offer]) NaN d e
     = (True, Some [Some (ruble_offer\<lparr>o_count := NaN\<rparr>)], e)" for d e
    by (simp add: updateTradeOfferPrice_def c ruble_offer_def Math_max_def)
  have t1: "baselinePrices e = [(''item'', Num (Fin 100))] \<Longrightarrow> rng e = 2463401483
    \<Longrightarrow> processTrader wide_config_compact Number_literal trader_with_offer d e
        = (Inr 1, trader_with_count NaN, e\<lparr>rng := 0\<rparr>)" for d e
    by (simp add: processTrader_def trader_with_offer_def trader_with_count_def Map_get_def
          le0_def p1 u1 k scheme_of_def get_prop_def put_offers_def)
  have t2: "baselinePrices e = [(''item'', Num (Fin 100))] \<Longrightarrow> rng e = 2463401483
    \<Longrightarrow> randomizeTraderPrices wide_config Number_literal trader_with_offer d e
        = (1, trader_with_count NaN, e\<lparr>rng := 0\<rparr>)" for d e
    by (simp add: randomizeTraderPrices_def trader_with_offer_def trader_with_count_def
          Map_get_def le0_def p2 u2 c scheme_of_def get_prop_def put_offers_def)
  have lc: "toLowerCase ''AIO'' = ''aio''" "toLowerCase [] = []"
    by code_simp+
  have n: "lower_nickname Undefined = Inr []" "lower_nickname (Str ''AIO'') = Inr ''aio''"
    "lower_nickname_text Undefined = Some []" "lower_nickname_text (Str ''AIO'') = Some ''aio''"
    "\<not> aio_nickname []" "aio_nickname ''aio''"
    by (simp_all add: lower_nickname_def lower_nickname_text_def js_or_def lc
          aio_nickname_def)
  have g: "get_prop (traders one_trader) ''aio'' = Own trader_with_offer"
    by (simp add: one_trader_def get_prop_def)
  have i1: "cycle_traderIds wide_config_compact one_trader e = (Inr [''aio''], e)" for e
    by (simp add: cycle_traderIds_def discoverTraders_def k one_trader_def
          trader_with_offer_def n)
  have i2: "activeTraderIds wide_config one_trader e = ([''aio''], e)" for e
    by (simp add: activeTraderIds_def autoDiscoverRelevantTraders_def c one_trader_def
          trader_with_offer_def aio_trader_def n)
  have l1: "lookupPrice Number_literal one_trader (Some ''item'')
              ((new_engine wide_config_compact)\<lparr>baselinePrices := []\<rparr>)
            = (Inr (Num (Fin 100)),
               (new_engine wide_config_compact)
                 \<lparr>priceCache := [(Some ''item'', Num (Fin 100))]\<rparr>)"
    by (simp add: lookupPrice_def lookupPrice_prices_def lookupPrice_handbook_def
          one_trader_def priced_def new_engine_def js_or_def gt0_def Let_def)
  have l2: "lookupTemplatePriceFromDatabase Number_literal one_trader (Some ''item'')
             ((new_randomizer wide_config)\<lparr>baselinePrices := []\<rparr>)
           = (Num (Fin 100),
              (new_randomizer wide_config)\<lparr>priceCache := [(Some ''item'', Num (Fin 100))]\<rparr>)"
    by (simp add: lookupTemplatePriceFromDatabase_def lookupTemplate_try_def
          lookupTemplate_prices_def lookupTemplate_handbook_def one_trader_def priced_def
          new_randomizer_def)
  have b1: "buildBaselines wide_config_compact Number_literal one_trader [''aio'']
              (new_engine wide_config_compact)
            = (Inr (),
               (new_engine wide_config_compact)
                 \<lparr>baselinePrices := [(''item'', Num (Fin 100))],
                   priceCache := [(Some ''item'', Num (Fin 100))],
                   logs := [(Info, BuiltBaselines 1)]\<rparr>)"
  proof -
    have "collect_templates one_trader [''aio''] [] = Inr [''item'']"
      by (simp add: g trader_with_offer_def set_add_def)
    moreover
    have "lookup_templates Number_literal one_trader [''item'']
            ((new_engine wide_config_compact)\<lparr>baselinePrices := []\<rparr>)
          = (Inr (),
             (new_engine wide_config_compact)
               \<lparr>priceCache := [(Some ''item'', Num (Fin 100))],
                 baselinePrices := [(''item'', Num (Fin 100))]\<rparr>)"
      by (simp add: l1 gt0_def) (simp add: new_engine_def)
    ultimately show ?thesis
      by (simp add: buildBaselines_def Let_def log_def new_engine_def)
  qed
  have b2: "buildBaselinePricesFromTraders wide_config Number_literal one_trader [''aio'']
              False (new_randomizer wide_config)
            = (new_randomizer wide_config)
                \<lparr>baselinePrices := [(''item'', Num (Fin 100))],
                  priceCache := [(Some ''item'', Num (Fin 100))],
                  logs := [(Info, BuiltBaselines 1)]\<rparr>"
  proof -
    have "collect_unique_templates one_trader [''aio''] [] = [''item'']"
      by (simp add: g trader_with_offer_def set_add_def)
    moreover
    have "establish_baselines Number_literal one_trader [''item'']
            ((new_randomizer wide_config)\<lparr>baselinePrices := []\<rparr>)
          = (new_randomizer wide_config)
              \<lparr>priceCache := [(Some ''item'', Num (Fin 100))],
                baselinePrices := [(''item'', Num (Fin 100))]\<rparr>"
      by (simp add: l2 gt0_def) (simp add: new_randomizer_def)
    ultimately show ?thesis
      by (simp add: buildBaselinePricesFromTraders_def Let_def log_def new_randomizer_def)
  qed
  have w: "one_trader\<lparr>traders := AList.update ''aio'' (trader_with_count NaN)
                                    (traders one_trader)\<rparr>
           = one_trader_with_count NaN"
    by (simp add: one_trader_def one_trader_with_count_def)
  have y1: "runCycle wide_config_compact Number_literal one_trader
              (new_engine wide_config_compact)
            = (Inr (), one_trader_with_count NaN,
               (new_engine wide_config_compact)
                 \<lparr>baselinePrices := [(''item'', Num (Fin 100))],
                   priceCache := [(Some ''item'', Num (Fin 100))],
                   logs := [(Info, BuiltBaselines 1)], rng := 0\<rparr>)"
    by (simp add: runCycle_def k i1 b1 runCycle_trader_def g t1 s1 w)
  have y2: "executeOneRandomizationCycle wide_config Number_literal one_trader
              (new_randomizer wide_config)
            = (one_trader_with_count NaN,
               (new_randomizer wide_config)
                 \<lparr>baselinePrices := [(''item'', Num (Fin 100))],
                   priceCache := [(Some ''item'', Num (Fin 100))],
                   logs := [(Info, BuiltBaselines 1)], rng := 0\<rparr>)"
    by (simp add: executeOneRandomizationCycle_def c i2 b2 executeCycle_trader_def g t2 s1 w)
  show ?thesis
    by (simp add: p1 p2 s1 u1 u2 y1 y2)
qed

end
